theory Spec2Isabelle
  imports Main "HOL-Library.Word"
begin

unbundle bit_operations_syntax

section \<open>Undo record sets: the data model of undorecordset.c\<close>

text \<open>
  The development embeds the undo record set engine of zheap, as found in the newer
  revision of \<^verbatim>\<open>undorecordset.c\<close> (the one with \<^verbatim>\<open>UndoPrepareToInsert\<close>,
  \<^verbatim>\<open>UndoReplay\<close> and the crash-recovery scan).  C integers of type \<^verbatim>\<open>int\<close> are
  \<^typ>\<open>int\<close>, \<^verbatim>\<open>UndoLogOffset\<close> and \<^verbatim>\<open>UndoRecPtr\<close> are 64-bit words, block numbers
  are 32-bit words, \<^verbatim>\<open>size_t\<close> byte counts of records and headers are \<^typ>\<open>nat\<close>.
  Arrays with a separate element count (\<^verbatim>\<open>chunks/nchunks\<close>, \<^verbatim>\<open>buffers/nbuffers\<close>) are
  lists whose length is the count.  Pointers to shared-memory undo log slots are slot
  numbers into a table of slots, and a pinned buffer is the tag of the page it holds, so
  that two references to the same slot or page alias in the model as they do in C.
\<close>

type_synonym UndoLogOffset = "64 word"
type_synonym UndoRecPtr = "64 word"
type_synonym UndoLogNumber = nat
type_synonym BlockNumber = "32 word"
type_synonym byte = "8 word"
type_synonym UndoRecordSetType = "8 word"
type_synonym XLogRecPtr = "64 word"
type_synonym slot_ptr = nat
type_synonym urs_ptr = nat

text \<open>
  Compile-time constants whose declarations live in headers outside this file
  (\<^verbatim>\<open>pg_config.h\<close>, \<^verbatim>\<open>undopage.h\<close>, \<^verbatim>\<open>undorecordset.h\<close>, \<^verbatim>\<open>xact.h\<close>, \<^verbatim>\<open>rmgr.h\<close>,
  \<^verbatim>\<open>xlogrecord.h\<close>) are parameters of the model.
\<close>

record config =
  BLCKSZ :: int
  SizeOfUndoPageHeaderData :: int
  SizeOfUndoRecordSetChunkHeader :: int
  InvalidUndoRecPtr :: UndoRecPtr
  UndoDbOid :: nat
  URST_TRANSACTION :: UndoRecordSetType
  URST_FOO :: UndoRecordSetType
  RM_XACT_ID :: nat
  XLR_INFO_MASK :: "8 word"
  XLOG_XACT_OPMASK :: "8 word"
  XLOG_XACT_COMMIT :: "8 word"
  XLOG_XACT_PREPARE :: "8 word"
  XLOG_XACT_ABORT :: "8 word"
  XLOG_XACT_COMMIT_PREPARED :: "8 word"
  XLOG_XACT_ABORT_PREPARED :: "8 word"

text \<open>
  A page has room for its header and for at least one 8-byte chunk size after it, and,
  as \<^verbatim>\<open>write_update_ops_header\<close> of the older revision asserts, is at most 32 kB.
\<close>

definition valid_config :: "config \<Rightarrow> bool" where
  "valid_config K \<longleftrightarrow>
     0 \<le> SizeOfUndoPageHeaderData K \<and>
     SizeOfUndoPageHeaderData K + 8 \<le> BLCKSZ K \<and>
     BLCKSZ K \<le> 32768 \<and>
     0 < SizeOfUndoRecordSetChunkHeader K"

datatype elevel = ERROR | PANIC

text \<open>
  \<open>Elog\<close> is \<^verbatim>\<open>elog(level, message)\<close>, which does not return.  \<open>Fault\<close> marks an access
  that is undefined behaviour in C (an array read outside its bounds, a dangling
  pointer); the source guards these with \<^verbatim>\<open>Assert\<close> only.
\<close>

datatype error = Elog elevel string | Fault string

datatype relpersistence =
  RELPERSISTENCE_PERMANENT | RELPERSISTENCE_UNLOGGED | RELPERSISTENCE_TEMP

datatype UndoRecordSetState = URS_STATE_CLEAN | URS_STATE_DIRTY | URS_STATE_CLOSED

datatype Buffer = InvalidBuffer | BufferTag UndoLogNumber BlockNumber

datatype ReadBufferMode = RBM_NORMAL | RBM_ZERO | RBM_ZERO_AND_LOCK

datatype LWLockMode = LW_EXCLUSIVE | LW_SHARED

datatype XLogRedoAction = BLK_NEEDS_REDO | BLK_DONE | BLK_RESTORED | BLK_NOTFOUND

datatype urs_xlog_flag =
  URS_XLOG_INSERT | URS_XLOG_CREATE | URS_XLOG_ADD_CHUNK | URS_XLOG_ADD_PAGE
| URS_XLOG_CLOSE_CHUNK | URS_XLOG_CLOSE | URS_XLOG_CLOSE_MULTI_CHUNK

record UndoLogSlot =
  logno :: UndoLogNumber
  meta_insert :: UndoLogOffset
  meta_discard :: UndoLogOffset
  meta_size :: UndoLogOffset
  slot_end :: UndoLogOffset
  force_truncate :: bool

record UndoRecordSetChunkHeader =
  ch_size :: UndoLogOffset
  ch_previous_chunk :: UndoRecPtr
  ch_type :: UndoRecordSetType

record UndoRecordSetChunk =
  chunk_slot :: slot_ptr
  chunk_header_written :: bool
  chunk_header_offset :: UndoLogOffset
  chunk_header_buffer_index :: "int list"

record UndoRecordSetXLogBufData =
  flags :: "urs_xlog_flag set"
  insert_page_offset :: int
  chunk_header_location :: UndoRecPtr
  previous_chunk_header_location :: UndoRecPtr
  bd_urs_type :: UndoRecordSetType
  bd_type_header :: "byte list"
  bd_type_header_size :: nat
  chunk_size_page_offset :: int
  chunk_size :: UndoLogOffset
  first_chunk_header_location :: UndoRecPtr

record UndoBuffer =
  buffer :: Buffer
  is_new :: bool
  needs_init :: bool
  bufdata :: UndoRecordSetXLogBufData

record UndoRecordSet =
  urs_type :: UndoRecordSetType
  persistence :: relpersistence
  chunks :: "UndoRecordSetChunk list"
  buffers :: "UndoBuffer list"
  need_chunk_header :: bool
  type_header :: "byte list"
  type_header_size :: nat
  need_type_header :: bool
  urs_begin :: UndoRecPtr
  urs_slot :: "slot_ptr option"
  chunk_start :: UndoRecPtr
  recent_end :: UndoLogOffset
  urs_state :: UndoRecordSetState
  nestingLevel :: int

text \<open>
  An undo page: the three header fields the engine reads and writes, and the page's
  bytes by page offset.
\<close>

record page =
  ud_insertion_point :: "16 word"
  ud_first_chunk :: "16 word"
  ud_continue_chunk :: UndoRecPtr
  bytes :: "int \<Rightarrow> byte"

text \<open>
  Calls into the collaborators (buffer manager, undo log allocator, lock manager, page
  codec, transaction undo layer) and the store to the shared insert pointer are logged,
  oldest first, so that their order can be stated.
\<close>

datatype event =
    EvReadBuffer UndoLogNumber BlockNumber ReadBufferMode
  | EvLockBuffer Buffer LWLockMode
  | EvUnlockReleaseBuffer Buffer
  | EvMarkBufferDirty Buffer
  | EvUndoPageInit Buffer
  | EvUndoPageOverwrite Buffer int int nat UndoLogOffset
  | EvUndoPageInsertHeader Buffer int int UndoRecordSetChunkHeader nat "byte list" UndoRecPtr
  | EvUndoPageInsertRecord Buffer int int nat "byte list" UndoRecPtr UndoRecordSetType
  | EvLWLockAcquire slot_ptr LWLockMode
  | EvLWLockRelease slot_ptr
  | EvStoreInsert slot_ptr UndoLogOffset
  | EvUndoLogGetForPersistence relpersistence slot_ptr
  | EvUndoLogTruncate slot_ptr
  | EvUndoLogAdjustPhysicalRange UndoLogNumber UndoLogOffset UndoLogOffset
  | EvUndoLogPut slot_ptr
  | EvXactUndoCloseRecordSet "byte list" UndoRecPtr UndoRecPtr bool bool
  | EvPageSetLSN Buffer XLogRecPtr
  | EvPfree urs_ptr
  | EvXLogReadBufferForRedoExtended nat ReadBufferMode XLogRedoAction

record world =
  slots :: "slot_ptr \<Rightarrow> UndoLogSlot"
  freelist :: "slot_ptr list"
  pages :: "UndoLogNumber \<times> BlockNumber \<Rightarrow> page"
  UndoRecordSetList :: "urs_ptr list"
  urs_heap :: "urs_ptr \<Rightarrow> UndoRecordSet option"
  trace :: "event list"

definition log_event :: "event list \<Rightarrow> world \<Rightarrow> world" where
  "log_event evs w = w\<lparr>trace := trace w @ evs\<rparr>"

definition BufferGetPage :: "world \<Rightarrow> UndoLogNumber \<Rightarrow> BlockNumber \<Rightarrow> page" where
  "BufferGetPage w l b = pages w (l, b)"

definition set_page :: "UndoLogNumber \<Rightarrow> BlockNumber \<Rightarrow> page \<Rightarrow> world \<Rightarrow> world" where
  "set_page l b p w = w\<lparr>pages := (pages w)((l, b) := p)\<rparr>"

definition zero_bufdata :: UndoRecordSetXLogBufData where
  "zero_bufdata =
     \<lparr>flags = {}, insert_page_offset = 0, chunk_header_location = 0,
      previous_chunk_header_location = 0, bd_urs_type = 0, bd_type_header = [],
      bd_type_header_size = 0, chunk_size_page_offset = 0, chunk_size = 0,
      first_chunk_header_location = 0\<rparr>"

definition URSNeedsWAL :: "UndoRecordSet \<Rightarrow> bool" where
  "URSNeedsWAL urs \<longleftrightarrow> persistence urs = RELPERSISTENCE_PERMANENT"

section \<open>Addresses in an undo log\<close>

text \<open>
  Modelled from the spec: the address macros of \<^verbatim>\<open>undolog.h\<close>, which is not among the
  sources.  An undo record pointer is a 64-bit address made of a log number and an offset;
  a log owns a 1 TiB address space, so the offset takes the low 40 bits.  Advancing by
  usable bytes skips the header at the start of every page.
\<close>

definition UndoLogOffsetBits :: nat where
  "UndoLogOffsetBits = 40"

definition MakeUndoRecPtr :: "UndoLogNumber \<Rightarrow> UndoLogOffset \<Rightarrow> UndoRecPtr" where
  "MakeUndoRecPtr l off = push_bit UndoLogOffsetBits (word_of_nat l) OR off"

definition UndoRecPtrGetLogNo :: "UndoRecPtr \<Rightarrow> UndoLogNumber" where
  "UndoRecPtrGetLogNo urp = unat (drop_bit UndoLogOffsetBits urp)"

definition UndoRecPtrGetOffset :: "UndoRecPtr \<Rightarrow> UndoLogOffset" where
  "UndoRecPtrGetOffset urp = take_bit UndoLogOffsetBits urp"

definition UndoRecPtrGetBlockNum :: "config \<Rightarrow> UndoRecPtr \<Rightarrow> BlockNumber" where
  "UndoRecPtrGetBlockNum K urp = word_of_int (uint (UndoRecPtrGetOffset urp) div BLCKSZ K)"

definition UndoRecPtrGetPageOffset :: "config \<Rightarrow> UndoRecPtr \<Rightarrow> int" where
  "UndoRecPtrGetPageOffset K urp = uint (UndoRecPtrGetOffset urp) mod BLCKSZ K"

definition UndoLogUsableBytesPerPage :: "config \<Rightarrow> int" where
  "UndoLogUsableBytesPerPage K = BLCKSZ K - SizeOfUndoPageHeaderData K"

definition UndoLogOffsetToUsableByteNo :: "config \<Rightarrow> UndoLogOffset \<Rightarrow> int" where
  "UndoLogOffsetToUsableByteNo K off =
     (uint off div BLCKSZ K) * UndoLogUsableBytesPerPage K
       + (uint off mod BLCKSZ K - SizeOfUndoPageHeaderData K)"

definition UndoLogOffsetFromUsableByteNo :: "config \<Rightarrow> int \<Rightarrow> UndoLogOffset" where
  "UndoLogOffsetFromUsableByteNo K i =
     word_of_int ((i div UndoLogUsableBytesPerPage K) * BLCKSZ K
       + SizeOfUndoPageHeaderData K + i mod UndoLogUsableBytesPerPage K)"

definition UndoLogOffsetPlusUsableBytes :: "config \<Rightarrow> UndoLogOffset \<Rightarrow> int \<Rightarrow> UndoLogOffset" where
  "UndoLogOffsetPlusUsableBytes K off n =
     UndoLogOffsetFromUsableByteNo K (UndoLogOffsetToUsableByteNo K off + n)"

definition UndoRecPtrPlusUsableBytes :: "config \<Rightarrow> UndoRecPtr \<Rightarrow> int \<Rightarrow> UndoRecPtr" where
  "UndoRecPtrPlusUsableBytes K urp n =
     MakeUndoRecPtr (UndoRecPtrGetLogNo urp)
       (UndoLogOffsetPlusUsableBytes K (UndoRecPtrGetOffset urp) n)"

section \<open>The page codec\<close>

text \<open>
  Modelled from the spec: the primitives of \<^verbatim>\<open>undopage.c\<close>, which is not among the
  sources.  Each writes the part of its input that fits on the page, starting at
  \<open>page_off\<close> in the page and at \<open>in_off\<close> in the input, and returns the number of bytes
  written, \<open>min (BLCKSZ - page_off) (total - in_off)\<close>.  The insert primitives keep the
  page's insertion point behind the bytes written and note the first chunk that starts on
  the page, or the chunk that continues onto it.
\<close>

definition le_bytes64 :: "64 word \<Rightarrow> byte list" where
  "le_bytes64 v = map (\<lambda>k. ucast (drop_bit (8 * k) v)) [0..<8]"

definition bytes_on_page :: "config \<Rightarrow> int \<Rightarrow> int \<Rightarrow> int \<Rightarrow> int" where
  "bytes_on_page K page_off in_off tot = min (BLCKSZ K - page_off) (tot - in_off)"

definition write_bytes :: "(int \<Rightarrow> byte) \<Rightarrow> int \<Rightarrow> byte list \<Rightarrow> int \<Rightarrow> int \<Rightarrow> (int \<Rightarrow> byte)" where
  "write_bytes f page_off src in_off n =
     (\<lambda>i. if page_off \<le> i \<and> i < page_off + n \<and> nat (in_off + (i - page_off)) < length src
          then src ! nat (in_off + (i - page_off)) else f i)"

definition UndoPageOverwrite :: "config \<Rightarrow> page \<Rightarrow> int \<Rightarrow> int \<Rightarrow> nat \<Rightarrow> byte list \<Rightarrow> int \<times> page" where
  "UndoPageOverwrite K p page_off in_off tot src =
     (let n = bytes_on_page K page_off in_off (int tot)
      in (n, p\<lparr>bytes := write_bytes (bytes p) page_off src in_off n\<rparr>))"

definition UndoPageSkipOverwrite :: "config \<Rightarrow> int \<Rightarrow> int \<Rightarrow> nat \<Rightarrow> int" where
  "UndoPageSkipOverwrite K page_off in_off tot = bytes_on_page K page_off in_off (int tot)"

definition chunk_header_bytes :: "config \<Rightarrow> UndoRecordSetChunkHeader \<Rightarrow> byte list" where
  "chunk_header_bytes K h =
     take (nat (SizeOfUndoRecordSetChunkHeader K))
       (le_bytes64 (ch_size h) @ le_bytes64 (ch_previous_chunk h) @ [ch_type h]
          @ replicate (nat (SizeOfUndoRecordSetChunkHeader K) - 17) 0)"

definition UndoPageInsertHeader ::
  "config \<Rightarrow> page \<Rightarrow> int \<Rightarrow> int \<Rightarrow> UndoRecordSetChunkHeader \<Rightarrow> nat \<Rightarrow> byte list \<Rightarrow> UndoRecPtr
     \<Rightarrow> int \<times> page" where
  "UndoPageInsertHeader K p page_off in_off h th_size th chunk_start_urp =
     (let tot = SizeOfUndoRecordSetChunkHeader K + int th_size;
          n = bytes_on_page K page_off in_off tot;
          src = chunk_header_bytes K h @ take th_size th
      in (n, p\<lparr>bytes := write_bytes (bytes p) page_off src in_off n,
               ud_insertion_point := word_of_int (page_off + n),
               ud_first_chunk :=
                 (if in_off = 0 \<and> ud_first_chunk p = 0 then word_of_int page_off
                  else ud_first_chunk p),
               ud_continue_chunk :=
                 (if in_off \<noteq> 0 \<and> page_off = SizeOfUndoPageHeaderData K then chunk_start_urp
                  else ud_continue_chunk p)\<rparr>))"

definition UndoPageSkipHeader :: "config \<Rightarrow> int \<Rightarrow> int \<Rightarrow> nat \<Rightarrow> int" where
  "UndoPageSkipHeader K page_off in_off th_size =
     bytes_on_page K page_off in_off (SizeOfUndoRecordSetChunkHeader K + int th_size)"

definition UndoPageInsertRecord ::
  "config \<Rightarrow> page \<Rightarrow> int \<Rightarrow> int \<Rightarrow> nat \<Rightarrow> byte list \<Rightarrow> UndoRecPtr \<Rightarrow> UndoRecordSetType
     \<Rightarrow> int \<times> page" where
  "UndoPageInsertRecord K p page_off in_off tot src chunk_start_urp ty =
     (let n = bytes_on_page K page_off in_off (int tot)
      in (n, p\<lparr>bytes := write_bytes (bytes p) page_off src in_off n,
               ud_insertion_point := word_of_int (page_off + n),
               ud_continue_chunk :=
                 (if page_off = SizeOfUndoPageHeaderData K then chunk_start_urp
                  else ud_continue_chunk p)\<rparr>))"

definition UndoPageSkipRecord :: "config \<Rightarrow> int \<Rightarrow> int \<Rightarrow> nat \<Rightarrow> int" where
  "UndoPageSkipRecord K page_off in_off tot = bytes_on_page K page_off in_off (int tot)"

definition UndoPageInit :: "config \<Rightarrow> page" where
  "UndoPageInit K =
     \<lparr>ud_insertion_point = word_of_int (SizeOfUndoPageHeaderData K), ud_first_chunk = 0,
      ud_continue_chunk = InvalidUndoRecPtr K, bytes = (\<lambda>_. 0)\<rparr>"

section \<open>Buffers of a record set\<close>

text \<open>\<^verbatim>\<open>find_or_read_buffer\<close>: the index of the pinned buffer that holds the block, pinning and
  locking it first if no pinned buffer does.\<close>

fun find_buffer :: "UndoBuffer list \<Rightarrow> UndoLogNumber \<Rightarrow> BlockNumber \<Rightarrow> nat \<Rightarrow> nat option" where
  "find_buffer [] l b i = None"
| "find_buffer (u # us) l b i =
     (if buffer u = BufferTag l b then Some i else find_buffer us l b (Suc i))"

definition new_UndoBuffer :: "Buffer \<Rightarrow> UndoBuffer" where
  "new_UndoBuffer buf =
     \<lparr>buffer = buf, is_new = False, needs_init = False, bufdata = zero_bufdata\<rparr>"

definition find_or_read_buffer ::
  "UndoLogNumber \<Rightarrow> BlockNumber \<Rightarrow> world \<times> UndoRecordSet \<Rightarrow> int \<times> world \<times> UndoRecordSet" where
  "find_or_read_buffer l b s =
     (case s of (w, urs) \<Rightarrow>
        (case find_buffer (buffers urs) l b 0 of
           Some i \<Rightarrow> (int i, w, urs)
         | None \<Rightarrow>
             (int (length (buffers urs)),
              log_event [EvReadBuffer l b RBM_NORMAL, EvLockBuffer (BufferTag l b) LW_EXCLUSIVE] w,
              urs\<lparr>buffers := buffers urs @ [new_UndoBuffer (BufferTag l b)]\<rparr>)))"

section \<open>Closing a chunk and a record set\<close>

definition set_chunk_header_buffer_index ::
  "nat \<Rightarrow> int list \<Rightarrow> UndoRecordSet \<Rightarrow> UndoRecordSet" where
  "set_chunk_header_buffer_index ci idx urs =
     urs\<lparr>chunks := (chunks urs)[ci := (chunks urs ! ci)\<lparr>chunk_header_buffer_index := idx\<rparr>]\<rparr>"

definition UndoPrepareToMarkChunkClosed ::
  "config \<Rightarrow> nat \<Rightarrow> world \<times> UndoRecordSet \<Rightarrow> (error + unit) \<times> world \<times> UndoRecordSet" where
  "UndoPrepareToMarkChunkClosed K ci s =
     (case s of (w, urs) \<Rightarrow>
        if length (chunks urs) \<le> ci then (Inl (Fault ''chunk index out of range''), w, urs)
        else
          let chunk = chunks urs ! ci;
              header = chunk_header_offset chunk;
              header_block = (word_of_int (uint header div BLCKSZ K) :: BlockNumber);
              header_offset = uint header mod BLCKSZ K;
              l = logno (slots w (chunk_slot chunk))
          in (case find_or_read_buffer l header_block (w, urs) of
                (i0, w1, urs1) \<Rightarrow>
                  if header_offset \<le> BLCKSZ K - 8
                  then (Inr (), w1, set_chunk_header_buffer_index ci [i0, - 1] urs1)
                  else (case find_or_read_buffer l (header_block + 1) (w1, urs1) of
                          (i1, w2, urs2) \<Rightarrow>
                            (Inr (), w2, set_chunk_header_buffer_index ci [i0, i1] urs2))))"

definition UndoPrepareToMarkClosed ::
  "config \<Rightarrow> world \<times> UndoRecordSet \<Rightarrow> (error + bool) \<times> world \<times> UndoRecordSet" where
  "UndoPrepareToMarkClosed K s =
     (case s of (w, urs) \<Rightarrow>
        if chunks urs = [] then (Inr False, w, urs)
        else (case UndoPrepareToMarkChunkClosed K (length (chunks urs) - 1) (w, urs) of
                (Inl e, w', urs') \<Rightarrow> (Inl e, w', urs')
              | (Inr u, w', urs') \<Rightarrow> (Inr True, w', urs')))"

text \<open>\<^verbatim>\<open>UndoMarkPageClosed\<close>: the per-page work, one call of the codec's overwrite on the
  header buffer number \<open>chbidx\<close> of the chunk.\<close>

definition UndoMarkPageClosed ::
  "config \<Rightarrow> UndoRecordSet \<Rightarrow> UndoRecordSetChunk \<Rightarrow> nat \<Rightarrow> int \<Rightarrow> int \<Rightarrow> UndoLogOffset \<Rightarrow> world
     \<Rightarrow> (error + int) \<times> world" where
  "UndoMarkPageClosed K urs chunk chbidx page_offset data_offset sz w =
     (if 2 \<le> chbidx \<or> length (chunk_header_buffer_index chunk) \<le> chbidx
      then (Inl (Fault ''chunk_header_buffer_index out of range''), w)
      else
        let index = chunk_header_buffer_index chunk ! chbidx
        in if index < 0 \<or> int (length (buffers urs)) \<le> index
           then (Inl (Fault ''buffer index out of range''), w)
           else (case buffer (buffers urs ! nat index) of
                   InvalidBuffer \<Rightarrow> (Inl (Fault ''invalid buffer''), w)
                 | BufferTag l b \<Rightarrow>
                     (case UndoPageOverwrite K (BufferGetPage w l b) page_offset data_offset 8
                             (le_bytes64 sz) of
                        (n, p') \<Rightarrow>
                          (Inr n,
                           log_event
                             [EvUndoPageOverwrite (BufferTag l b) page_offset data_offset 8 sz,
                              EvMarkBufferDirty (BufferTag l b)]
                             (set_page l b p' w)))))"

lemma UndoMarkPageClosed_Inr_chbidx:
  "UndoMarkPageClosed K urs chunk chbidx po d sz w = (Inr n, w') \<Longrightarrow> chbidx < 2"
  by (auto simp: UndoMarkPageClosed_def Let_def split: if_splits Buffer.splits prod.splits)

text \<open>The loop \<^verbatim>\<open>while (data_offset < sizeof(size))\<close> of \<^verbatim>\<open>UndoMarkChunkClosed\<close>.\<close>

function UndoMarkChunkClosed_loop ::
  "config \<Rightarrow> UndoRecordSet \<Rightarrow> UndoRecordSetChunk \<Rightarrow> UndoLogOffset \<Rightarrow> nat \<Rightarrow> int \<Rightarrow> int \<Rightarrow> world
     \<Rightarrow> (error + unit) \<times> world" where
  "UndoMarkChunkClosed_loop K urs chunk sz chbidx page_offset data_offset w =
     (if data_offset < 8 then
        (case UndoMarkPageClosed K urs chunk chbidx page_offset data_offset sz w of
           (Inl e, w') \<Rightarrow> (Inl e, w')
         | (Inr n, w') \<Rightarrow>
             UndoMarkChunkClosed_loop K urs chunk sz (Suc chbidx)
               (SizeOfUndoPageHeaderData K) (data_offset + n) w')
      else (Inr (), w))"
  by pat_completeness auto
termination
  by (relation "measure (\<lambda>(K, urs, chunk, sz, chbidx, po, d, w). 2 - chbidx)")
     (auto dest: UndoMarkPageClosed_Inr_chbidx [OF sym])

declare UndoMarkChunkClosed_loop.simps [simp del]

definition stage_close_chunk ::
  "world \<Rightarrow> UndoRecordSet \<Rightarrow> bool \<Rightarrow> int \<Rightarrow> UndoLogOffset \<Rightarrow> UndoRecordSetXLogBufData
     \<Rightarrow> UndoRecordSetXLogBufData" where
  "stage_close_chunk w urs close_urs page_offset sz bd =
     (let bd1 = bd\<lparr>flags := insert URS_XLOG_CLOSE_CHUNK (flags bd),
                    chunk_size_page_offset := page_offset,
                    chunk_size := sz\<rparr>
      in if close_urs then
           (let bd2 = bd1\<lparr>flags := insert URS_XLOG_CLOSE (flags bd1),
                          bd_urs_type := urs_type urs,
                          bd_type_header := type_header urs,
                          bd_type_header_size := type_header_size urs\<rparr>
            in if 1 < length (chunks urs) then
                 bd2\<lparr>flags := insert URS_XLOG_CLOSE_MULTI_CHUNK (flags bd2),
                     first_chunk_header_location :=
                       MakeUndoRecPtr (logno (slots w (chunk_slot (chunks urs ! 0))))
                         (chunk_header_offset (chunks urs ! 0))\<rparr>
               else bd2)
         else bd1)"

definition UndoMarkChunkClosed ::
  "config \<Rightarrow> nat \<Rightarrow> bool \<Rightarrow> world \<times> UndoRecordSet \<Rightarrow> (error + unit) \<times> world \<times> UndoRecordSet" where
  "UndoMarkChunkClosed K ci close_urs s =
     (case s of (w, urs) \<Rightarrow>
        if length (chunks urs) \<le> ci then (Inl (Fault ''chunk index out of range''), w, urs)
        else
          let chunk = chunks urs ! ci;
              header = chunk_header_offset chunk;
              ins = meta_insert (slots w (chunk_slot chunk));
              sz = ins - header;
              page_offset = uint header mod BLCKSZ K;
              i0 = (case chunk_header_buffer_index chunk of [] \<Rightarrow> - 1 | i # _ \<Rightarrow> i)
          in if URSNeedsWAL urs \<and> (i0 < 0 \<or> int (length (buffers urs)) \<le> i0)
             then (Inl (Fault ''buffer index out of range''), w, urs)
             else
               let urs1 =
                     (if URSNeedsWAL urs then
                        urs\<lparr>buffers := (buffers urs)
                              [nat i0 := (buffers urs ! nat i0)
                                 \<lparr>bufdata := stage_close_chunk w urs close_urs page_offset sz
                                               (bufdata (buffers urs ! nat i0))\<rparr>]\<rparr>
                      else urs)
               in (case UndoMarkChunkClosed_loop K urs1 chunk sz 0 page_offset 0 w of
                     (r, w') \<Rightarrow> (r, w', urs1)))"

text \<open>\<^verbatim>\<open>UndoMarkClosed\<close>.  Its two assertions (the set is not yet closed; a dirty set has
  chunks) are compiled out of a production build and are not branches of the model; a
  dirty set without chunks reads \<^verbatim>\<open>chunks[-1]\<close>, which the chunk index check reports.\<close>

definition UndoMarkClosed ::
  "config \<Rightarrow> world \<times> UndoRecordSet \<Rightarrow> (error + unit) \<times> world \<times> UndoRecordSet" where
  "UndoMarkClosed K s =
     (case s of (w, urs) \<Rightarrow>
        if urs_state urs = URS_STATE_DIRTY then
          (if chunks urs = [] then (Inl (Fault ''chunk index out of range''), w, urs)
           else (case UndoMarkChunkClosed K (length (chunks urs) - 1) True (w, urs) of
                   (Inl e, w', urs') \<Rightarrow> (Inl e, w', urs')
                 | (Inr u, w', urs') \<Rightarrow> (Inr (), w', urs'\<lparr>urs_state := URS_STATE_CLOSED\<rparr>)))
        else (Inr (), w, urs))"

section \<open>Releasing and destroying a record set\<close>

definition UndoRelease :: "world \<times> UndoRecordSet \<Rightarrow> world \<times> UndoRecordSet" where
  "UndoRelease s =
     (case s of (w, urs) \<Rightarrow>
        (log_event (map (\<lambda>u. EvUnlockReleaseBuffer (buffer u)) (buffers urs)) w,
         urs\<lparr>buffers := []\<rparr>))"

text \<open>Modelled from the spec: \<^verbatim>\<open>UndoLogPut\<close> of the undo log allocator (\<^verbatim>\<open>undolog.c\<close>
  is not among the sources) returns a slot to the free list.\<close>

definition UndoLogPut :: "slot_ptr \<Rightarrow> world \<Rightarrow> world" where
  "UndoLogPut sl w = log_event [EvUndoLogPut sl] (w\<lparr>freelist := freelist w @ [sl]\<rparr>)"

text \<open>\<^verbatim>\<open>UndoDestroy\<close>, on the record set that the pointer \<open>p\<close> designates.  The list of live
  sets is \<^verbatim>\<open>UndoRecordSetList\<close>; \<^verbatim>\<open>slist_delete\<close> unlinks the set and \<^verbatim>\<open>pfree\<close> ends its
  life.  The buffers are released before the state is tested, so the effect of the
  release stays in the world when the function panics.\<close>

definition UndoDestroy :: "urs_ptr \<Rightarrow> world \<Rightarrow> (error + unit) \<times> world" where
  "UndoDestroy p w =
     (case urs_heap w p of
        None \<Rightarrow> (Inl (Fault ''dangling record set pointer''), w)
      | Some urs \<Rightarrow>
          (case UndoRelease (w, urs) of
             (w1, urs1) \<Rightarrow>
               if urs_state urs1 = URS_STATE_DIRTY
               then (Inl (Elog PANIC ''dirty undo record set not closed before release''),
                     w1\<lparr>urs_heap := (urs_heap w1)(p := Some urs1)\<rparr>)
               else
                 let w2 = fold (\<lambda>c. UndoLogPut (chunk_slot c)) (chunks urs1) w1;
                     w3 = w2\<lparr>UndoRecordSetList := remove1 p (UndoRecordSetList w2)\<rparr>
                 in (Inr (), log_event [EvPfree p] (w3\<lparr>urs_heap := (urs_heap w3)(p := None)\<rparr>))))"

section \<open>A concrete build and concrete states\<close>

text \<open>The constants of a standard build (8 kB pages, a 24-byte undo page header, a 17-byte
  chunk header, the transaction record codes of \<^verbatim>\<open>xact.h\<close>), an undo log table whose logs
  are empty and unbacked, and a record set that has written one chunk into log 0.\<close>

definition example_config :: config where
  "example_config =
     \<lparr>BLCKSZ = 8192, SizeOfUndoPageHeaderData = 24, SizeOfUndoRecordSetChunkHeader = 17,
      InvalidUndoRecPtr = 0, UndoDbOid = 9, URST_TRANSACTION = 84, URST_FOO = 70,
      RM_XACT_ID = 1, XLR_INFO_MASK = 15, XLOG_XACT_OPMASK = 112, XLOG_XACT_COMMIT = 0,
      XLOG_XACT_PREPARE = 16, XLOG_XACT_ABORT = 32, XLOG_XACT_COMMIT_PREPARED = 48,
      XLOG_XACT_ABORT_PREPARED = 64\<rparr>"

definition example_page :: page where
  "example_page =
     \<lparr>ud_insertion_point = 0, ud_first_chunk = 0, ud_continue_chunk = 0, bytes = (\<lambda>_. 0)\<rparr>"

definition example_slot :: "UndoLogNumber \<Rightarrow> UndoLogOffset \<Rightarrow> UndoLogSlot" where
  "example_slot l ins =
     \<lparr>logno = l, meta_insert = ins, meta_discard = 24, meta_size = 1099511627776,
      slot_end = 0, force_truncate = False\<rparr>"

definition example_world :: world where
  "example_world =
     \<lparr>slots = (\<lambda>l. example_slot l 24), freelist = [0, 1, 2], pages = (\<lambda>_. example_page),
      UndoRecordSetList = [], urs_heap = (\<lambda>_. None), trace = []\<rparr>"

definition example_urs :: "UndoRecordSetState \<Rightarrow> UndoRecordSet" where
  "example_urs st =
     \<lparr>urs_type = 70, persistence = RELPERSISTENCE_PERMANENT,
      chunks = [\<lparr>chunk_slot = 0, chunk_header_written = True, chunk_header_offset = 24,
                 chunk_header_buffer_index = [- 1, - 1]\<rparr>],
      buffers = [new_UndoBuffer (BufferTag 0 0)],
      need_chunk_header = False, type_header = [1, 2, 3, 4], type_header_size = 4,
      need_type_header = False, urs_begin = 24, urs_slot = Some 0, chunk_start = 24,
      recent_end = 8192, urs_state = st, nestingLevel = 1\<rparr>"

definition example_world_with :: "UndoRecordSetState \<Rightarrow> world" where
  "example_world_with st =
     example_world\<lparr>slots := (\<lambda>l. example_slot l (if l = 0 then 61 else 24)),
                   freelist := [1, 2], UndoRecordSetList := [7],
                   urs_heap := (\<lambda>p. if p = 7 then Some (example_urs st) else None)\<rparr>"

definition is_UndoLogPut :: "event \<Rightarrow> bool" where
  "is_UndoLogPut e = (case e of EvUndoLogPut _ \<Rightarrow> True | _ \<Rightarrow> False)"

section \<open>Destroying a record set\<close>

lemma trace_fold_UndoLogPut:
  "trace (fold (\<lambda>c. UndoLogPut (chunk_slot c)) cs w)
     = trace w @ map (\<lambda>c. EvUndoLogPut (chunk_slot c)) cs"
  by (induction cs arbitrary: w) (simp_all add: UndoLogPut_def log_event_def)

lemma freelist_fold_UndoLogPut:
  "freelist (fold (\<lambda>c. UndoLogPut (chunk_slot c)) cs w) = freelist w @ map chunk_slot cs"
  by (induction cs arbitrary: w) (simp_all add: UndoLogPut_def log_event_def)

lemma frame_fold_UndoLogPut:
  "UndoRecordSetList (fold (\<lambda>c. UndoLogPut (chunk_slot c)) cs w) = UndoRecordSetList w"
  "urs_heap (fold (\<lambda>c. UndoLogPut (chunk_slot c)) cs w) = urs_heap w"
  "pages (fold (\<lambda>c. UndoLogPut (chunk_slot c)) cs w) = pages w"
  "slots (fold (\<lambda>c. UndoLogPut (chunk_slot c)) cs w) = slots w"
  by (induction cs arbitrary: w) (simp_all add: UndoLogPut_def log_event_def)

text \<open>
  C9.  \<^verbatim>\<open>UndoDestroy\<close> on a set that is not dirty (clean, or closed) returns normally: it
  has released every pinned buffer, then handed every chunk's slot to \<^verbatim>\<open>UndoLogPut\<close> (so
  the slots are back on the free list), then unlinked the set from the list of live sets
  and freed it.  On a dirty set it raises PANIC after releasing the buffers: no slot is
  handed back, the free list is unchanged and the set stays on the list of live sets.
\<close>

theorem UndoDestroy_legal_unless_dirty:
  assumes "urs_heap w p = Some urs"
  shows "(urs_state urs \<noteq> URS_STATE_DIRTY \<longrightarrow>
           (case UndoDestroy p w of (r, w') \<Rightarrow>
              r = Inr () \<and>
              trace w' = trace w @ map (\<lambda>u. EvUnlockReleaseBuffer (buffer u)) (buffers urs)
                           @ map (\<lambda>c. EvUndoLogPut (chunk_slot c)) (chunks urs) @ [EvPfree p] \<and>
              freelist w' = freelist w @ map chunk_slot (chunks urs) \<and>
              UndoRecordSetList w' = remove1 p (UndoRecordSetList w) \<and>
              urs_heap w' = (urs_heap w)(p := None))) \<and>
         (urs_state urs = URS_STATE_DIRTY \<longrightarrow>
           (case UndoDestroy p w of (r, w') \<Rightarrow>
              r = Inl (Elog PANIC ''dirty undo record set not closed before release'') \<and>
              trace w' = trace w @ map (\<lambda>u. EvUnlockReleaseBuffer (buffer u)) (buffers urs) \<and>
              filter is_UndoLogPut (trace w') = filter is_UndoLogPut (trace w) \<and>
              freelist w' = freelist w \<and>
              UndoRecordSetList w' = UndoRecordSetList w \<and>
              urs_heap w' p = Some (urs\<lparr>buffers := []\<rparr>)))"
  using assms
  by (auto simp: UndoDestroy_def UndoRelease_def log_event_def Let_def trace_fold_UndoLogPut
      freelist_fold_UndoLogPut frame_fold_UndoLogPut is_UndoLogPut_def filter_empty_conv)

theorem UndoDestroy_legal_unless_dirty_witness:
  "fst (UndoDestroy 7 (example_world_with URS_STATE_CLEAN)) = Inr () \<and>
   trace (snd (UndoDestroy 7 (example_world_with URS_STATE_CLEAN)))
     = [EvUnlockReleaseBuffer (BufferTag 0 0), EvUndoLogPut 0, EvPfree 7] \<and>
   freelist (snd (UndoDestroy 7 (example_world_with URS_STATE_CLEAN))) = [1, 2, 0] \<and>
   UndoRecordSetList (snd (UndoDestroy 7 (example_world_with URS_STATE_CLEAN))) = [] \<and>
   fst (UndoDestroy 7 (example_world_with URS_STATE_CLOSED)) = Inr () \<and>
   freelist (snd (UndoDestroy 7 (example_world_with URS_STATE_CLOSED))) = [1, 2, 0] \<and>
   fst (UndoDestroy 7 (example_world_with URS_STATE_DIRTY))
     = Inl (Elog PANIC ''dirty undo record set not closed before release'') \<and>
   trace (snd (UndoDestroy 7 (example_world_with URS_STATE_DIRTY)))
     = [EvUnlockReleaseBuffer (BufferTag 0 0)] \<and>
   freelist (snd (UndoDestroy 7 (example_world_with URS_STATE_DIRTY))) = [1, 2] \<and>
   UndoRecordSetList (snd (UndoDestroy 7 (example_world_with URS_STATE_DIRTY))) = [7]"
  using UndoDestroy_legal_unless_dirty
          [of "example_world_with URS_STATE_CLEAN" 7 "example_urs URS_STATE_CLEAN"]
        UndoDestroy_legal_unless_dirty
          [of "example_world_with URS_STATE_CLOSED" 7 "example_urs URS_STATE_CLOSED"]
        UndoDestroy_legal_unless_dirty
          [of "example_world_with URS_STATE_DIRTY" 7 "example_urs URS_STATE_DIRTY"]
  by (simp add: example_world_with_def example_world_def example_urs_def new_UndoBuffer_def
      split: prod.splits)

section \<open>What closing a record set does\<close>

definition is_UndoPageOverwrite :: "event \<Rightarrow> bool" where
  "is_UndoPageOverwrite e = (case e of EvUndoPageOverwrite _ _ _ _ _ \<Rightarrow> True | _ \<Rightarrow> False)"

definition read_bytes :: "page \<Rightarrow> int \<Rightarrow> nat \<Rightarrow> byte list" where
  "read_bytes p off n = map (\<lambda>i. bytes p (off + int i)) [0..<n]"

lemma find_buffer_Some:
  "find_buffer bs l b i = Some j \<Longrightarrow> i \<le> j \<and> j - i < length bs \<and> buffer (bs ! (j - i)) = BufferTag l b"
proof (induction bs arbitrary: i)
  case Nil
  then show ?case by simp
next
  case (Cons u us)
  show ?case
  proof (cases "buffer u = BufferTag l b")
    case True
    with Cons.prems show ?thesis by simp
  next
    case False
    with Cons.prems have "find_buffer us l b (Suc i) = Some j" by simp
    from Cons.IH [OF this] show ?thesis
      by (auto simp: Suc_diff_Suc less_eq_Suc_le)
  qed
qed

lemma find_or_read_buffer_props:
  assumes "find_or_read_buffer l b (w, urs) = (i, w', urs')"
  shows "0 \<le> i" "nat i < length (buffers urs')" "buffer (buffers urs' ! nat i) = BufferTag l b"
    "\<exists>ext. buffers urs' = buffers urs @ ext \<and> urs' = urs\<lparr>buffers := buffers urs @ ext\<rparr>"
    "\<exists>evs. w' = log_event evs w \<and> filter is_UndoPageOverwrite evs = []"
proof -
  show "0 \<le> i" using assms
    by (auto simp: find_or_read_buffer_def split: option.splits)
  show "nat i < length (buffers urs')" using assms find_buffer_Some [of "buffers urs" l b 0]
    by (auto simp: find_or_read_buffer_def split: option.splits)
  show "buffer (buffers urs' ! nat i) = BufferTag l b"
    using assms find_buffer_Some [of "buffers urs" l b 0]
    by (auto simp: find_or_read_buffer_def new_UndoBuffer_def split: option.splits)
  show "\<exists>ext. buffers urs' = buffers urs @ ext \<and> urs' = urs\<lparr>buffers := buffers urs @ ext\<rparr>"
    using assms
    by (auto simp: find_or_read_buffer_def split: option.splits)
  show "\<exists>evs. w' = log_event evs w \<and> filter is_UndoPageOverwrite evs = []"
  proof (cases "find_buffer (buffers urs) l b 0")
    case None
    with assms show ?thesis
      by (auto simp: find_or_read_buffer_def is_UndoPageOverwrite_def intro!: exI [of _ "[EvReadBuffer l b RBM_NORMAL, EvLockBuffer (BufferTag l b) LW_EXCLUSIVE]"])
  next
    case (Some a)
    with assms have "w' = log_event [] w" by (simp add: find_or_read_buffer_def log_event_def)
    then show ?thesis by (intro exI [of _ "[]"]) simp
  qed
qed

lemma buffer_nth_bufdata_update:
  "k < length bs \<Longrightarrow> buffer (bs[j := (bs ! j)\<lparr>bufdata := x\<rparr>] ! k) = buffer (bs ! k)"
  by (cases "j = k") simp_all

lemma UndoMarkPageClosed_ok:
  assumes "chbidx < 2" "chbidx < length (chunk_header_buffer_index chunk)"
    and "chunk_header_buffer_index chunk ! chbidx = i" "0 \<le> i" "nat i < length (buffers urs)"
    and "buffer (buffers urs ! nat i) = BufferTag l b"
  shows "UndoMarkPageClosed K urs chunk chbidx po d sz w =
           (Inr (bytes_on_page K po d 8),
            log_event [EvUndoPageOverwrite (BufferTag l b) po d 8 sz, EvMarkBufferDirty (BufferTag l b)]
              (set_page l b ((pages w (l, b))\<lparr>bytes := write_bytes (bytes (pages w (l, b))) po (le_bytes64 sz) d (bytes_on_page K po d 8)\<rparr>) w))"
  using assms
  by (simp add: UndoMarkPageClosed_def Let_def UndoPageOverwrite_def BufferGetPage_def)

lemma loop_one_page:
  assumes "chunk_header_buffer_index chunk = [i0, i1]" "0 \<le> i0" "nat i0 < length (buffers urs)"
    and "buffer (buffers urs ! nat i0) = BufferTag l b"
    and "po \<le> BLCKSZ K - 8"
  shows "UndoMarkChunkClosed_loop K urs chunk sz 0 po 0 w =
           (Inr (),
            log_event [EvUndoPageOverwrite (BufferTag l b) po 0 8 sz, EvMarkBufferDirty (BufferTag l b)]
              (set_page l b ((pages w (l, b))\<lparr>bytes := write_bytes (bytes (pages w (l, b))) po (le_bytes64 sz) 0 8\<rparr>) w))"
proof -
  have n: "bytes_on_page K po 0 8 = 8" using assms(5) by (simp add: bytes_on_page_def)
  have step: "UndoMarkPageClosed K urs chunk 0 po 0 sz w =
           (Inr 8,
            log_event [EvUndoPageOverwrite (BufferTag l b) po 0 8 sz, EvMarkBufferDirty (BufferTag l b)]
              (set_page l b ((pages w (l, b))\<lparr>bytes := write_bytes (bytes (pages w (l, b))) po (le_bytes64 sz) 0 8\<rparr>) w))"
    using UndoMarkPageClosed_ok [of 0 chunk i0 urs l b K po 0 sz w] assms n by simp
  show ?thesis
    by (subst UndoMarkChunkClosed_loop.simps, simp add: step)
       (subst UndoMarkChunkClosed_loop.simps, simp)
qed

lemma loop_two_pages:
  assumes "valid_config K"
    and "chunk_header_buffer_index chunk = [i0, i1]" "0 \<le> i0" "nat i0 < length (buffers urs)"
    and "buffer (buffers urs ! nat i0) = BufferTag l b"
    and "0 \<le> i1" "nat i1 < length (buffers urs)"
    and "buffer (buffers urs ! nat i1) = BufferTag l b'"
    and "BLCKSZ K - 8 < po" "po < BLCKSZ K"
  shows "UndoMarkChunkClosed_loop K urs chunk sz 0 po 0 w =
           (Inr (),
            (let w1 = log_event [EvUndoPageOverwrite (BufferTag l b) po 0 8 sz, EvMarkBufferDirty (BufferTag l b)]
                        (set_page l b ((pages w (l, b))\<lparr>bytes := write_bytes (bytes (pages w (l, b))) po (le_bytes64 sz) 0 (BLCKSZ K - po)\<rparr>) w)
             in log_event [EvUndoPageOverwrite (BufferTag l b') (SizeOfUndoPageHeaderData K) (BLCKSZ K - po) 8 sz, EvMarkBufferDirty (BufferTag l b')]
                  (set_page l b' ((pages w1 (l, b'))\<lparr>bytes := write_bytes (bytes (pages w1 (l, b'))) (SizeOfUndoPageHeaderData K) (le_bytes64 sz) (BLCKSZ K - po) (8 - (BLCKSZ K - po))\<rparr>) w1)))"
proof -
  have n1: "bytes_on_page K po 0 8 = BLCKSZ K - po" using assms(9) by (simp add: bytes_on_page_def)
  have n2: "bytes_on_page K (SizeOfUndoPageHeaderData K) (BLCKSZ K - po) 8 = 8 - (BLCKSZ K - po)"
    using assms(1,9,10) by (simp add: bytes_on_page_def valid_config_def)
  have lt: "BLCKSZ K - po < 8" "\<not> (8 - (BLCKSZ K - po)) + (BLCKSZ K - po) < 8" using assms(9) by simp_all
  note s1 = UndoMarkPageClosed_ok [of 0 chunk i0 urs l b K po 0 sz, unfolded n1]
  have s2: "UndoMarkPageClosed K urs chunk (Suc 0) (SizeOfUndoPageHeaderData K) (BLCKSZ K - po) sz w' =
     (Inr (8 - (BLCKSZ K - po)),
      log_event [EvUndoPageOverwrite (BufferTag l b') (SizeOfUndoPageHeaderData K) (BLCKSZ K - po) 8 sz, EvMarkBufferDirty (BufferTag l b')]
        (set_page l b' ((pages w' (l, b'))\<lparr>bytes := write_bytes (bytes (pages w' (l, b'))) (SizeOfUndoPageHeaderData K) (le_bytes64 sz) (BLCKSZ K - po) (8 - (BLCKSZ K - po))\<rparr>) w'))" for w'
    using UndoMarkPageClosed_ok [of "Suc 0" chunk i1 urs l b' K "SizeOfUndoPageHeaderData K" "BLCKSZ K - po" sz w'] assms n2
    by simp
  have L2: "UndoMarkChunkClosed_loop K urs chunk sz (Suc 0) (SizeOfUndoPageHeaderData K) (BLCKSZ K - po) w' =
     (Inr (),
      log_event [EvUndoPageOverwrite (BufferTag l b') (SizeOfUndoPageHeaderData K) (BLCKSZ K - po) 8 sz, EvMarkBufferDirty (BufferTag l b')]
        (set_page l b' ((pages w' (l, b'))\<lparr>bytes := write_bytes (bytes (pages w' (l, b'))) (SizeOfUndoPageHeaderData K) (le_bytes64 sz) (BLCKSZ K - po) (8 - (BLCKSZ K - po))\<rparr>) w'))" for w'
    by (subst UndoMarkChunkClosed_loop.simps, simp add: s2 lt)
       (subst UndoMarkChunkClosed_loop.simps, simp)
  show ?thesis
    by (subst UndoMarkChunkClosed_loop.simps) (simp add: s1 assms L2 Let_def)
qed

lemma length_le_bytes64 [simp]: "length (le_bytes64 v) = 8"
  by (simp add: le_bytes64_def)

lemma read_bytes_write_bytes:
  assumes "0 \<le> in_off" "nat in_off + m \<le> length src" "int m \<le> n"
  shows "read_bytes (p\<lparr>bytes := write_bytes f page_off src in_off n\<rparr>) page_off m
           = take m (drop (nat in_off) src)"
proof (rule nth_equalityI)
  show "length (read_bytes (p\<lparr>bytes := write_bytes f page_off src in_off n\<rparr>) page_off m)
          = length (take m (drop (nat in_off) src))"
    using assms by (simp add: read_bytes_def)
next
  fix i assume "i < length (read_bytes (p\<lparr>bytes := write_bytes f page_off src in_off n\<rparr>) page_off m)"
  then have i: "i < m" by (simp add: read_bytes_def)
  have "nat (in_off + int i) = nat in_off + i" using assms(1) by (simp add: nat_add_distrib)
  with i assms show "read_bytes (p\<lparr>bytes := write_bytes f page_off src in_off n\<rparr>) page_off m ! i
          = take m (drop (nat in_off) src) ! i"
    by (simp add: read_bytes_def write_bytes_def)
qed

lemma UndoPrepareToMarkChunkClosed_props:
  fixes K :: config and w :: world and urs :: UndoRecordSet and ci :: nat
  assumes "ci < length (chunks urs)" and "0 < BLCKSZ K"
  defines "c \<equiv> chunks urs ! ci"
  defines "l \<equiv> logno (slots w (chunk_slot c))"
  defines "blk \<equiv> (word_of_int (uint (chunk_header_offset c) div BLCKSZ K) :: BlockNumber)"
  defines "po \<equiv> uint (chunk_header_offset c) mod BLCKSZ K"
  shows "\<exists>i0 i1 ext evs.
           UndoPrepareToMarkChunkClosed K ci (w, urs) =
             (Inr (), log_event evs w,
              set_chunk_header_buffer_index ci [i0, i1] (urs\<lparr>buffers := buffers urs @ ext\<rparr>)) \<and>
           filter is_UndoPageOverwrite evs = [] \<and>
           0 \<le> i0 \<and> nat i0 < length (buffers urs @ ext) \<and>
           buffer ((buffers urs @ ext) ! nat i0) = BufferTag l blk \<and>
           (po \<le> BLCKSZ K - 8 \<or>
            0 \<le> i1 \<and> nat i1 < length (buffers urs @ ext) \<and>
            buffer ((buffers urs @ ext) ! nat i1) = BufferTag l (blk + 1))"
proof -
  obtain i0 w1 urs1 where f1: "find_or_read_buffer l blk (w, urs) = (i0, w1, urs1)"
    by (metis prod_cases3)
  note p1 = find_or_read_buffer_props [OF f1]
  from p1(4) obtain ext1 where e1: "buffers urs1 = buffers urs @ ext1"
    "urs1 = urs\<lparr>buffers := buffers urs @ ext1\<rparr>" by blast
  from p1(5) obtain evs1 where v1: "w1 = log_event evs1 w" "filter is_UndoPageOverwrite evs1 = []"
    by blast
  show ?thesis
  proof (cases "po \<le> BLCKSZ K - 8")
    case True
    have "UndoPrepareToMarkChunkClosed K ci (w, urs) =
            (Inr (), log_event evs1 w,
             set_chunk_header_buffer_index ci [i0, - 1] (urs\<lparr>buffers := buffers urs @ ext1\<rparr>))"
      using assms(1) True f1 e1(2) v1(1)
      by (simp add: UndoPrepareToMarkChunkClosed_def Let_def c_def l_def blk_def po_def)
    with True p1(1,2,3) e1(1) v1(2) show ?thesis by fastforce
  next
    case False
    obtain i1 w2 urs2 where f2: "find_or_read_buffer l (blk + 1) (w1, urs1) = (i1, w2, urs2)"
      by (metis prod_cases3)
    note p2 = find_or_read_buffer_props [OF f2]
    from p2(4) e1 obtain ext2 where e2: "buffers urs2 = (buffers urs @ ext1) @ ext2"
      "urs2 = urs\<lparr>buffers := (buffers urs @ ext1) @ ext2\<rparr>" by auto
    from p2(5) v1 obtain evs2 where v2: "w2 = log_event (evs1 @ evs2) w"
      "filter is_UndoPageOverwrite (evs1 @ evs2) = []"
      by (auto simp: log_event_def)
    have eq: "UndoPrepareToMarkChunkClosed K ci (w, urs) =
            (Inr (), log_event (evs1 @ evs2) w,
             set_chunk_header_buffer_index ci [i0, i1] (urs\<lparr>buffers := buffers urs @ (ext1 @ ext2)\<rparr>))"
      using assms(1) False f1 f2 e2(2) v2(1)
      by (simp add: UndoPrepareToMarkChunkClosed_def Let_def c_def l_def blk_def po_def)
    have b0: "nat i0 < length (buffers urs @ (ext1 @ ext2))"
        "buffer ((buffers urs @ (ext1 @ ext2)) ! nat i0) = BufferTag l blk"
    proof -
      have lt: "nat i0 < length (buffers urs1)" by (rule p1(2))
      have "(buffers urs1 @ ext2) ! nat i0 = buffers urs1 ! nat i0"
        using lt by (simp only: nth_append if_True)
      then show "buffer ((buffers urs @ (ext1 @ ext2)) ! nat i0) = BufferTag l blk"
        using p1(3) e1(1) by simp
      show "nat i0 < length (buffers urs @ (ext1 @ ext2))" using lt e1(1) by simp
    qed
    have b1: "nat i1 < length (buffers urs @ (ext1 @ ext2))"
        "buffer ((buffers urs @ (ext1 @ ext2)) ! nat i1) = BufferTag l (blk + 1)"
      using p2(2,3) e2(1) by simp_all
    from eq v2(2) p1(1) p2(1) b0 b1 show ?thesis by blast
  qed
qed

definition patch_one ::
  "UndoLogNumber \<Rightarrow> BlockNumber \<Rightarrow> int \<Rightarrow> int \<Rightarrow> int \<Rightarrow> UndoLogOffset \<Rightarrow> world \<Rightarrow> world" where
  "patch_one l b po d n sz w =
     log_event [EvUndoPageOverwrite (BufferTag l b) po d 8 sz, EvMarkBufferDirty (BufferTag l b)]
       (set_page l b
          ((pages w (l, b))\<lparr>bytes := write_bytes (bytes (pages w (l, b))) po (le_bytes64 sz) d n\<rparr>) w)"

definition patch_size :: "config \<Rightarrow> UndoLogNumber \<Rightarrow> BlockNumber \<Rightarrow> int \<Rightarrow> UndoLogOffset \<Rightarrow> world \<Rightarrow> world" where
  "patch_size K l b po sz w =
     (if po \<le> BLCKSZ K - 8 then patch_one l b po 0 8 sz w
      else patch_one l (b + 1) (SizeOfUndoPageHeaderData K) (BLCKSZ K - po) (8 - (BLCKSZ K - po)) sz
             (patch_one l b po 0 (BLCKSZ K - po) sz w))"

lemma UndoMarkChunkClosed_loop_patch_size:
  assumes "valid_config K"
    and "chunk_header_buffer_index chunk = [i0, i1]" "0 \<le> i0" "nat i0 < length (buffers urs)"
    and "buffer (buffers urs ! nat i0) = BufferTag l b"
    and "po \<le> BLCKSZ K - 8 \<or>
         0 \<le> i1 \<and> nat i1 < length (buffers urs) \<and> buffer (buffers urs ! nat i1) = BufferTag l (b + 1)"
    and "po < BLCKSZ K"
  shows "UndoMarkChunkClosed_loop K urs chunk sz 0 po 0 w = (Inr (), patch_size K l b po sz w)"
proof (cases "po \<le> BLCKSZ K - 8")
  case True
  then show ?thesis
    using loop_one_page [of chunk i0 i1 urs l b po K sz w] assms
    by (simp add: patch_size_def patch_one_def)
next
  case False
  then show ?thesis
    using loop_two_pages [of K chunk i0 i1 urs l b "b + 1" po sz w] assms
    by (simp add: patch_size_def patch_one_def Let_def)
qed

lemma UndoMarkChunkClosed_props:
  fixes K :: config and w :: world and urs :: UndoRecordSet and ci :: nat
  defines "c \<equiv> chunks urs ! ci"
  defines "po \<equiv> uint (chunk_header_offset c) mod BLCKSZ K"
  defines "sz \<equiv> meta_insert (slots w (chunk_slot c)) - chunk_header_offset c"
  assumes "valid_config K" and "ci < length (chunks urs)"
    and "chunk_header_buffer_index c = [i0, i1]" "0 \<le> i0" "nat i0 < length (buffers urs)"
    and "buffer (buffers urs ! nat i0) = BufferTag l b"
    and "po \<le> BLCKSZ K - 8 \<or>
         0 \<le> i1 \<and> nat i1 < length (buffers urs) \<and> buffer (buffers urs ! nat i1) = BufferTag l (b + 1)"
  shows "\<exists>bs. UndoMarkChunkClosed K ci close_urs (w, urs) =
                 (Inr (), patch_size K l b po sz w, urs\<lparr>buffers := bs\<rparr>)"
proof -
  have B: "0 < BLCKSZ K" using assms(4) by (simp add: valid_config_def)
  then have po: "po < BLCKSZ K" by (simp add: po_def)
  define bs where "bs = (if URSNeedsWAL urs then (buffers urs)
                              [nat i0 := (buffers urs ! nat i0)
                                 \<lparr>bufdata := stage_close_chunk w urs close_urs po sz
                                               (bufdata (buffers urs ! nat i0))\<rparr>] else buffers urs)"
  have len: "length bs = length (buffers urs)" by (simp add: bs_def)
  have bf: "k < length (buffers urs) \<Longrightarrow> buffer (bs ! k) = buffer (buffers urs ! k)" for k
    by (simp add: bs_def buffer_nth_bufdata_update)
  have loop: "UndoMarkChunkClosed_loop K (urs\<lparr>buffers := bs\<rparr>) c sz 0 po 0 w
                = (Inr (), patch_size K l b po sz w)"
    by (rule UndoMarkChunkClosed_loop_patch_size [where ?i0.0 = i0 and ?i1.0 = i1])
       (use assms(4,6-10) po len bf in auto)
  have i0: "\<not> (i0 < 0 \<or> int (length (buffers urs)) \<le> i0)" using assms(7,8) by auto
  have "UndoMarkChunkClosed K ci close_urs (w, urs) =
          (Inr (), patch_size K l b po sz w, urs\<lparr>buffers := bs\<rparr>)"
  proof (cases "URSNeedsWAL urs")
    case True
    then have bs: "(buffers urs) [nat i0 := (buffers urs ! nat i0)
                                 \<lparr>bufdata := stage_close_chunk w urs close_urs po sz
                                               (bufdata (buffers urs ! nat i0))\<rparr>] = bs"
      by (simp add: bs_def)
    show ?thesis
      unfolding UndoMarkChunkClosed_def
      using assms(5,6) i0 True
      by (simp add: Let_def c_def [symmetric] po_def [symmetric] sz_def [symmetric] bs loop)
  next
    case False
    then have bs: "bs = buffers urs" by (simp add: bs_def)
    show ?thesis
      unfolding UndoMarkChunkClosed_def
      using assms(5,6) False loop
      by (simp add: Let_def c_def [symmetric] po_def [symmetric] sz_def [symmetric] bs)
  qed
  then show ?thesis by blast
qed

lemma patch_one_simps [simp]:
  "trace (patch_one l b po d n sz w) =
     trace w @ [EvUndoPageOverwrite (BufferTag l b) po d 8 sz, EvMarkBufferDirty (BufferTag l b)]"
  "slots (patch_one l b po d n sz w) = slots w"
  "pages (patch_one l b po d n sz w) =
     (pages w)((l, b) := (pages w (l, b))\<lparr>bytes := write_bytes (bytes (pages w (l, b))) po (le_bytes64 sz) d n\<rparr>)"
  by (simp_all add: patch_one_def log_event_def set_page_def)

lemma trace_patch_size:
  "trace (patch_size K l b po sz w) = trace w @
     (if po \<le> BLCKSZ K - 8
      then [EvUndoPageOverwrite (BufferTag l b) po 0 8 sz, EvMarkBufferDirty (BufferTag l b)]
      else [EvUndoPageOverwrite (BufferTag l b) po 0 8 sz, EvMarkBufferDirty (BufferTag l b),
            EvUndoPageOverwrite (BufferTag l (b + 1)) (SizeOfUndoPageHeaderData K) (BLCKSZ K - po) 8 sz,
            EvMarkBufferDirty (BufferTag l (b + 1))])"
  by (simp add: patch_size_def)

lemma slots_patch_size [simp]: "slots (patch_size K l b po sz w) = slots w"
  by (simp add: patch_size_def)

lemma bytes_patch_size:
  assumes "valid_config K" "po < BLCKSZ K"
  shows "(if po \<le> BLCKSZ K - 8
          then read_bytes (pages (patch_size K l b po sz w) (l, b)) po 8
          else read_bytes (pages (patch_size K l b po sz w) (l, b)) po (nat (BLCKSZ K - po))
               @ read_bytes (pages (patch_size K l b po sz w) (l, b + 1))
                   (SizeOfUndoPageHeaderData K) (nat (8 - (BLCKSZ K - po))))
         = le_bytes64 sz"
proof (cases "po \<le> BLCKSZ K - 8")
  case True
  then show ?thesis
    using read_bytes_write_bytes [where in_off = 0 and m = 8 and src = "le_bytes64 sz" and n = 8
        and p = "pages w (l, b)" and f = "bytes (pages w (l, b))" and page_off = po]
    by (simp add: patch_size_def)
next
  case False
  define n where "n = nat (BLCKSZ K - po)"
  have n: "int n = BLCKSZ K - po" "n < 8" using False assms(2) by (simp_all add: n_def)
  have ne: "b + 1 \<noteq> b" by simp
  have p1: "read_bytes (pages (patch_size K l b po sz w) (l, b)) po n = take n (le_bytes64 sz)"
    using ne n
      read_bytes_write_bytes [where in_off = 0 and m = n and src = "le_bytes64 sz"
        and n = "BLCKSZ K - po" and p = "pages w (l, b)" and f = "bytes (pages w (l, b))"
        and page_off = po]
    by (simp add: patch_size_def False)
  have a: "0 \<le> BLCKSZ K - po"
    "nat (BLCKSZ K - po) + nat (8 - (BLCKSZ K - po)) \<le> length (le_bytes64 sz)"
    "int (nat (8 - (BLCKSZ K - po))) \<le> 8 - (BLCKSZ K - po)"
    using False assms(2) by simp_all
  have p2: "read_bytes (pages (patch_size K l b po sz w) (l, b + 1)) (SizeOfUndoPageHeaderData K)
              (nat (8 - (BLCKSZ K - po))) = drop n (le_bytes64 sz)"
    using n
      read_bytes_write_bytes [OF a, where p = "pages w (l, b + 1)"
        and f = "bytes (pages w (l, b + 1))" and page_off = "SizeOfUndoPageHeaderData K"]
    by (simp add: patch_size_def n_def False)
  from p1 p2 show ?thesis by (simp add: n_def False)
qed

text \<open>
  C1.  For a dirty record set (which has chunks), \<^verbatim>\<open>UndoPrepareToMarkClosed\<close> followed by
  \<^verbatim>\<open>UndoMarkClosed\<close> returns normally and leaves the set closed.  The size written is the
  slot's insert pointer minus the final chunk's header offset.  The codec's overwrite is
  called once, at the header's page offset with data offset 0, when the 8-byte size fits on
  the header's page; otherwise exactly twice, the second call on the next block at page
  offset \<^verbatim>\<open>SizeOfUndoPageHeaderData\<close> with the data offset at which the first call
  stopped.  Afterwards the 8 bytes at the header's position (continuing behind the next
  page's header when they straddle) are the little-endian bytes of that size.
\<close>

theorem UndoMarkClosed_patches_final_chunk_size:
  fixes K :: config and w :: world and urs :: UndoRecordSet
  defines "c \<equiv> last (chunks urs)"
  defines "l \<equiv> logno (slots w (chunk_slot c))"
  defines "blk \<equiv> (word_of_int (uint (chunk_header_offset c) div BLCKSZ K) :: BlockNumber)"
  defines "po \<equiv> uint (chunk_header_offset c) mod BLCKSZ K"
  defines "sz \<equiv> meta_insert (slots w (chunk_slot c)) - chunk_header_offset c"
  assumes "valid_config K" and "urs_state urs = URS_STATE_DIRTY" and "chunks urs \<noteq> []"
  shows "case UndoPrepareToMarkClosed K (w, urs) of (r1, w1, urs1) \<Rightarrow>
           r1 = Inr True \<and>
           (case UndoMarkClosed K (w1, urs1) of (r2, w2, urs2) \<Rightarrow>
              r2 = Inr () \<and> urs_state urs2 = URS_STATE_CLOSED \<and>
              filter is_UndoPageOverwrite (drop (length (trace w)) (trace w2)) =
                (if po \<le> BLCKSZ K - 8
                 then [EvUndoPageOverwrite (BufferTag l blk) po 0 8 sz]
                 else [EvUndoPageOverwrite (BufferTag l blk) po 0 8 sz,
                       EvUndoPageOverwrite (BufferTag l (blk + 1)) (SizeOfUndoPageHeaderData K)
                         (BLCKSZ K - po) 8 sz]) \<and>
              (if po \<le> BLCKSZ K - 8
               then read_bytes (pages w2 (l, blk)) po 8
               else read_bytes (pages w2 (l, blk)) po (nat (BLCKSZ K - po))
                    @ read_bytes (pages w2 (l, blk + 1)) (SizeOfUndoPageHeaderData K)
                        (nat (8 - (BLCKSZ K - po))))
                = le_bytes64 sz)"
proof -
  define ci where "ci = length (chunks urs) - 1"
  have ci: "ci < length (chunks urs)" "chunks urs ! ci = c"
    using assms(8) by (simp_all add: ci_def c_def last_conv_nth)
  have B: "0 < BLCKSZ K" using assms(6) by (simp add: valid_config_def)
  then have po: "po < BLCKSZ K" by (simp add: po_def)
  from UndoPrepareToMarkChunkClosed_props [OF ci(1) B, of w]
  obtain i0 i1 ext evs where
    prep: "UndoPrepareToMarkChunkClosed K ci (w, urs) =
             (Inr (), log_event evs w,
              set_chunk_header_buffer_index ci [i0, i1] (urs\<lparr>buffers := buffers urs @ ext\<rparr>))"
    and evs: "filter is_UndoPageOverwrite evs = []"
    and i0: "0 \<le> i0" "nat i0 < length (buffers urs @ ext)"
       "buffer ((buffers urs @ ext) ! nat i0) = BufferTag l blk"
    and i1: "po \<le> BLCKSZ K - 8 \<or>
            0 \<le> i1 \<and> nat i1 < length (buffers urs @ ext) \<and>
            buffer ((buffers urs @ ext) ! nat i1) = BufferTag l (blk + 1)"
    unfolding ci(2) l_def blk_def po_def by blast
  define w1 where "w1 = log_event evs w"
  define urs1 where
    "urs1 = set_chunk_header_buffer_index ci [i0, i1] (urs\<lparr>buffers := buffers urs @ ext\<rparr>)"
  have u1: "urs_state urs1 = URS_STATE_DIRTY" "length (chunks urs1) = length (chunks urs)"
    "buffers urs1 = buffers urs @ ext"
    "chunks urs1 ! ci = c\<lparr>chunk_header_buffer_index := [i0, i1]\<rparr>"
    using assms(7) ci by (simp_all add: urs1_def set_chunk_header_buffer_index_def)
  have w1: "slots w1 = slots w" "trace w1 = trace w @ evs"
    by (simp_all add: w1_def log_event_def)
  have P: "UndoPrepareToMarkClosed K (w, urs) = (Inr True, w1, urs1)"
    using assms(8) prep by (simp add: UndoPrepareToMarkClosed_def ci_def w1_def urs1_def)
  from UndoMarkChunkClosed_props [where K = K and urs = urs1 and ci = ci and ?i0.0 = i0
      and ?i1.0 = i1 and l = l and b = blk and w = w1 and close_urs = True]
  obtain bs where
    M: "UndoMarkChunkClosed K ci True (w1, urs1) =
          (Inr (), patch_size K l blk po sz w1, urs1\<lparr>buffers := bs\<rparr>)"
    using assms(6) ci(1) i0 i1 u1 w1
    by (auto simp: po_def sz_def)
  define w2 where "w2 = patch_size K l blk po sz w1"
  have C: "UndoMarkClosed K (w1, urs1) =
             (Inr (), w2, urs1\<lparr>buffers := bs, urs_state := URS_STATE_CLOSED\<rparr>)"
    using u1(1,2) assms(8) M
    by (auto simp: UndoMarkClosed_def ci_def w2_def)
  have T: "filter is_UndoPageOverwrite (drop (length (trace w)) (trace w2)) =
                (if po \<le> BLCKSZ K - 8
                 then [EvUndoPageOverwrite (BufferTag l blk) po 0 8 sz]
                 else [EvUndoPageOverwrite (BufferTag l blk) po 0 8 sz,
                       EvUndoPageOverwrite (BufferTag l (blk + 1)) (SizeOfUndoPageHeaderData K)
                         (BLCKSZ K - po) 8 sz])"
    using evs by (simp add: w2_def trace_patch_size w1(2) is_UndoPageOverwrite_def)
  note Bt = bytes_patch_size [OF assms(6) po, of l blk sz w1, folded w2_def]
  show ?thesis
    using T Bt by (simp add: P C)
qed

text \<open>A dirty set whose only chunk has its header at offset 8188 of log 0, so that the
  8-byte size spans the last four bytes of block 0 and the first four usable bytes of
  block 1; the log's insert pointer is 8300.\<close>

definition straddling_urs :: UndoRecordSet where
  "straddling_urs =
     (example_urs URS_STATE_DIRTY)
       \<lparr>chunks := [\<lparr>chunk_slot = 0, chunk_header_written = True, chunk_header_offset = 8188,
                    chunk_header_buffer_index = [- 1, - 1]\<rparr>],
        buffers := []\<rparr>"

definition straddling_world :: world where
  "straddling_world =
     example_world\<lparr>slots := (\<lambda>l. example_slot l (if l = 0 then 8300 else 24)), freelist := [1, 2]\<rparr>"

lemma valid_example_config: "valid_config example_config"
  by (simp add: valid_config_def example_config_def)

theorem UndoMarkClosed_patches_final_chunk_size_witness:
  "valid_config example_config \<and> urs_state straddling_urs = URS_STATE_DIRTY \<and>
   chunks straddling_urs \<noteq> [] \<and>
   (case UndoPrepareToMarkClosed example_config (straddling_world, straddling_urs) of
      (r1, w1, urs1) \<Rightarrow>
        r1 = Inr True \<and>
        (case UndoMarkClosed example_config (w1, urs1) of
           (r2, w2, urs2) \<Rightarrow>
             r2 = Inr () \<and> urs_state urs2 = URS_STATE_CLOSED \<and>
             filter is_UndoPageOverwrite (trace w2) =
               [EvUndoPageOverwrite (BufferTag 0 0) 8188 0 8 112,
                EvUndoPageOverwrite (BufferTag 0 1) 24 4 8 112] \<and>
             read_bytes (pages w2 (0, 0)) 8188 4 @ read_bytes (pages w2 (0, 1)) 24 4
               = [112, 0, 0, 0, 0, 0, 0, 0]))"
proof -
  have h: "urs_state straddling_urs = URS_STATE_DIRTY" "chunks straddling_urs \<noteq> []"
    by (simp_all add: straddling_urs_def example_urs_def)
  have v: "last (chunks straddling_urs) = \<lparr>chunk_slot = 0, chunk_header_written = True, chunk_header_offset = 8188,
                    chunk_header_buffer_index = [- 1, - 1]\<rparr>"
    by (simp add: straddling_urs_def)
  have le: "le_bytes64 112 = [112, 0, 0, 0, 0, 0, 0, 0]"
    by (simp add: le_bytes64_def upt_rec)
  have run: "case UndoPrepareToMarkClosed example_config (straddling_world, straddling_urs) of
      (r1, w1, urs1) \<Rightarrow>
        r1 = Inr True \<and>
        (case UndoMarkClosed example_config (w1, urs1) of
           (r2, w2, urs2) \<Rightarrow>
             r2 = Inr () \<and> urs_state urs2 = URS_STATE_CLOSED \<and>
             filter is_UndoPageOverwrite (trace w2) =
               [EvUndoPageOverwrite (BufferTag 0 0) 8188 0 8 112,
                EvUndoPageOverwrite (BufferTag 0 1) 24 4 8 112] \<and>
             read_bytes (pages w2 (0, 0)) 8188 4 @ read_bytes (pages w2 (0, 1)) 24 4
               = [112, 0, 0, 0, 0, 0, 0, 0])"
    using UndoMarkClosed_patches_final_chunk_size [OF valid_example_config h, of straddling_world]
    by (simp add: v le straddling_world_def example_world_def example_slot_def example_config_def)
  show ?thesis
    using valid_example_config h run by simp
qed

section \<open>Closing a clean record set\<close>

text \<open>The example set, dirty, after \<^verbatim>\<open>UndoPrepareToMarkClosed\<close>: its header buffer is
  pinned at index 0.\<close>

definition prepared_urs :: UndoRecordSet where
  "prepared_urs =
     (example_urs URS_STATE_DIRTY)
       \<lparr>chunks := [\<lparr>chunk_slot = 0, chunk_header_written = True, chunk_header_offset = 24,
                    chunk_header_buffer_index = [0, - 1]\<rparr>]\<rparr>"

text \<open>
  C10.  \<^verbatim>\<open>UndoMarkClosed\<close> on a clean record set changes nothing: the world (every page,
  the log of calls, the slots) and the record set (its state, its buffers and their staged
  WAL buf-data) come back as they were, and the state stays clean.  A set that is closed
  after the call was dirty (or, against the function's assertion, already closed) before.
\<close>

theorem UndoMarkClosed_clean_is_noop:
  "(urs_state urs = URS_STATE_CLEAN \<longrightarrow> UndoMarkClosed K (w, urs) = (Inr (), w, urs)) \<and>
   (urs_state (snd (snd (UndoMarkClosed K (w, urs)))) = URS_STATE_CLOSED \<longrightarrow>
      urs_state urs = URS_STATE_DIRTY \<or> urs_state urs = URS_STATE_CLOSED)"
  by (cases "urs_state urs") (simp_all add: UndoMarkClosed_def)

theorem UndoMarkClosed_clean_is_noop_witness:
  "urs_state (example_urs URS_STATE_CLEAN) = URS_STATE_CLEAN \<and>
   UndoMarkClosed example_config (example_world_with URS_STATE_CLEAN, example_urs URS_STATE_CLEAN)
     = (Inr (), example_world_with URS_STATE_CLEAN, example_urs URS_STATE_CLEAN) \<and>
   urs_state (snd (snd (UndoMarkClosed example_config
       (example_world_with URS_STATE_DIRTY, prepared_urs)))) = URS_STATE_CLOSED \<and>
   urs_state prepared_urs = URS_STATE_DIRTY"
proof -
  have c: "urs_state (example_urs URS_STATE_CLEAN) = URS_STATE_CLEAN"
    by (simp add: example_urs_def)
  have d: "urs_state prepared_urs = URS_STATE_DIRTY" "chunks prepared_urs \<noteq> []"
    "length (chunks prepared_urs) - 1 = 0"
    by (simp_all add: prepared_urs_def example_urs_def)
  have "\<exists>bs. UndoMarkChunkClosed example_config 0 True (example_world_with URS_STATE_DIRTY, prepared_urs)
          = (Inr (), patch_size example_config 0 0
               (uint (chunk_header_offset (chunks prepared_urs ! 0)) mod BLCKSZ example_config)
               (meta_insert (slots (example_world_with URS_STATE_DIRTY) (chunk_slot (chunks prepared_urs ! 0)))
                  - chunk_header_offset (chunks prepared_urs ! 0))
               (example_world_with URS_STATE_DIRTY),
             prepared_urs\<lparr>buffers := bs\<rparr>)"
    by (rule UndoMarkChunkClosed_props [where ?i0.0 = 0 and ?i1.0 = "- 1"])
       (simp_all add: valid_config_def prepared_urs_def example_urs_def new_UndoBuffer_def
          example_config_def)
  then have closed: "urs_state (snd (snd (UndoMarkClosed example_config
       (example_world_with URS_STATE_DIRTY, prepared_urs)))) = URS_STATE_CLOSED"
    using d by (auto simp: UndoMarkClosed_def)
  show ?thesis
    using c closed
      UndoMarkClosed_clean_is_noop [of "example_urs URS_STATE_CLEAN" example_config
        "example_world_with URS_STATE_CLEAN"]
      UndoMarkClosed_clean_is_noop [of prepared_urs example_config
        "example_world_with URS_STATE_DIRTY"]
    by (auto simp: prepared_urs_def example_urs_def)
qed

section \<open>Creating a record set\<close>

text \<open>\<^verbatim>\<open>UndoCreate\<close>.  The set is zero-filled (\<^verbatim>\<open>palloc0\<close>), so it starts clean, without an
  active slot and without a pending chunk header; the size of the type header is kept in
  a \<^verbatim>\<open>uint8\<close>.  The new set goes to the head of the list of live sets.\<close>

definition fresh_urs_ptr :: "world \<Rightarrow> urs_ptr" where
  "fresh_urs_ptr w = Suc (fold max (UndoRecordSetList w) 0)"

definition UndoCreate ::
  "UndoRecordSetType \<Rightarrow> relpersistence \<Rightarrow> int \<Rightarrow> nat \<Rightarrow> byte list \<Rightarrow> world \<Rightarrow> urs_ptr \<times> world" where
  "UndoCreate ty pers nesting th_size th w =
     (let p = fresh_urs_ptr w;
          urs = \<lparr>urs_type = ty, persistence = pers, chunks = [], buffers = [],
                 need_chunk_header = False, type_header = take th_size th,
                 type_header_size = th_size mod 256, need_type_header = True,
                 urs_begin = 0, urs_slot = None, chunk_start = 0, recent_end = 0,
                 urs_state = URS_STATE_CLEAN, nestingLevel = nesting\<rparr>
      in (p, w\<lparr>UndoRecordSetList := p # UndoRecordSetList w,
               urs_heap := (urs_heap w)(p := Some urs)\<rparr>))"

section \<open>Reserving space: the insertion planner\<close>

text \<open>Modelled from the spec: the undo log allocator (\<^verbatim>\<open>undolog.c\<close> is not among the
  sources).  \<^verbatim>\<open>UndoLogGetForPersistence\<close> gives out a log slot; the model draws it from
  the free list and raises ERROR when the list is empty.  \<^verbatim>\<open>UndoLogTruncate\<close> gives up the
  space that remains in a log, so that it is not used for new insertions.
  \<^verbatim>\<open>UndoLogAdjustPhysicalRange\<close> extends the backing of a log to a new end.\<close>

definition UndoLogTruncate :: "slot_ptr \<Rightarrow> world \<Rightarrow> world" where
  "UndoLogTruncate sl w =
     log_event [EvUndoLogTruncate sl]
       (w\<lparr>slots := (slots w)(sl := (slots w sl)\<lparr>meta_size := meta_insert (slots w sl)\<rparr>)\<rparr>)"

definition UndoLogAdjustPhysicalRange ::
  "UndoLogNumber \<Rightarrow> UndoLogOffset \<Rightarrow> UndoLogOffset \<Rightarrow> world \<Rightarrow> world" where
  "UndoLogAdjustPhysicalRange l new_discard new_end w =
     log_event [EvUndoLogAdjustPhysicalRange l new_discard new_end]
       (if slot_end (slots w l) < new_end
        then w\<lparr>slots := (slots w)(l := (slots w l)\<lparr>slot_end := new_end\<rparr>)\<rparr>
        else w)"

text \<open>\<^verbatim>\<open>create_new_chunk\<close>: attach to a new undo log and begin a chunk at its insert pointer.\<close>

definition create_new_chunk ::
  "world \<times> UndoRecordSet \<Rightarrow> (error + unit) \<times> world \<times> UndoRecordSet" where
  "create_new_chunk s =
     (case s of (w, urs) \<Rightarrow>
        (case freelist w of
           [] \<Rightarrow> (Inl (Elog ERROR ''could not attach to an undo log''), w, urs)
         | sl # rest \<Rightarrow>
             let w1 = log_event [EvUndoLogGetForPersistence (persistence urs) sl]
                        (w\<lparr>freelist := rest\<rparr>);
                 ins = meta_insert (slots w1 sl)
             in (Inr (), w1,
                 urs\<lparr>need_chunk_header := True, recent_end := 0, urs_slot := Some sl,
                     chunks := chunks urs @
                       [\<lparr>chunk_slot = sl, chunk_header_written = False,
                         chunk_header_offset = ins, chunk_header_buffer_index = [- 1, - 1]\<rparr>],
                     chunk_start := MakeUndoRecPtr (logno (slots w1 sl)) ins\<rparr>)))"

text \<open>\<^verbatim>\<open>reserve_physical_undo\<close>, on the active slot \<open>sl\<close>: the position at which the
  insertion will start, or \<^verbatim>\<open>InvalidUndoRecPtr\<close> when the log is too full, in which case the
  set no longer has an active slot.\<close>

definition reserve_physical_undo ::
  "config \<Rightarrow> slot_ptr \<Rightarrow> int \<Rightarrow> world \<times> UndoRecordSet \<Rightarrow> UndoRecPtr \<times> world \<times> UndoRecordSet" where
  "reserve_physical_undo K sl total_size s =
     (case s of (w, urs) \<Rightarrow>
        if force_truncate (slots w sl) then
          (let w1 = UndoLogTruncate sl w
           in (InvalidUndoRecPtr K,
               w1\<lparr>slots := (slots w1)(sl := (slots w1 sl)\<lparr>force_truncate := False\<rparr>)\<rparr>,
               urs\<lparr>urs_slot := None\<rparr>))
        else
          let new_insert = UndoLogOffsetPlusUsableBytes K (meta_insert (slots w sl)) total_size;
              here = MakeUndoRecPtr (logno (slots w sl)) (meta_insert (slots w sl))
          in if new_insert \<le> recent_end urs then (here, w, urs)
             else
               let w1 = log_event [EvLWLockAcquire sl LW_SHARED, EvLWLockRelease sl] w;
                   urs1 = urs\<lparr>recent_end := slot_end (slots w sl)\<rparr>;
                   sz = meta_size (slots w sl)
               in if new_insert \<le> recent_end urs1 then (here, w1, urs1)
                  else if new_insert \<le> sz
                  then (here, UndoLogAdjustPhysicalRange (logno (slots w sl)) 0 new_insert w1, urs1)
                  else (InvalidUndoRecPtr K, UndoLogTruncate sl w1, urs1\<lparr>urs_slot := None\<rparr>))"

definition planned_header_size :: "config \<Rightarrow> UndoRecordSet \<Rightarrow> int" where
  "planned_header_size K urs =
     (if \<not> need_chunk_header urs then 0
      else if \<not> need_type_header urs then SizeOfUndoRecordSetChunkHeader K
      else SizeOfUndoRecordSetChunkHeader K + int (type_header_size urs))"

lemma create_new_chunk_freelist:
  "create_new_chunk (w, urs) = (Inr u, w', urs') \<Longrightarrow> length (freelist w') < length (freelist w)"
  by (auto simp: create_new_chunk_def Let_def log_event_def split: list.splits)

lemma reserve_physical_undo_freelist:
  "reserve_physical_undo K sl n (w, urs) = (b, w', urs') \<Longrightarrow> freelist w' = freelist w"
  by (auto simp: reserve_physical_undo_def Let_def log_event_def UndoLogTruncate_def
      UndoLogAdjustPhysicalRange_def split: if_splits)

text \<open>The first loop of \<^verbatim>\<open>UndoPrepareToInsert\<close>: reserve space in the active log, or move to
  a new chunk in a new log and try again.  \<open>cntc\<close> is \<^verbatim>\<open>chunk_number_to_close\<close>.  The result
  is the reserved position with the header size and total size of the last round.  Every
  round that does not end the loop takes a slot from the allocator.\<close>

function UndoPrepareToInsert_reserve ::
  "config \<Rightarrow> nat \<Rightarrow> int \<Rightarrow> world \<Rightarrow> UndoRecordSet
     \<Rightarrow> (error + UndoRecPtr \<times> int \<times> int \<times> int) \<times> world \<times> UndoRecordSet" where
  "UndoPrepareToInsert_reserve K record_size cntc w urs =
     (let header_size = planned_header_size K urs;
          total_size = int record_size + header_size
      in case urs_slot urs of
           Some sl \<Rightarrow>
             (case reserve_physical_undo K sl total_size (w, urs) of
                (begin_urp, w1, urs1) \<Rightarrow>
                  if begin_urp \<noteq> InvalidUndoRecPtr K
                  then (Inr (begin_urp, header_size, total_size, cntc), w1, urs1)
                  else if chunks urs1 = []
                  then (Inl (Fault ''chunk index out of range''), w1, urs1)
                  else
                    (case create_new_chunk
                            (w1, if chunk_header_written (last (chunks urs1)) then urs1
                                 else urs1\<lparr>chunks := butlast (chunks urs1)\<rparr>) of
                       (Inl e, w2, urs2) \<Rightarrow> (Inl e, w2, urs2)
                     | (Inr u, w2, urs2) \<Rightarrow>
                         UndoPrepareToInsert_reserve K record_size
                           (if chunk_header_written (last (chunks urs1))
                            then int (length (chunks urs1)) - 1 else cntc)
                           w2 urs2))
         | None \<Rightarrow>
             (case create_new_chunk (w, urs) of
                (Inl e, w2, urs2) \<Rightarrow> (Inl e, w2, urs2)
              | (Inr u, w2, urs2) \<Rightarrow> UndoPrepareToInsert_reserve K record_size cntc w2 urs2))"
  by pat_completeness auto
termination
proof (relation "measure (\<lambda>(K, record_size, cntc, w, urs). length (freelist w))", goal_cases)
  case 1
  show ?case by simp
next
  case (2 K record_size cntc w urs x xa xb y b xc ya)
  then have "create_new_chunk (w, urs) = (Inr b, xc, ya)" by simp
  from create_new_chunk_freelist [OF this] show ?case by simp
next
  case (3 K record_size cntc w urs x xa x2 xb y xc ya xd yb b xe yc)
  then have r: "reserve_physical_undo K x2 xa (w, urs) = (xb, xc, ya)"
    and c: "create_new_chunk
              (xc, if chunk_header_written (last (chunks ya)) then ya
                   else ya\<lparr>chunks := butlast (chunks ya)\<rparr>) = (Inr b, xe, yc)"
    by simp_all
  from reserve_physical_undo_freelist [OF r] create_new_chunk_freelist [OF c]
  show ?case by simp
qed

declare UndoPrepareToInsert_reserve.simps [simp del]


text \<open>The second loop of \<^verbatim>\<open>UndoPrepareToInsert\<close>: pin one buffer for every page the
  insertion touches.  A page written from its first usable byte is read zeroed and will be
  initialised.  \<^verbatim>\<open>Min\<close> compares its \<^verbatim>\<open>int\<close> argument as a \<^verbatim>\<open>size_t\<close>, so a negative
  \<^verbatim>\<open>BLCKSZ - offset\<close> selects \<open>total_size\<close>.  The loop makes no progress when no byte fits
  on the page; then it never returns, which is the value \<open>None\<close>.\<close>

function pin_buffers ::
  "config \<Rightarrow> UndoLogNumber \<Rightarrow> BlockNumber \<Rightarrow> int \<Rightarrow> int \<Rightarrow> world \<Rightarrow> UndoRecordSet
     \<Rightarrow> (world \<times> UndoRecordSet) option" where
  "pin_buffers K l block offset total_size w urs =
     (if total_size \<le> 0 then Some (w, urs)
      else
        let isnew = (offset = SizeOfUndoPageHeaderData K);
            ub = \<lparr>buffer = BufferTag l block, is_new = isnew, needs_init = isnew,
                  bufdata = zero_bufdata\<rparr>;
            w1 = log_event [EvReadBuffer l block (if isnew then RBM_ZERO else RBM_NORMAL)] w;
            urs1 = urs\<lparr>buffers := buffers urs @ [ub]\<rparr>;
            bytes_on_this_page =
              (if BLCKSZ K - offset < 0 then total_size else min (BLCKSZ K - offset) total_size)
        in if bytes_on_this_page = 0 then None
           else pin_buffers K l (block + 1) (SizeOfUndoPageHeaderData K)
                  (total_size - bytes_on_this_page) w1 urs1)"
  by pat_completeness auto
termination
  by (relation "measure (\<lambda>(K, l, block, offset, total_size, w, urs). nat total_size)")
     (auto split: if_splits)

declare pin_buffers.simps [simp del]

text \<open>\<^verbatim>\<open>UndoPrepareToInsert\<close>.  After the reservation the touched pages are pinned, then
  locked in a second pass; the reserved position is kept in \<^verbatim>\<open>urs->begin\<close>; a chunk that
  filled up has its header buffers pinned last; the result is the position of the
  caller's first byte.\<close>

definition UndoPrepareToInsert ::
  "config \<Rightarrow> nat \<Rightarrow> world \<times> UndoRecordSet
     \<Rightarrow> ((error + UndoRecPtr) \<times> world \<times> UndoRecordSet) option" where
  "UndoPrepareToInsert K record_size s =
     (case s of (w, urs) \<Rightarrow>
        (case UndoPrepareToInsert_reserve K record_size (- 1) w urs of
           (Inl e, w1, urs1) \<Rightarrow> Some (Inl e, w1, urs1)
         | (Inr (begin_urp, header_size, total_size, cntc), w1, urs1) \<Rightarrow>
             (case pin_buffers K (UndoRecPtrGetLogNo begin_urp) (UndoRecPtrGetBlockNum K begin_urp)
                     (UndoRecPtrGetPageOffset K begin_urp) total_size w1 urs1 of
                None \<Rightarrow> None
              | Some (w2, urs2) \<Rightarrow>
                  let w3 = log_event (map (\<lambda>u. EvLockBuffer (buffer u) LW_EXCLUSIVE) (buffers urs2)) w2;
                      urs3 = urs2\<lparr>urs_begin := begin_urp\<rparr>;
                      result = UndoRecPtrPlusUsableBytes K begin_urp header_size
                  in if 0 \<le> cntc then
                       (case UndoPrepareToMarkChunkClosed K (nat cntc) (w3, urs3) of
                          (Inl e, w4, urs4) \<Rightarrow> Some (Inl e, w4, urs4)
                        | (Inr u, w4, urs4) \<Rightarrow> Some (Inr result, w4, urs4))
                     else Some (Inr result, w3, urs3))))"

section \<open>Inserting a record: the writer\<close>

definition register_insert_page_offset_if_needed :: "int \<Rightarrow> UndoBuffer \<Rightarrow> UndoBuffer" where
  "register_insert_page_offset_if_needed page_off ubuf =
     (if URS_XLOG_INSERT \<notin> flags (bufdata ubuf)
      then ubuf\<lparr>bufdata := (bufdata ubuf)
                   \<lparr>insert_page_offset := page_off mod 65536,
                    flags := insert URS_XLOG_INSERT (flags (bufdata ubuf))\<rparr>\<rparr>
      else ubuf)"

definition register_new_page :: "UndoRecordSetType \<Rightarrow> UndoRecPtr \<Rightarrow> UndoBuffer \<Rightarrow> UndoBuffer" where
  "register_new_page chunk_type loc ubuf =
     ubuf\<lparr>bufdata := (bufdata ubuf)
             \<lparr>flags := insert URS_XLOG_ADD_PAGE (flags (bufdata ubuf)),
              chunk_header_location := loc, bd_urs_type := chunk_type\<rparr>\<rparr>"

definition init_if_needed ::
  "config \<Rightarrow> UndoLogNumber \<Rightarrow> BlockNumber \<Rightarrow> world \<times> UndoBuffer \<Rightarrow> world \<times> UndoBuffer" where
  "init_if_needed K l b s =
     (case s of (w, ubuf) \<Rightarrow>
        if needs_init ubuf
        then (log_event [EvUndoPageInit (BufferTag l b)] (set_page l b (UndoPageInit K) w),
              ubuf\<lparr>needs_init := False\<rparr>)
        else (w, ubuf))"

definition stage_new_chunk :: "UndoRecordSet \<Rightarrow> UndoRecordSetChunkHeader \<Rightarrow> UndoBuffer \<Rightarrow> UndoBuffer" where
  "stage_new_chunk urs chunk_header ubuf =
     (if need_type_header urs
      then ubuf\<lparr>bufdata := (bufdata ubuf)
                   \<lparr>flags := insert URS_XLOG_CREATE (flags (bufdata ubuf)),
                    bd_urs_type := urs_type urs, bd_type_header := type_header urs,
                    bd_type_header_size := type_header_size urs\<rparr>\<rparr>
      else ubuf\<lparr>bufdata := (bufdata ubuf)
                   \<lparr>flags := insert URS_XLOG_ADD_CHUNK (flags (bufdata ubuf)),
                    bd_urs_type := urs_type urs,
                    previous_chunk_header_location := ch_previous_chunk chunk_header\<rparr>\<rparr>)"

text \<open>One round of the header loop of \<^verbatim>\<open>UndoInsert\<close>, on the buffer \<open>buffer_index\<close>; the
  result is the number of bytes the codec wrote.\<close>

definition UndoInsert_header_page ::
  "config \<Rightarrow> UndoRecordSetChunkHeader \<Rightarrow> nat \<Rightarrow> nat \<Rightarrow> int \<Rightarrow> int \<Rightarrow> world \<times> UndoRecordSet
     \<Rightarrow> (error + int) \<times> world \<times> UndoRecordSet" where
  "UndoInsert_header_page K chunk_header th_size buffer_index page_offset input_offset s =
     (case s of (w, urs) \<Rightarrow>
        if length (buffers urs) \<le> buffer_index
        then (Inl (Elog ERROR ''ran out of buffers while inserting undo record headers''), w, urs)
        else
          (case buffer (buffers urs ! buffer_index) of
             InvalidBuffer \<Rightarrow> (Inl (Fault ''invalid buffer''), w, urs)
           | BufferTag l b \<Rightarrow>
               (case init_if_needed K l b (w, buffers urs ! buffer_index) of
                  (w1, ubuf1) \<Rightarrow>
                    let ubuf2 =
                          (if URSNeedsWAL urs then
                             (let u = register_insert_page_offset_if_needed page_offset ubuf1
                              in if input_offset = 0 then stage_new_chunk urs chunk_header u else u)
                           else ubuf1);
                        ubuf3 =
                          (if page_offset = SizeOfUndoPageHeaderData K
                           then register_new_page (urs_type urs) (chunk_start urs) ubuf2
                           else ubuf2)
                    in (case UndoPageInsertHeader K (BufferGetPage w1 l b) page_offset input_offset
                               chunk_header th_size (type_header urs) (chunk_start urs) of
                          (bytes_written, p') \<Rightarrow>
                            let w2 = log_event
                                       [EvUndoPageInsertHeader (BufferTag l b) page_offset input_offset
                                          chunk_header th_size (type_header urs) (chunk_start urs),
                                        EvMarkBufferDirty (BufferTag l b)]
                                       (set_page l b p' w1);
                                urs1 = urs\<lparr>buffers := (buffers urs)[buffer_index := ubuf3]\<rparr>
                            in if chunks urs1 = []
                               then (Inl (Fault ''chunk index out of range''), w2, urs1)
                               else (Inr bytes_written, w2,
                                     urs1\<lparr>chunks := (chunks urs1)
                                             [length (chunks urs1) - 1 :=
                                                (last (chunks urs1))\<lparr>chunk_header_written := True\<rparr>]\<rparr>)))))"

lemma UndoInsert_header_page_Inr:
  "UndoInsert_header_page K h ths bi po io (w, urs) = (Inr n, w', urs') \<Longrightarrow>
     bi < length (buffers urs) \<and> length (buffers urs') = length (buffers urs)"
  by (auto simp: UndoInsert_header_page_def Let_def split: if_splits Buffer.splits prod.splits)

function UndoInsert_header_loop ::
  "config \<Rightarrow> UndoRecordSetChunkHeader \<Rightarrow> nat \<Rightarrow> int \<Rightarrow> nat \<Rightarrow> int \<Rightarrow> int \<Rightarrow> world \<Rightarrow> UndoRecordSet
     \<Rightarrow> (error + nat \<times> int) \<times> world \<times> UndoRecordSet" where
  "UndoInsert_header_loop K chunk_header th_size all_header_size buffer_index page_offset
       input_offset w urs =
     (case UndoInsert_header_page K chunk_header th_size buffer_index page_offset input_offset
             (w, urs) of
        (Inl e, w1, urs1) \<Rightarrow> (Inl e, w1, urs1)
      | (Inr bytes_written, w1, urs1) \<Rightarrow>
          if all_header_size \<le> input_offset + bytes_written
          then (Inr (buffer_index, page_offset + bytes_written), w1, urs1)
          else UndoInsert_header_loop K chunk_header th_size all_header_size (Suc buffer_index)
                 (SizeOfUndoPageHeaderData K) (input_offset + bytes_written) w1 urs1)"
  by pat_completeness auto
termination
proof (relation "measure (\<lambda>(K, h, ths, ahs, bi, po, io, w, urs). length (buffers urs) - bi)",
    goal_cases)
  case 1
  show ?case by simp
next
  case (2 K h ths ahs bi po io w urs x y n w1 urs1)
  then have "UndoInsert_header_page K h ths bi po io (w, urs) = (Inr n, w1, urs1)" by simp
  from UndoInsert_header_page_Inr [OF this] show ?case by auto
qed

declare UndoInsert_header_loop.simps [simp del]

text \<open>One round of the record loop of \<^verbatim>\<open>UndoInsert\<close>.\<close>

definition UndoInsert_record_page ::
  "config \<Rightarrow> byte list \<Rightarrow> nat \<Rightarrow> nat \<Rightarrow> int \<Rightarrow> int \<Rightarrow> world \<times> UndoRecordSet
     \<Rightarrow> (error + int) \<times> world \<times> UndoRecordSet" where
  "UndoInsert_record_page K record_data record_size buffer_index page_offset input_offset s =
     (case s of (w, urs) \<Rightarrow>
        if length (buffers urs) \<le> buffer_index
        then (Inl (Elog ERROR ''ran out of buffers while inserting undo record''), w, urs)
        else
          (case buffer (buffers urs ! buffer_index) of
             InvalidBuffer \<Rightarrow> (Inl (Fault ''invalid buffer''), w, urs)
           | BufferTag l b \<Rightarrow>
               (case init_if_needed K l b (w, buffers urs ! buffer_index) of
                  (w1, ubuf1) \<Rightarrow>
                    let ubuf2 =
                          (if URSNeedsWAL urs
                           then register_insert_page_offset_if_needed page_offset ubuf1
                           else ubuf1);
                        ubuf3 =
                          (if page_offset = SizeOfUndoPageHeaderData K
                           then register_new_page (urs_type urs) (chunk_start urs) ubuf2
                           else ubuf2)
                    in (case UndoPageInsertRecord K (BufferGetPage w1 l b) page_offset input_offset
                               record_size record_data (chunk_start urs) (urs_type urs) of
                          (bytes_written, p') \<Rightarrow>
                            (Inr bytes_written,
                             log_event
                               [EvUndoPageInsertRecord (BufferTag l b) page_offset input_offset
                                  record_size record_data (chunk_start urs) (urs_type urs),
                                EvMarkBufferDirty (BufferTag l b)]
                               (set_page l b p' w1),
                             urs\<lparr>buffers := (buffers urs)[buffer_index := ubuf3]\<rparr>)))))"

lemma UndoInsert_record_page_Inr:
  "UndoInsert_record_page K d rs bi po io (w, urs) = (Inr n, w', urs') \<Longrightarrow>
     bi < length (buffers urs) \<and> length (buffers urs') = length (buffers urs)"
  by (auto simp: UndoInsert_record_page_def Let_def split: if_splits Buffer.splits prod.splits)

function UndoInsert_record_loop ::
  "config \<Rightarrow> byte list \<Rightarrow> nat \<Rightarrow> nat \<Rightarrow> int \<Rightarrow> int \<Rightarrow> world \<Rightarrow> UndoRecordSet
     \<Rightarrow> (error + unit) \<times> world \<times> UndoRecordSet" where
  "UndoInsert_record_loop K record_data record_size buffer_index page_offset input_offset w urs =
     (case UndoInsert_record_page K record_data record_size buffer_index page_offset input_offset
             (w, urs) of
        (Inl e, w1, urs1) \<Rightarrow> (Inl e, w1, urs1)
      | (Inr bytes_written, w1, urs1) \<Rightarrow>
          if int record_size \<le> input_offset + bytes_written
          then (Inr (), w1, urs1)
          else UndoInsert_record_loop K record_data record_size (Suc buffer_index)
                 (SizeOfUndoPageHeaderData K) (input_offset + bytes_written) w1 urs1)"
  by pat_completeness auto
termination
proof (relation "measure (\<lambda>(K, d, rs, bi, po, io, w, urs). length (buffers urs) - bi)",
    goal_cases)
  case 1
  show ?case by simp
next
  case (2 K d rs bi po io w urs x y n w1 urs1)
  then have "UndoInsert_record_page K d rs bi po io (w, urs) = (Inr n, w1, urs1)" by simp
  from UndoInsert_record_page_Inr [OF this] show ?case by auto
qed

declare UndoInsert_record_loop.simps [simp del]

text \<open>The header \<^verbatim>\<open>UndoInsert\<close> stamps on a new chunk: open (size 0), pointing back at the
  header of the chunk before it in \<^verbatim>\<open>urs->chunks\<close>, if there is one.\<close>

definition new_chunk_header :: "config \<Rightarrow> world \<Rightarrow> UndoRecordSet \<Rightarrow> UndoRecordSetChunkHeader" where
  "new_chunk_header K w urs =
     \<lparr>ch_size = 0,
      ch_previous_chunk =
        (if 1 < length (chunks urs)
         then MakeUndoRecPtr
                (logno (slots w (chunk_slot (chunks urs ! (length (chunks urs) - 2)))))
                (chunk_header_offset (chunks urs ! (length (chunks urs) - 2)))
         else InvalidUndoRecPtr K),
      ch_type = urs_type urs\<rparr>"

text \<open>The store to the shared insert pointer, under the slot's \<^verbatim>\<open>meta_lock\<close>.\<close>

definition advance_insert :: "slot_ptr \<Rightarrow> UndoLogOffset \<Rightarrow> world \<Rightarrow> world" where
  "advance_insert sl new_insert w =
     log_event [EvLWLockAcquire sl LW_EXCLUSIVE, EvStoreInsert sl new_insert, EvLWLockRelease sl]
       (w\<lparr>slots := (slots w)(sl := (slots w sl)\<lparr>meta_insert := new_insert\<rparr>)\<rparr>)"

text \<open>The end of \<^verbatim>\<open>UndoInsert\<close>: a previous chunk whose header buffers
  \<^verbatim>\<open>UndoPrepareToInsert\<close> pinned is marked closed, without closing the set.\<close>

definition close_previous_chunk ::
  "config \<Rightarrow> world \<times> UndoRecordSet \<Rightarrow> (error + unit) \<times> world \<times> UndoRecordSet" where
  "close_previous_chunk K s =
     (case s of (w, urs) \<Rightarrow>
        if 1 < length (chunks urs) \<and>
           (case chunk_header_buffer_index (chunks urs ! (length (chunks urs) - 2)) of
              [] \<Rightarrow> False | i # _ \<Rightarrow> i \<noteq> - 1)
        then
          (case UndoMarkChunkClosed K (length (chunks urs) - 2) False (w, urs) of
             (Inl e, w1, urs1) \<Rightarrow> (Inl e, w1, urs1)
           | (Inr u, w1, urs1) \<Rightarrow>
               (Inr (), w1,
                urs1\<lparr>chunks := (chunks urs1)
                        [length (chunks urs1) - 2 :=
                           (chunks urs1 ! (length (chunks urs1) - 2))
                             \<lparr>chunk_header_buffer_index :=
                                (chunk_header_buffer_index
                                   (chunks urs1 ! (length (chunks urs1) - 2)))[0 := - 1]\<rparr>]\<rparr>))
        else (Inr (), w, urs))"

text \<open>\<^verbatim>\<open>UndoInsert\<close>.  The function asserts that the set has an active slot, which it
  dereferences to advance the insert pointer.\<close>

definition UndoInsert ::
  "config \<Rightarrow> byte list \<Rightarrow> nat \<Rightarrow> world \<times> UndoRecordSet \<Rightarrow> (error + unit) \<times> world \<times> UndoRecordSet" where
  "UndoInsert K record_data record_size s =
     (case s of (w, urs) \<Rightarrow>
        let th_size = (if need_type_header urs then type_header_size urs else 0);
            chunk_header_size =
              (if need_chunk_header urs then SizeOfUndoRecordSetChunkHeader K else 0);
            all_header_size = int th_size + chunk_header_size;
            page_offset = uint (urs_begin urs) mod BLCKSZ K
        in (case urs_slot urs of
              None \<Rightarrow> (Inl (Fault ''no active slot''), w, urs)
            | Some sl \<Rightarrow>
                (case (if need_chunk_header urs
                       then UndoInsert_header_loop K (new_chunk_header K w urs) th_size
                              all_header_size 0 page_offset 0 w urs
                       else (Inr (0, page_offset), w, urs)) of
                   (Inl e, w1, urs1) \<Rightarrow> (Inl e, w1, urs1)
                 | (Inr (buffer_index, page_offset1), w1, urs1) \<Rightarrow>
                     (case UndoInsert_record_loop K record_data record_size buffer_index
                             page_offset1 0 w1 urs1 of
                        (Inl e, w2, urs2) \<Rightarrow> (Inl e, w2, urs2)
                      | (Inr u, w2, urs2) \<Rightarrow>
                          let urs3 = urs2\<lparr>urs_state := URS_STATE_DIRTY\<rparr>;
                              w3 = advance_insert sl
                                     (UndoLogOffsetPlusUsableBytes K (meta_insert (slots w2 sl))
                                        (all_header_size + int record_size)) w2
                          in (case close_previous_chunk K (w3, urs3) of
                                (Inl e, w4, urs4) \<Rightarrow> (Inl e, w4, urs4)
                              | (Inr u, w4, urs4) \<Rightarrow>
                                  (Inr (), w4,
                                   urs4\<lparr>need_chunk_header := False,
                                        need_type_header := False\<rparr>))))))"

section \<open>What an insertion does\<close>

text \<open>An event is quiet when it is neither a lock operation nor a store to the insert
  pointer, and, if it is a header insertion, carries the given header.  The loops of
  \<^verbatim>\<open>UndoInsert\<close> and the closing of a previous chunk leave the slots alone and log quiet
  events only.\<close>

definition quiet_event :: "UndoRecordSetChunkHeader \<Rightarrow> event \<Rightarrow> bool" where
  "quiet_event h e =
     (case e of
        EvLWLockAcquire _ _ \<Rightarrow> False
      | EvLWLockRelease _ \<Rightarrow> False
      | EvStoreInsert _ _ \<Rightarrow> False
      | EvUndoPageInsertHeader _ _ _ h' _ _ _ \<Rightarrow> h' = h
      | _ \<Rightarrow> True)"

definition quiet_extension :: "UndoRecordSetChunkHeader \<Rightarrow> world \<Rightarrow> world \<Rightarrow> bool" where
  "quiet_extension h w w' \<longleftrightarrow>
     slots w' = slots w \<and> (\<exists>evs. trace w' = trace w @ evs \<and> list_all (quiet_event h) evs)"

lemma quiet_extension_refl [simp]: "quiet_extension h w w"
  by (simp add: quiet_extension_def)

lemma quiet_extension_trans:
  "quiet_extension h w w1 \<Longrightarrow> quiet_extension h w1 w2 \<Longrightarrow> quiet_extension h w w2"
  by (auto simp: quiet_extension_def)

lemma quiet_extension_log_event:
  "list_all (quiet_event h) evs \<Longrightarrow> quiet_extension h w (log_event evs w)"
  by (auto simp: quiet_extension_def log_event_def)

lemma quiet_extension_set_page [simp]:
  "quiet_extension h w (set_page l b p w1) = quiet_extension h w w1"
  by (simp add: quiet_extension_def set_page_def)

lemma quiet_extension_log_event_iff:
  "list_all (quiet_event h) evs \<Longrightarrow> quiet_extension h w w1 \<Longrightarrow> quiet_extension h w (log_event evs w1)"
  by (auto simp: quiet_extension_def log_event_def)

lemma init_if_needed_quiet:
  "init_if_needed K l b (w, u) = (w', u') \<Longrightarrow> quiet_extension h w w'"
  by (auto simp: init_if_needed_def quiet_event_def intro!: quiet_extension_log_event_iff
      split: if_splits)

lemma UndoInsert_header_page_quiet:
  assumes "UndoInsert_header_page K h ths bi po io (w, urs) = (r, w', urs')"
  shows "quiet_extension h w w'"
proof (cases "length (buffers urs) \<le> bi")
  case True
  with assms show ?thesis by (simp add: UndoInsert_header_page_def)
next
  case False
  show ?thesis
  proof (cases "buffer (buffers urs ! bi)")
    case InvalidBuffer
    with assms False show ?thesis by (simp add: UndoInsert_header_page_def)
  next
    case (BufferTag l b)
    obtain w1 u1 where i: "init_if_needed K l b (w, buffers urs ! bi) = (w1, u1)"
      by (cases "init_if_needed K l b (w, buffers urs ! bi)")
    have q1: "quiet_extension h w w1" by (rule init_if_needed_quiet [OF i])
    obtain n p' where c: "UndoPageInsertHeader K (BufferGetPage w1 l b) po io h ths (type_header urs) (chunk_start urs) = (n, p')"
      by (cases "UndoPageInsertHeader K (BufferGetPage w1 l b) po io h ths (type_header urs) (chunk_start urs)")
    have "w' = log_event [EvUndoPageInsertHeader (BufferTag l b) po io h ths (type_header urs) (chunk_start urs),
                          EvMarkBufferDirty (BufferTag l b)] (set_page l b p' w1)"
      using assms False BufferTag i c
      by (auto simp: UndoInsert_header_page_def Let_def split: if_splits)
    then show ?thesis using q1
      by (auto simp: quiet_event_def intro!: quiet_extension_log_event_iff)
  qed
qed

lemma UndoInsert_header_loop_quiet:
  "UndoInsert_header_loop K h ths ahs bi po io w urs = (r, w', urs') \<Longrightarrow> quiet_extension h w w'"
proof (induction K h ths ahs bi po io w urs arbitrary: r w' urs' rule: UndoInsert_header_loop.induct)
  case (1 K h ths ahs bi po io w urs)
  obtain r1 w1 urs1 where p: "UndoInsert_header_page K h ths bi po io (w, urs) = (r1, w1, urs1)"
    by (metis prod_cases3)
  note q = UndoInsert_header_page_quiet [OF p]
  show ?case
  proof (cases r1)
    case (Inl e)
    with "1.prems" p have "w' = w1" by (subst (asm) UndoInsert_header_loop.simps) simp
    with q show ?thesis by simp
  next
    case (Inr n)
    show ?thesis
    proof (cases "ahs \<le> io + n")
      case True
      with "1.prems" p Inr have "w' = w1" by (subst (asm) UndoInsert_header_loop.simps) simp
      with q show ?thesis by simp
    next
      case False
      with "1.prems" p Inr
      have "UndoInsert_header_loop K h ths ahs (Suc bi) (SizeOfUndoPageHeaderData K) (io + n) w1 urs1 = (r, w', urs')"
        by (subst (asm) UndoInsert_header_loop.simps) simp
      from "1.IH" [OF p [symmetric] Inr refl False this] q show ?thesis
        by (rule quiet_extension_trans [rotated])
    qed
  qed
qed


lemma UndoInsert_record_page_quiet:
  assumes "UndoInsert_record_page K d rs bi po io (w, urs) = (r, w', urs')"
  shows "quiet_extension h w w'"
proof (cases "length (buffers urs) \<le> bi")
  case True
  with assms show ?thesis by (simp add: UndoInsert_record_page_def)
next
  case False
  show ?thesis
  proof (cases "buffer (buffers urs ! bi)")
    case InvalidBuffer
    with assms False show ?thesis by (simp add: UndoInsert_record_page_def)
  next
    case (BufferTag l b)
    obtain w1 u1 where i: "init_if_needed K l b (w, buffers urs ! bi) = (w1, u1)"
      by (cases "init_if_needed K l b (w, buffers urs ! bi)")
    have q1: "quiet_extension h w w1" by (rule init_if_needed_quiet [OF i])
    obtain n p' where c: "UndoPageInsertRecord K (BufferGetPage w1 l b) po io rs d (chunk_start urs) (urs_type urs) = (n, p')"
      by (cases "UndoPageInsertRecord K (BufferGetPage w1 l b) po io rs d (chunk_start urs) (urs_type urs)")
    have "w' = log_event [EvUndoPageInsertRecord (BufferTag l b) po io rs d (chunk_start urs) (urs_type urs),
                          EvMarkBufferDirty (BufferTag l b)] (set_page l b p' w1)"
      using assms False BufferTag i c
      by (auto simp: UndoInsert_record_page_def Let_def split: if_splits)
    then show ?thesis using q1
      by (auto simp: quiet_event_def intro!: quiet_extension_log_event_iff)
  qed
qed

lemma UndoInsert_record_loop_quiet:
  "UndoInsert_record_loop K d rs bi po io w urs = (r, w', urs') \<Longrightarrow> quiet_extension h w w'"
proof (induction K d rs bi po io w urs arbitrary: r w' urs' rule: UndoInsert_record_loop.induct)
  case (1 K d rs bi po io w urs)
  obtain r1 w1 urs1 where p: "UndoInsert_record_page K d rs bi po io (w, urs) = (r1, w1, urs1)"
    by (metis prod_cases3)
  note q = UndoInsert_record_page_quiet [OF p, of h]
  show ?case
  proof (cases r1)
    case (Inl e)
    with "1.prems" p have "w' = w1" by (subst (asm) UndoInsert_record_loop.simps) simp
    with q show ?thesis by simp
  next
    case (Inr n)
    show ?thesis
    proof (cases "int rs \<le> io + n")
      case True
      with "1.prems" p Inr have "w' = w1" by (subst (asm) UndoInsert_record_loop.simps) simp
      with q show ?thesis by simp
    next
      case False
      with "1.prems" p Inr
      have "UndoInsert_record_loop K d rs (Suc bi) (SizeOfUndoPageHeaderData K) (io + n) w1 urs1 = (r, w', urs')"
        by (subst (asm) UndoInsert_record_loop.simps) simp
      from "1.IH" [OF p [symmetric] Inr refl False this] q show ?thesis
        by (rule quiet_extension_trans [rotated])
    qed
  qed
qed

lemma UndoMarkPageClosed_quiet:
  "UndoMarkPageClosed K urs chunk chbidx po d sz w = (r, w') \<Longrightarrow> quiet_extension h w w'"
  by (auto simp: UndoMarkPageClosed_def Let_def UndoPageOverwrite_def quiet_event_def
      intro!: quiet_extension_log_event_iff split: if_splits Buffer.splits)

lemma UndoMarkChunkClosed_loop_quiet:
  "UndoMarkChunkClosed_loop K urs chunk sz chbidx po d w = (r, w') \<Longrightarrow> quiet_extension h w w'"
proof (induction K urs chunk sz chbidx po d w arbitrary: r w' rule: UndoMarkChunkClosed_loop.induct)
  case (1 K urs chunk sz chbidx po d w)
  show ?case
  proof (cases "d < 8")
    case False
    with "1.prems" have "w' = w" by (subst (asm) UndoMarkChunkClosed_loop.simps) simp
    then show ?thesis by simp
  next
    case True
    obtain r1 w1 where p: "UndoMarkPageClosed K urs chunk chbidx po d sz w = (r1, w1)"
      by (cases "UndoMarkPageClosed K urs chunk chbidx po d sz w")
    note q = UndoMarkPageClosed_quiet [OF p, of h]
    show ?thesis
    proof (cases r1)
      case (Inl e)
      with "1.prems" p True have "w' = w1" by (subst (asm) UndoMarkChunkClosed_loop.simps) simp
      with q show ?thesis by simp
    next
      case (Inr n)
      with "1.prems" p True
      have "UndoMarkChunkClosed_loop K urs chunk sz (Suc chbidx) (SizeOfUndoPageHeaderData K) (d + n) w1 = (r, w')"
        by (subst (asm) UndoMarkChunkClosed_loop.simps) simp
      from "1.IH" [OF True p [symmetric] Inr this] q show ?thesis
        by (rule quiet_extension_trans [rotated])
    qed
  qed
qed

lemma UndoMarkChunkClosed_quiet:
  "UndoMarkChunkClosed K ci close_urs (w, urs) = (r, w', urs') \<Longrightarrow> quiet_extension h w w'"
  by (auto simp: UndoMarkChunkClosed_def Let_def split: if_splits prod.splits
      dest: UndoMarkChunkClosed_loop_quiet [of _ _ _ _ _ _ _ _ _ _ h])

lemma close_previous_chunk_quiet:
  "close_previous_chunk K (w, urs) = (r, w', urs') \<Longrightarrow> quiet_extension h w w'"
  by (auto simp: close_previous_chunk_def split: if_splits prod.splits sum.splits
      dest: UndoMarkChunkClosed_quiet [of _ _ _ _ _ _ _ _ h])

definition all_header_size_of :: "config \<Rightarrow> UndoRecordSet \<Rightarrow> int" where
  "all_header_size_of K urs =
     int (if need_type_header urs then type_header_size urs else 0)
       + (if need_chunk_header urs then SizeOfUndoRecordSetChunkHeader K else 0)"

text \<open>\<open>stores_under_exclusive_lock held evs\<close>: along the log \<open>evs\<close>, started with the
  locks \<open>held\<close>, every store to a slot's insert pointer happens while that slot's
  \<^verbatim>\<open>meta_lock\<close> is held in exclusive mode.\<close>

fun stores_under_exclusive_lock :: "(slot_ptr \<Rightarrow> LWLockMode option) \<Rightarrow> event list \<Rightarrow> bool" where
  "stores_under_exclusive_lock held [] = True"
| "stores_under_exclusive_lock held (EvLWLockAcquire sl m # es) =
     stores_under_exclusive_lock (held(sl := Some m)) es"
| "stores_under_exclusive_lock held (EvLWLockRelease sl # es) =
     stores_under_exclusive_lock (held(sl := None)) es"
| "stores_under_exclusive_lock held (EvStoreInsert sl v # es) =
     (held sl = Some LW_EXCLUSIVE \<and> stores_under_exclusive_lock held es)"
| "stores_under_exclusive_lock held (e # es) = stores_under_exclusive_lock held es"

definition is_EvStoreInsert :: "event \<Rightarrow> bool" where
  "is_EvStoreInsert e = (case e of EvStoreInsert _ _ \<Rightarrow> True | _ \<Rightarrow> False)"

lemma stores_under_exclusive_lock_quiet:
  "list_all (quiet_event h) A \<Longrightarrow>
     stores_under_exclusive_lock held (A @ es) = stores_under_exclusive_lock held es"
proof (induction A)
  case Nil
  show ?case by simp
next
  case (Cons e A)
  then show ?case by (cases e) (simp_all add: quiet_event_def)
qed

lemma filter_store_quiet:
  "list_all (quiet_event h) A \<Longrightarrow> filter is_EvStoreInsert A = []"
  by (induction A) (auto simp: quiet_event_def is_EvStoreInsert_def split: event.splits)

lemma UndoInsert_structure:
  assumes "UndoInsert K d n (w, urs) = (r, w', urs')" and "urs_slot urs = Some sl"
  defines "h \<equiv> new_chunk_header K w urs"
  defines "v \<equiv> UndoLogOffsetPlusUsableBytes K (meta_insert (slots w sl))
                  (all_header_size_of K urs + int n)"
  shows "(r \<noteq> Inr () \<and> (\<exists>A. trace w' = trace w @ A \<and> list_all (quiet_event h) A)) \<or>
         (\<exists>A B. trace w' = trace w @ A @
                   [EvLWLockAcquire sl LW_EXCLUSIVE, EvStoreInsert sl v, EvLWLockRelease sl] @ B \<and>
                 list_all (quiet_event h) A \<and> list_all (quiet_event h) B \<and>
                 slots w' = (slots w)(sl := (slots w sl)\<lparr>meta_insert := v\<rparr>))"
proof -
  define po where "po = uint (urs_begin urs) mod BLCKSZ K"
  define ths where "ths = (if need_type_header urs then type_header_size urs else 0)"
  define ahs where "ahs = all_header_size_of K urs"
  have ahs: "int ths + (if need_chunk_header urs then SizeOfUndoRecordSetChunkHeader K else 0) = ahs"
    by (simp add: ahs_def ths_def all_header_size_of_def)
  obtain r1 w1 urs1 where H: "(if need_chunk_header urs
                       then UndoInsert_header_loop K h ths ahs 0 po 0 w urs
                       else (Inr (0, po), w, urs)) = (r1, w1, urs1)"
    by (metis prod_cases3)
  have q1: "quiet_extension h w w1"
    using H UndoInsert_header_loop_quiet [of K h ths ahs 0 po 0 w urs r1 w1 urs1]
    by (auto split: if_splits)
  have U: "UndoInsert K d n (w, urs) =
     (case (r1, w1, urs1) of
                   (Inl e, w1, urs1) \<Rightarrow> (Inl e, w1, urs1)
                 | (Inr (buffer_index, page_offset1), w1, urs1) \<Rightarrow>
                     (case UndoInsert_record_loop K d n buffer_index page_offset1 0 w1 urs1 of
                        (Inl e, w2, urs2) \<Rightarrow> (Inl e, w2, urs2)
                      | (Inr u, w2, urs2) \<Rightarrow>
                          let urs3 = urs2\<lparr>urs_state := URS_STATE_DIRTY\<rparr>;
                              w3 = advance_insert sl
                                     (UndoLogOffsetPlusUsableBytes K (meta_insert (slots w2 sl))
                                        (ahs + int n)) w2
                          in (case close_previous_chunk K (w3, urs3) of
                                (Inl e, w4, urs4) \<Rightarrow> (Inl e, w4, urs4)
                              | (Inr u, w4, urs4) \<Rightarrow>
                                  (Inr (), w4,
                                   urs4\<lparr>need_chunk_header := False,
                                        need_type_header := False\<rparr>))))"
    unfolding UndoInsert_def Let_def H [symmetric] h_def po_def ths_def ahs_def
      all_header_size_of_def
    by (simp add: assms(2))
  show ?thesis
  proof (cases r1)
    case (Inl e)
    with U assms(1) have "r = Inl e" "w' = w1" by simp_all
    with q1 show ?thesis by (auto simp: quiet_extension_def)
  next
    case (Inr bp)
    obtain bi po1 where bp: "bp = (bi, po1)" by (cases bp)
    obtain r2 w2 urs2 where R: "UndoInsert_record_loop K d n bi po1 0 w1 urs1 = (r2, w2, urs2)"
      by (metis prod_cases3)
    have q2: "quiet_extension h w1 w2" by (rule UndoInsert_record_loop_quiet [OF R])
    have q12: "quiet_extension h w w2" by (rule quiet_extension_trans [OF q1 q2])
    show ?thesis
    proof (cases r2)
      case (Inl e)
      with U assms(1) Inr bp R have "r = Inl e" "w' = w2" by simp_all
      with q12 show ?thesis by (auto simp: quiet_extension_def)
    next
      case (Inr u)
      define w3 where "w3 = advance_insert sl
                 (UndoLogOffsetPlusUsableBytes K (meta_insert (slots w2 sl)) (ahs + int n)) w2"
      obtain r4 w4 urs4 where C: "close_previous_chunk K (w3, urs2\<lparr>urs_state := URS_STATE_DIRTY\<rparr>) = (r4, w4, urs4)"
        by (metis prod_cases3)
      have q4: "quiet_extension h w3 w4" by (rule close_previous_chunk_quiet [OF C])
      have "w' = w4"
        using U assms(1) \<open>r1 = Inr bp\<close> bp R Inr C
        by (auto simp: Let_def w3_def split: sum.splits)
      from q12 obtain A where A: "trace w2 = trace w @ A" "list_all (quiet_event h) A" "slots w2 = slots w"
        by (auto simp: quiet_extension_def)
      from q4 obtain B where B: "trace w4 = trace w3 @ B" "list_all (quiet_event h) B" "slots w4 = slots w3"
        by (auto simp: quiet_extension_def)
      have v: "UndoLogOffsetPlusUsableBytes K (meta_insert (slots w sl)) (ahs + int n) = v"
        by (simp add: v_def ahs_def)
      have "trace w4 = trace w @ A @ [EvLWLockAcquire sl LW_EXCLUSIVE, EvStoreInsert sl v, EvLWLockRelease sl] @ B"
        "slots w4 = (slots w)(sl := (slots w sl)\<lparr>meta_insert := v\<rparr>)"
        using A B by (simp_all add: w3_def v advance_insert_def log_event_def)
      with A(2) B(2) \<open>w' = w4\<close> show ?thesis by blast
    qed
  qed
qed

definition stamped_header :: "event \<Rightarrow> UndoRecordSetChunkHeader option" where
  "stamped_header e =
     (case e of EvUndoPageInsertHeader _ _ _ h _ _ _ \<Rightarrow> Some h | _ \<Rightarrow> None)"

lemma quiet_event_stamped:
  "list_all (quiet_event h) A \<Longrightarrow> e \<in> set A \<Longrightarrow> stamped_header e = Some h' \<Longrightarrow> h' = h"
  by (auto simp: list_all_iff quiet_event_def stamped_header_def split: event.splits)

text \<open>
  C2.  When \<^verbatim>\<open>UndoInsert\<close> returns normally on a set whose active slot is \<open>sl\<close>, the
  slot's shared insert pointer is its previous value advanced, in usable bytes, by the size
  of the headers due (type header and chunk header, as far as each is needed) plus the
  record size.  The call stores to an insert pointer exactly once, that value to that slot,
  and the store lies between the acquisition of the slot's \<^verbatim>\<open>meta_lock\<close> in exclusive mode
  and its release.
\<close>

theorem UndoInsert_advances_insert_under_lock:
  assumes "fst (UndoInsert K record_data record_size (w, urs)) = Inr ()"
    and "urs_slot urs = Some sl"
  shows "meta_insert (slots (fst (snd (UndoInsert K record_data record_size (w, urs)))) sl)
           = UndoLogOffsetPlusUsableBytes K (meta_insert (slots w sl))
               (int (if need_type_header urs then type_header_size urs else 0)
                  + (if need_chunk_header urs then SizeOfUndoRecordSetChunkHeader K else 0)
                  + int record_size) \<and>
         filter is_EvStoreInsert
             (drop (length (trace w))
                (trace (fst (snd (UndoInsert K record_data record_size (w, urs))))))
           = [EvStoreInsert sl
                (UndoLogOffsetPlusUsableBytes K (meta_insert (slots w sl))
                   (int (if need_type_header urs then type_header_size urs else 0)
                      + (if need_chunk_header urs then SizeOfUndoRecordSetChunkHeader K else 0)
                      + int record_size))] \<and>
         stores_under_exclusive_lock (\<lambda>_. None)
             (drop (length (trace w))
                (trace (fst (snd (UndoInsert K record_data record_size (w, urs))))))"
proof -
  obtain r w' urs' where U: "UndoInsert K record_data record_size (w, urs) = (r, w', urs')"
    by (metis prod_cases3)
  with assms(1) have r: "r = Inr ()" by simp
  define v where "v = UndoLogOffsetPlusUsableBytes K (meta_insert (slots w sl))
                  (all_header_size_of K urs + int record_size)"
  from UndoInsert_structure [OF U assms(2)] r
  obtain A B where
    t: "trace w' = trace w @ A @
           [EvLWLockAcquire sl LW_EXCLUSIVE, EvStoreInsert sl v, EvLWLockRelease sl] @ B"
    and q: "list_all (quiet_event (new_chunk_header K w urs)) A"
       "list_all (quiet_event (new_chunk_header K w urs)) B"
    and s: "slots w' = (slots w)(sl := (slots w sl)\<lparr>meta_insert := v\<rparr>)"
    unfolding v_def by blast
  have 1: "meta_insert (slots w' sl) = v" by (simp add: s)
  have 2: "filter is_EvStoreInsert (drop (length (trace w)) (trace w')) = [EvStoreInsert sl v]"
    using filter_store_quiet [OF q(1)] filter_store_quiet [OF q(2)]
    by (simp add: t is_EvStoreInsert_def)
  have 3: "stores_under_exclusive_lock (\<lambda>_. None) (drop (length (trace w)) (trace w'))"
    using stores_under_exclusive_lock_quiet [OF q(1)] stores_under_exclusive_lock_quiet [OF q(2), where es = "[]"]
    by (simp add: t)
  from 1 2 3 show ?thesis
    by (simp add: U v_def all_header_size_of_def)
qed

text \<open>
  C3.  Every chunk header that a call of \<^verbatim>\<open>UndoInsert\<close> hands to the page codec (whatever
  the outcome of the call) has size 0, the type of the set, and as previous chunk the
  invalid pointer when the set has at most one chunk, otherwise the address of the header
  of the chunk that precedes the new one in the set's chunk table.
\<close>

theorem UndoInsert_stamps_open_header_with_back_pointer:
  assumes "e \<in> set (drop (length (trace w))
                     (trace (fst (snd (UndoInsert K record_data record_size (w, urs))))))"
    and "stamped_header e = Some h"
  shows "ch_size h = 0 \<and>
         ch_previous_chunk h =
           (if length (chunks urs) \<le> 1 then InvalidUndoRecPtr K
            else MakeUndoRecPtr
                   (logno (slots w (chunk_slot (chunks urs ! (length (chunks urs) - 2)))))
                   (chunk_header_offset (chunks urs ! (length (chunks urs) - 2)))) \<and>
         ch_type h = urs_type urs"
proof (cases "urs_slot urs")
  case None
  then have "UndoInsert K record_data record_size (w, urs) = (Inl (Fault ''no active slot''), w, urs)"
    by (simp add: UndoInsert_def Let_def)
  with assms(1) show ?thesis by simp
next
  case (Some sl)
  obtain r w' urs' where U: "UndoInsert K record_data record_size (w, urs) = (r, w', urs')"
    by (metis prod_cases3)
  have st: "stamped_header (EvLWLockAcquire sl LW_EXCLUSIVE) = None"
    "stamped_header (EvStoreInsert sl v) = None" "stamped_header (EvLWLockRelease sl) = None" for v
    by (simp_all add: stamped_header_def)
  from assms(1) U have mem: "e \<in> set (drop (length (trace w)) (trace w'))" by simp
  from UndoInsert_structure [OF U Some]
  have "h = new_chunk_header K w urs"
  proof (elim disjE conjE exE)
    fix A
    assume "trace w' = trace w @ A" "list_all (quiet_event (new_chunk_header K w urs)) A"
    with mem assms(2) show ?thesis by (auto dest: quiet_event_stamped)
  next
    fix A B
    assume "trace w' = trace w @ A @
              [EvLWLockAcquire sl LW_EXCLUSIVE,
               EvStoreInsert sl (UndoLogOffsetPlusUsableBytes K (meta_insert (slots w sl))
                                   (all_header_size_of K urs + int record_size)),
               EvLWLockRelease sl] @ B"
      and "list_all (quiet_event (new_chunk_header K w urs)) A"
      and "list_all (quiet_event (new_chunk_header K w urs)) B"
    with mem assms(2) st show ?thesis by (auto dest: quiet_event_stamped)
  qed
  then show ?thesis by (auto simp: new_chunk_header_def)
qed

section \<open>What the planner returns\<close>

definition same_plan :: "UndoRecordSet \<Rightarrow> UndoRecordSet \<Rightarrow> bool" where
  "same_plan urs urs' \<longleftrightarrow>
     need_chunk_header urs' = need_chunk_header urs \<and>
     need_type_header urs' = need_type_header urs \<and>
     type_header_size urs' = type_header_size urs \<and>
     urs_slot urs' = urs_slot urs \<and> urs_begin urs' = urs_begin urs"

definition same_addresses :: "world \<Rightarrow> world \<Rightarrow> bool" where
  "same_addresses w w' \<longleftrightarrow>
     (\<forall>sl. logno (slots w' sl) = logno (slots w sl) \<and>
           meta_insert (slots w' sl) = meta_insert (slots w sl))"

lemma same_addresses_refl [simp]: "same_addresses w w"
  by (simp add: same_addresses_def)

lemma same_addresses_trans:
  "same_addresses w w1 \<Longrightarrow> same_addresses w1 w2 \<Longrightarrow> same_addresses w w2"
  by (simp add: same_addresses_def)

lemma reserve_physical_undo_valid:
  assumes "reserve_physical_undo K sl n (w, urs) = (b, w1, urs1)"
    and "b \<noteq> InvalidUndoRecPtr K" and "urs_slot urs = Some sl"
  shows "b = MakeUndoRecPtr (logno (slots w1 sl)) (meta_insert (slots w1 sl))"
    and "urs_slot urs1 = Some sl"
    and "need_chunk_header urs1 = need_chunk_header urs"
    and "need_type_header urs1 = need_type_header urs"
    and "type_header_size urs1 = type_header_size urs"
  using assms
  by (auto simp: reserve_physical_undo_def Let_def log_event_def UndoLogAdjustPhysicalRange_def
      split: if_splits)

lemma reserve_physical_undo_type_header:
  assumes "reserve_physical_undo K sl n (w, urs) = (b, w1, urs1)"
  shows "need_type_header urs1 = need_type_header urs \<and>
         type_header_size urs1 = type_header_size urs"
  using assms
  by (auto simp: reserve_physical_undo_def Let_def split: if_splits)

lemma create_new_chunk_type_header:
  assumes "create_new_chunk (w, urs) = (r, w1, urs1)"
  shows "need_type_header urs1 = need_type_header urs \<and>
         type_header_size urs1 = type_header_size urs"
  using assms
  by (auto simp: create_new_chunk_def Let_def split: list.splits)

lemma UndoPrepareToInsert_reserve_result:
  "UndoPrepareToInsert_reserve K n cntc w urs = (Inr (b, hs, ts, cntc'), w1, urs1) \<Longrightarrow>
     hs = planned_header_size K urs1 \<and> ts = int n + hs \<and>
     (\<exists>sl. urs_slot urs1 = Some sl \<and>
           b = MakeUndoRecPtr (logno (slots w1 sl)) (meta_insert (slots w1 sl))) \<and>
     need_type_header urs1 = need_type_header urs \<and>
     type_header_size urs1 = type_header_size urs"
proof (induction K n cntc w urs rule: UndoPrepareToInsert_reserve.induct)
  case (1 K n cntc w urs)
  note prem = "1.prems" [unfolded UndoPrepareToInsert_reserve.simps [of K n cntc w urs]]
  show ?case
  proof (cases "urs_slot urs")
    case None
    obtain r2 w2 urs2 where c: "create_new_chunk (w, urs) = (r2, w2, urs2)"
      by (metis prod_cases3)
    show ?thesis
    proof (cases r2)
      case (Inl e)
      with prem None c show ?thesis by (simp add: Let_def)
    next
      case (Inr u)
      with prem None c
      have "UndoPrepareToInsert_reserve K n cntc w2 urs2 = (Inr (b, hs, ts, cntc'), w1, urs1)"
        by (simp add: Let_def)
      from "1.IH"(1) [OF refl refl None c [symmetric] Inr refl this]
        create_new_chunk_type_header [OF c]
      show ?thesis by simp
    qed
  next
    case (Some sl)
    obtain b0 w0 urs0 where
      r: "reserve_physical_undo K sl (int n + planned_header_size K urs) (w, urs) = (b0, w0, urs0)"
      by (metis prod_cases3)
    show ?thesis
    proof (cases "b0 \<noteq> InvalidUndoRecPtr K")
      case True
      with prem Some r have eq: "b = b0" "hs = planned_header_size K urs"
        "ts = int n + planned_header_size K urs" "w1 = w0" "urs1 = urs0"
        by (simp_all add: Let_def)
      from reserve_physical_undo_valid [OF r True Some] eq show ?thesis
        by (simp add: planned_header_size_def)
    next
      case inv: False
      show ?thesis
      proof (cases "chunks urs0 = []")
        case True
        with prem Some r inv show ?thesis by (simp add: Let_def)
      next
        case ne: False
        define urs0' where "urs0' = (if chunk_header_written (last (chunks urs0)) then urs0
                                    else urs0\<lparr>chunks := butlast (chunks urs0)\<rparr>)"
        have t0: "need_type_header urs0' = need_type_header urs0"
          "type_header_size urs0' = type_header_size urs0"
          by (simp_all add: urs0'_def)
        obtain r2 w2 urs2 where c: "create_new_chunk (w0, urs0') = (r2, w2, urs2)"
          by (metis prod_cases3)
        show ?thesis
        proof (cases r2)
          case (Inl e)
          with prem Some r inv ne c show ?thesis by (simp add: Let_def urs0'_def)
        next
          case (Inr u)
          with prem Some r inv ne c
          have "UndoPrepareToInsert_reserve K n
                  (if chunk_header_written (last (chunks urs0)) then int (length (chunks urs0)) - 1
                   else cntc) w2 urs2 = (Inr (b, hs, ts, cntc'), w1, urs1)"
            by (simp add: Let_def urs0'_def)
          from "1.IH"(2) [OF refl refl Some r [symmetric] refl inv ne c [unfolded urs0'_def, symmetric] Inr refl this]
            create_new_chunk_type_header [OF c] reserve_physical_undo_type_header [OF r] t0
          show ?thesis by simp
        qed
      qed
    qed
  qed
qed


lemma pin_buffers_frame:
  "pin_buffers K l block offset ts w urs = Some (w2, urs2) \<Longrightarrow>
     slots w2 = slots w \<and> same_plan urs urs2"
proof (induction K l block offset ts w urs rule: pin_buffers.induct)
  case (1 K l block offset ts w urs)
  note prem = "1.prems" [unfolded pin_buffers.simps [of K l block offset ts w urs]]
  show ?case
  proof (cases "ts \<le> 0")
    case True
    with prem show ?thesis by (simp add: same_plan_def)
  next
    case False
    define n where "n = (if BLCKSZ K - offset < 0 then ts else min (BLCKSZ K - offset) ts)"
    from prem False have nz: "n \<noteq> 0" by (auto simp: Let_def n_def split: if_splits)
    define isnew where "isnew = (offset = SizeOfUndoPageHeaderData K)"
    define w1 where "w1 = log_event [EvReadBuffer l block (if isnew then RBM_ZERO else RBM_NORMAL)] w"
    define urs1 where "urs1 = urs\<lparr>buffers := buffers urs @
          [\<lparr>buffer = BufferTag l block, is_new = isnew, needs_init = isnew,
            bufdata = zero_bufdata\<rparr>]\<rparr>"
    from prem False nz
    have "pin_buffers K l (block + 1) (SizeOfUndoPageHeaderData K) (ts - n) w1 urs1 = Some (w2, urs2)"
      by (simp add: Let_def n_def isnew_def w1_def urs1_def)
    from "1.IH" [OF False refl refl refl refl refl _ this [unfolded n_def isnew_def w1_def urs1_def]] nz
    show ?thesis
      by (simp add: n_def same_plan_def log_event_def)
  qed
qed

lemma pin_buffers_returns:
  "0 \<le> offset \<Longrightarrow> offset < BLCKSZ K \<Longrightarrow> 0 \<le> SizeOfUndoPageHeaderData K \<Longrightarrow>
   SizeOfUndoPageHeaderData K < BLCKSZ K \<Longrightarrow>
     pin_buffers K l block offset ts w urs \<noteq> None"
proof (induction K l block offset ts w urs rule: pin_buffers.induct)
  case (1 K l block offset ts w urs)
  show ?case
  proof (cases "ts \<le> 0")
    case True
    then show ?thesis by (subst pin_buffers.simps) simp
  next
    case False
    define n where "n = (if BLCKSZ K - offset < 0 then ts else min (BLCKSZ K - offset) ts)"
    have nz: "n \<noteq> 0" using False "1.prems" by (simp add: n_def)
    from "1.IH" [OF False refl refl refl refl refl _ "1.prems"(3) "1.prems"(4) "1.prems"(3,4)] nz
    show ?thesis
      by (subst pin_buffers.simps) (simp add: Let_def n_def False)
  qed
qed

lemma UndoPrepareToMarkChunkClosed_frame:
  "UndoPrepareToMarkChunkClosed K ci (w, urs) = (r, w', urs') \<Longrightarrow>
     slots w' = slots w \<and> same_plan urs urs'"
  by (auto simp: UndoPrepareToMarkChunkClosed_def Let_def find_or_read_buffer_def log_event_def
      set_chunk_header_buffer_index_def same_plan_def split: if_splits option.splits prod.splits)


lemma UndoPrepareToInsert_returns:
  assumes "valid_config K"
  shows "UndoPrepareToInsert K record_size (w, urs) \<noteq> None"
proof -
  obtain r w1 urs1 where R: "UndoPrepareToInsert_reserve K record_size (- 1) w urs = (r, w1, urs1)"
    by (metis prod_cases3)
  show ?thesis
  proof (cases r)
    case (Inl e)
    with R show ?thesis by (simp add: UndoPrepareToInsert_def)
  next
    case (Inr x)
    obtain b hs ts cntc where x: "x = (b, hs, ts, cntc)" by (metis prod_cases4)
    have B: "0 < BLCKSZ K" "0 \<le> SizeOfUndoPageHeaderData K" "SizeOfUndoPageHeaderData K < BLCKSZ K"
      using assms by (simp_all add: valid_config_def)
    have "pin_buffers K (UndoRecPtrGetLogNo b) (UndoRecPtrGetBlockNum K b)
            (UndoRecPtrGetPageOffset K b) ts w1 urs1 \<noteq> None"
      using B by (intro pin_buffers_returns) (simp_all add: UndoRecPtrGetPageOffset_def)
    then obtain w2 urs2 where
      "pin_buffers K (UndoRecPtrGetLogNo b) (UndoRecPtrGetBlockNum K b)
            (UndoRecPtrGetPageOffset K b) ts w1 urs1 = Some (w2, urs2)"
      by auto
    with R Inr x show ?thesis
      by (simp add: UndoPrepareToInsert_def Let_def split: prod.splits sum.splits)
  qed
qed

text \<open>
  C4.  When \<^verbatim>\<open>UndoPrepareToInsert\<close> succeeds, its result is the reserved position
  \<^verbatim>\<open>urs->begin\<close> advanced in usable bytes by the header size: 0 if no chunk header is
  pending, the chunk header size if a chunk header but no type header is pending, the
  chunk header size plus the type header size if both are.  The reserved position is the
  insert pointer of the set's active slot, and the call leaves the decision about the type
  header as it was.
\<close>

theorem UndoPrepareToInsert_returns_first_data_byte:
  assumes "UndoPrepareToInsert K record_size (w, urs) = Some (Inr result, w', urs')"
  shows "result =
           UndoRecPtrPlusUsableBytes K (urs_begin urs')
             (if \<not> need_chunk_header urs' then 0
              else if \<not> need_type_header urs' then SizeOfUndoRecordSetChunkHeader K
              else SizeOfUndoRecordSetChunkHeader K + int (type_header_size urs')) \<and>
         (case urs_slot urs' of
            None \<Rightarrow> False
          | Some sl \<Rightarrow>
              urs_begin urs' = MakeUndoRecPtr (logno (slots w' sl)) (meta_insert (slots w' sl))) \<and>
         need_type_header urs' = need_type_header urs \<and>
         type_header_size urs' = type_header_size urs"
proof -
  obtain r w1 urs1 where R: "UndoPrepareToInsert_reserve K record_size (- 1) w urs = (r, w1, urs1)"
    by (metis prod_cases3)
  from assms R obtain b hs ts cntc where r: "r = Inr (b, hs, ts, cntc)"
    by (cases r) (auto simp: UndoPrepareToInsert_def)
  note res = UndoPrepareToInsert_reserve_result [OF R [unfolded r]]
  from res obtain sl where sl: "urs_slot urs1 = Some sl"
    "b = MakeUndoRecPtr (logno (slots w1 sl)) (meta_insert (slots w1 sl))" by blast
  from assms R r obtain w2 urs2 where
    P: "pin_buffers K (UndoRecPtrGetLogNo b) (UndoRecPtrGetBlockNum K b)
            (UndoRecPtrGetPageOffset K b) ts w1 urs1 = Some (w2, urs2)"
    by (auto simp: UndoPrepareToInsert_def split: option.splits)
  note pf = pin_buffers_frame [OF P]
  define w3 where "w3 = log_event (map (\<lambda>u. EvLockBuffer (buffer u) LW_EXCLUSIVE) (buffers urs2)) w2"
  define urs3 where "urs3 = urs2\<lparr>urs_begin := b\<rparr>"
  have 3: "slots w3 = slots w1" "need_chunk_header urs3 = need_chunk_header urs1"
    "need_type_header urs3 = need_type_header urs1" "type_header_size urs3 = type_header_size urs1"
    "urs_slot urs3 = Some sl" "urs_begin urs3 = b"
    using pf sl(1) by (simp_all add: w3_def urs3_def log_event_def same_plan_def)
  have fin: "result = UndoRecPtrPlusUsableBytes K b hs \<and> slots w' = slots w3 \<and> same_plan urs3 urs'"
  proof (cases "0 \<le> cntc")
    case False
    with assms R r P show ?thesis
      by (simp add: UndoPrepareToInsert_def Let_def w3_def urs3_def same_plan_def)
  next
    case True
    obtain r4 w4 urs4 where
      C: "UndoPrepareToMarkChunkClosed K (nat cntc) (w3, urs3) = (r4, w4, urs4)"
      by (metis prod_cases3)
    from assms R r P True C have "result = UndoRecPtrPlusUsableBytes K b hs" "w' = w4" "urs' = urs4"
      by (auto simp: UndoPrepareToInsert_def Let_def w3_def urs3_def split: sum.splits)
    with UndoPrepareToMarkChunkClosed_frame [OF C] show ?thesis by simp
  qed
  with res 3 sl(2) show ?thesis
    by (simp add: same_plan_def planned_header_size_def)
qed

section \<open>A worked insertion\<close>

text \<open>Scenario: a set of type FOO with the type header 01 02 03 04 is created, 16 bytes are
  planned and inserted as the first record of log 0; later the set wraps into log 1.\<close>

lemmas address_defs =
  UndoLogOffsetPlusUsableBytes_def UndoLogOffsetFromUsableByteNo_def
  UndoLogOffsetToUsableByteNo_def UndoLogUsableBytesPerPage_def MakeUndoRecPtr_def
  UndoLogOffsetBits_def UndoRecPtrPlusUsableBytes_def UndoRecPtrGetLogNo_def
  UndoRecPtrGetOffset_def UndoRecPtrGetBlockNum_def UndoRecPtrGetPageOffset_def

definition fresh_urs :: UndoRecordSet where
  "fresh_urs =
     \<lparr>urs_type = 70, persistence = RELPERSISTENCE_PERMANENT, chunks = [], buffers = [],
      need_chunk_header = False, type_header = [1, 2, 3, 4], type_header_size = 4,
      need_type_header = True, urs_begin = 0, urs_slot = None, chunk_start = 0,
      recent_end = 0, urs_state = URS_STATE_CLEAN, nestingLevel = 1\<rparr>"

definition planned_world :: world where
  "planned_world =
     \<lparr>slots = (\<lambda>l. example_slot l 24)(0 := (example_slot 0 24)\<lparr>slot_end := 61\<rparr>),
      freelist = [1, 2], pages = (\<lambda>_. example_page), UndoRecordSetList = [],
      urs_heap = (\<lambda>_. None),
      trace = [EvUndoLogGetForPersistence RELPERSISTENCE_PERMANENT 0,
               EvLWLockAcquire 0 LW_SHARED, EvLWLockRelease 0,
               EvUndoLogAdjustPhysicalRange 0 0 61, EvReadBuffer 0 0 RBM_ZERO,
               EvLockBuffer (BufferTag 0 0) LW_EXCLUSIVE]\<rparr>"

definition planned_urs :: UndoRecordSet where
  "planned_urs =
     \<lparr>urs_type = 70, persistence = RELPERSISTENCE_PERMANENT,
      chunks = [\<lparr>chunk_slot = 0, chunk_header_written = False, chunk_header_offset = 24,
                 chunk_header_buffer_index = [- 1, - 1]\<rparr>],
      buffers = [\<lparr>buffer = BufferTag 0 0, is_new = True, needs_init = True,
                  bufdata = zero_bufdata\<rparr>],
      need_chunk_header = True, type_header = [1, 2, 3, 4], type_header_size = 4,
      need_type_header = True, urs_begin = 24, urs_slot = Some 0, chunk_start = 24,
      recent_end = 0, urs_state = URS_STATE_CLEAN, nestingLevel = 1\<rparr>"

definition record16 :: "byte list" where
  "record16 = [0, 1, 2, 3, 4, 5, 6, 7, 8, 9, 10, 11, 12, 13, 14, 15]"

lemma UndoCreate_fresh_urs:
  "urs_heap (snd (UndoCreate 70 RELPERSISTENCE_PERMANENT 1 4 [1, 2, 3, 4] example_world)) 1
     = Some fresh_urs"
  by (simp add: UndoCreate_def Let_def fresh_urs_ptr_def example_world_def fresh_urs_def)

lemma run_reserve:
  "UndoPrepareToInsert_reserve example_config 16 (- 1) example_world fresh_urs =
    (Inr (24, 21, 37, - 1),
     planned_world\<lparr>trace := take 4 (trace planned_world)\<rparr>,
     planned_urs\<lparr>buffers := [], urs_begin := 0\<rparr>)"
  apply (simp add: fresh_urs_def)
  apply (subst UndoPrepareToInsert_reserve.simps)
  apply (simp add: create_new_chunk_def example_world_def Let_def log_event_def planned_header_size_def)
  apply (subst UndoPrepareToInsert_reserve.simps)
  apply (simp add: reserve_physical_undo_def example_slot_def Let_def log_event_def planned_header_size_def
     example_config_def address_defs UndoLogAdjustPhysicalRange_def planned_world_def planned_urs_def)
  done

lemma run_prepare:
  "UndoPrepareToInsert example_config 16 (example_world, fresh_urs)
     = Some (Inr 45, planned_world, planned_urs)"
  apply (simp add: UndoPrepareToInsert_def run_reserve)
  apply (subst pin_buffers.simps)
  apply (simp add: address_defs example_config_def Let_def log_event_def)
  apply (subst pin_buffers.simps)
  apply (simp add: planned_world_def planned_urs_def log_event_def address_defs example_config_def)
  done

theorem UndoPrepareToInsert_returns_first_data_byte_witness:
  "UndoPrepareToInsert example_config 16 (example_world, fresh_urs)
     = Some (Inr 45, planned_world, planned_urs) \<and>
   need_chunk_header planned_urs \<and> need_type_header planned_urs \<and>
   (45 :: UndoRecPtr) = UndoRecPtrPlusUsableBytes example_config (urs_begin planned_urs) (17 + 4) \<and>
   urs_slot planned_urs = Some 0 \<and>
   urs_begin planned_urs
     = MakeUndoRecPtr (logno (slots planned_world 0)) (meta_insert (slots planned_world 0))"
  using UndoPrepareToInsert_returns_first_data_byte [OF run_prepare] run_prepare
  by (simp add: planned_urs_def example_config_def)


lemmas UndoInsert_page_defs =
  UndoInsert_header_page_def UndoInsert_record_page_def init_if_needed_def URSNeedsWAL_def
  register_insert_page_offset_if_needed_def stage_new_chunk_def register_new_page_def
  UndoPageInsertHeader_def UndoPageInsertRecord_def bytes_on_page_def zero_bufdata_def
  BufferGetPage_def set_page_def log_event_def UndoPageInit_def new_chunk_header_def
  advance_insert_def

lemma run_insert:
  "case UndoInsert example_config record16 16 (planned_world, planned_urs) of
     (r, w, urs) \<Rightarrow>
       r = Inr () \<and>
       trace w = trace planned_world @
         [EvUndoPageInit (BufferTag 0 0),
          EvUndoPageInsertHeader (BufferTag 0 0) 24 0
            \<lparr>ch_size = 0, ch_previous_chunk = 0, ch_type = 70\<rparr> 4 [1, 2, 3, 4] 24,
          EvMarkBufferDirty (BufferTag 0 0),
          EvUndoPageInsertRecord (BufferTag 0 0) 45 0 16 record16 24 70,
          EvMarkBufferDirty (BufferTag 0 0),
          EvLWLockAcquire 0 LW_EXCLUSIVE, EvStoreInsert 0 61, EvLWLockRelease 0] \<and>
       meta_insert (slots w 0) = 61 \<and> urs_state urs = URS_STATE_DIRTY"
  apply (simp add: UndoInsert_def planned_urs_def Let_def)
  apply (subst UndoInsert_header_loop.simps)
  apply (simp add: UndoInsert_page_defs example_config_def Let_def)
  apply (subst UndoInsert_record_loop.simps)
  apply (simp add: UndoInsert_page_defs Let_def close_previous_chunk_def
      address_defs planned_world_def example_slot_def example_config_def)
  done

theorem UndoInsert_advances_insert_under_lock_witness:
  "fst (UndoInsert example_config record16 16 (planned_world, planned_urs)) = Inr () \<and>
   urs_slot planned_urs = Some 0 \<and>
   meta_insert (slots planned_world 0) = 24 \<and>
   UndoLogOffsetPlusUsableBytes example_config 24 (4 + 17 + 16) = 61 \<and>
   meta_insert (slots (fst (snd (UndoInsert example_config record16 16
                                   (planned_world, planned_urs)))) 0) = 61 \<and>
   filter is_EvStoreInsert
     (drop 6 (trace (fst (snd (UndoInsert example_config record16 16
                                 (planned_world, planned_urs))))))
     = [EvStoreInsert 0 61] \<and>
   stores_under_exclusive_lock (\<lambda>_. None)
     (drop 6 (trace (fst (snd (UndoInsert example_config record16 16
                                 (planned_world, planned_urs))))))"
proof -
  have ok: "fst (UndoInsert example_config record16 16 (planned_world, planned_urs)) = Inr ()"
    using run_insert by (simp add: case_prod_beta)
  have sl: "urs_slot planned_urs = Some 0" by (simp add: planned_urs_def)
  have v: "UndoLogOffsetPlusUsableBytes example_config 24 (4 + 17 + 16) = 61"
    by (simp add: address_defs example_config_def)
  have p: "meta_insert (slots planned_world 0) = 24" "length (trace planned_world) = 6"
    "need_type_header planned_urs" "need_chunk_header planned_urs"
    "type_header_size planned_urs = 4" "SizeOfUndoRecordSetChunkHeader example_config = 17"
    by (simp_all add: planned_world_def planned_urs_def example_slot_def example_config_def)
  show ?thesis
    using UndoInsert_advances_insert_under_lock [OF ok sl] ok sl v p
    by simp
qed

text \<open>The set after it wrapped into log 1: its first chunk, in log 0, has its header written
  and its header buffer pinned for closing; the second chunk starts at offset 24 of log 1.\<close>

definition wrapped_world :: world where
  "wrapped_world =
     example_world\<lparr>slots := (\<lambda>l. example_slot l (if l = 0 then 61 else 24)), freelist := [2]\<rparr>"

definition wrapped_urs :: UndoRecordSet where
  "wrapped_urs =
     \<lparr>urs_type = 70, persistence = RELPERSISTENCE_PERMANENT,
      chunks = [\<lparr>chunk_slot = 0, chunk_header_written = True, chunk_header_offset = 24,
                 chunk_header_buffer_index = [1, - 1]\<rparr>,
                \<lparr>chunk_slot = 1, chunk_header_written = False, chunk_header_offset = 24,
                 chunk_header_buffer_index = [- 1, - 1]\<rparr>],
      buffers = [\<lparr>buffer = BufferTag 1 0, is_new = True, needs_init = True,
                  bufdata = zero_bufdata\<rparr>,
                 new_UndoBuffer (BufferTag 0 0)],
      need_chunk_header = True, type_header = [1, 2, 3, 4], type_header_size = 4,
      need_type_header = False, urs_begin = MakeUndoRecPtr 1 24, urs_slot = Some 1,
      chunk_start = MakeUndoRecPtr 1 24, recent_end = 0, urs_state = URS_STATE_DIRTY,
      nestingLevel = 1\<rparr>"

lemma run_wrapped_insert:
  "trace (fst (snd (UndoInsert example_config record16 16 (wrapped_world, wrapped_urs)))) =
     [EvUndoPageInit (BufferTag 1 0),
      EvUndoPageInsertHeader (BufferTag 1 0) 24 0
        \<lparr>ch_size = 0, ch_previous_chunk = 24, ch_type = 70\<rparr> 0 [1, 2, 3, 4] 1099511627800,
      EvMarkBufferDirty (BufferTag 1 0),
      EvUndoPageInsertRecord (BufferTag 1 0) 41 0 16 record16 1099511627800 70,
      EvMarkBufferDirty (BufferTag 1 0),
      EvLWLockAcquire 1 LW_EXCLUSIVE, EvStoreInsert 1 57, EvLWLockRelease 1,
      EvUndoPageOverwrite (BufferTag 0 0) 24 0 8 37,
      EvMarkBufferDirty (BufferTag 0 0)]"
  apply (simp add: UndoInsert_def wrapped_urs_def Let_def)
  apply (subst UndoInsert_header_loop.simps)
  apply (simp add: UndoInsert_page_defs example_config_def Let_def address_defs new_UndoBuffer_def)
  apply (subst UndoInsert_record_loop.simps)
  apply (simp add: UndoInsert_page_defs Let_def close_previous_chunk_def
      address_defs wrapped_world_def example_world_def example_slot_def UndoMarkChunkClosed_def
      stage_close_chunk_def example_config_def)
  apply (subst UndoMarkChunkClosed_loop.simps)
  apply (simp add: UndoMarkPageClosed_def Let_def UndoPageOverwrite_def bytes_on_page_def
      UndoInsert_page_defs example_config_def)
  apply (subst UndoMarkChunkClosed_loop.simps)
  apply (simp add: )
  done


theorem UndoInsert_stamps_open_header_with_back_pointer_witness:
  "EvUndoPageInsertHeader (BufferTag 1 0) 24 0
       \<lparr>ch_size = 0, ch_previous_chunk = 24, ch_type = 70\<rparr> 0 [1, 2, 3, 4] 1099511627800
     \<in> set (drop (length (trace wrapped_world))
               (trace (fst (snd (UndoInsert example_config record16 16
                                   (wrapped_world, wrapped_urs)))))) \<and>
   length (chunks wrapped_urs) = 2 \<and>
   (24 :: UndoRecPtr) =
     MakeUndoRecPtr (logno (slots wrapped_world (chunk_slot (chunks wrapped_urs ! 0))))
       (chunk_header_offset (chunks wrapped_urs ! 0)) \<and>
   EvUndoPageInsertHeader (BufferTag 0 0) 24 0
       \<lparr>ch_size = 0, ch_previous_chunk = 0, ch_type = 70\<rparr> 4 [1, 2, 3, 4] 24
     \<in> set (drop (length (trace planned_world))
               (trace (fst (snd (UndoInsert example_config record16 16
                                   (planned_world, planned_urs)))))) \<and>
   length (chunks planned_urs) = 1 \<and>
   (0 :: UndoRecPtr) = InvalidUndoRecPtr example_config"
proof -
  let ?e2 = "EvUndoPageInsertHeader (BufferTag 1 0) 24 0
       \<lparr>ch_size = 0, ch_previous_chunk = 24, ch_type = 70\<rparr> 0 [1, 2, 3, 4] 1099511627800"
  let ?e1 = "EvUndoPageInsertHeader (BufferTag 0 0) 24 0
       \<lparr>ch_size = 0, ch_previous_chunk = 0, ch_type = 70\<rparr> 4 [1, 2, 3, 4] 24"
  have m2: "?e2 \<in> set (drop (length (trace wrapped_world))
               (trace (fst (snd (UndoInsert example_config record16 16
                                   (wrapped_world, wrapped_urs))))))"
  proof -
    have "length (trace wrapped_world) = 0" by (simp add: wrapped_world_def example_world_def)
    then show ?thesis by (simp add: run_wrapped_insert)
  qed
  have m1: "?e1 \<in> set (drop (length (trace planned_world))
               (trace (fst (snd (UndoInsert example_config record16 16
                                   (planned_world, planned_urs))))))"
    using run_insert by (simp add: case_prod_beta)
  have s2: "stamped_header ?e2 = Some \<lparr>ch_size = 0, ch_previous_chunk = 24, ch_type = 70\<rparr>"
    and s1: "stamped_header ?e1 = Some \<lparr>ch_size = 0, ch_previous_chunk = 0, ch_type = 70\<rparr>"
    by (simp_all add: stamped_header_def)
  show ?thesis
    using UndoInsert_stamps_open_header_with_back_pointer [OF m2 s2]
      UndoInsert_stamps_open_header_with_back_pointer [OF m1 s1] m1 m2
    by (simp add: wrapped_urs_def planned_urs_def)
qed

section \<open>Replay\<close>

text \<open>A decoded WAL record, as far as \<^verbatim>\<open>UndoReplay\<close> reads it.  Two results of the WAL
  subsystem are part of the input: what \<^verbatim>\<open>XLogReadBufferForRedoExtended\<close> answers for the
  block, and the buf-data that \<^verbatim>\<open>DecodeUndoRecordSetXLogBufData\<close> decodes from it (\<open>None\<close>
  when decoding fails).\<close>

record DecodedBkpBlock =
  in_use :: bool
  rnode_dbNode :: nat
  rnode_relNode :: UndoLogNumber
  blkno :: BlockNumber
  will_init :: bool
  redo_action :: XLogRedoAction
  decoded_bufdata :: "UndoRecordSetXLogBufData option"

record XLogReaderState =
  blocks :: "DecodedBkpBlock list"
  xl_rmid :: nat
  xl_info :: "8 word"
  ReadRecPtr :: XLogRecPtr

text \<open>The local variables of \<^verbatim>\<open>UndoReplay\<close> that live across blocks.  \<^verbatim>\<open>chunk_size\<close> is
  not initialised in C; it is read only after a close has set it.\<close>

record replay_state =
  rs_buffers :: "UndoBuffer list"
  rs_record_data :: "byte list option"
  rs_record_more :: bool
  rs_record_offset :: int
  rs_chunk_header :: UndoRecordSetChunkHeader
  rs_header_more :: bool
  rs_header_offset :: int
  rs_type_header :: "byte list"
  rs_type_header_size :: nat
  rs_chunk_size_more :: bool
  rs_chunk_size :: UndoLogOffset
  rs_chunk_size_offset :: int

definition initial_replay_state :: "byte list option \<Rightarrow> replay_state" where
  "initial_replay_state record_data =
     \<lparr>rs_buffers = [], rs_record_data = record_data, rs_record_more = False,
      rs_record_offset = 0,
      rs_chunk_header = \<lparr>ch_size = 0, ch_previous_chunk = 0, ch_type = 0\<rparr>,
      rs_header_more = False, rs_header_offset = 0, rs_type_header = [],
      rs_type_header_size = 0, rs_chunk_size_more = False, rs_chunk_size = 0,
      rs_chunk_size_offset = 0\<rparr>"

text \<open>The outcome of one stage of the loop body: an error, the end of the work on this
  block (\<^verbatim>\<open>nbuffers++; continue\<close>), or the state with which the next stage goes on.\<close>

datatype flow = Raise error | NextBlock replay_state | GoOn replay_state

definition and_then ::
  "flow \<times> world \<Rightarrow> (replay_state \<Rightarrow> world \<Rightarrow> flow \<times> world) \<Rightarrow> flow \<times> world" where
  "and_then r f = (case r of (GoOn st, w) \<Rightarrow> f st w | (x, w) \<Rightarrow> (x, w))"

text \<open>\<^verbatim>\<open>BLCKSZ * block->blkno + page_offset\<close> is computed in 32-bit unsigned arithmetic
  before it is stored in a 64-bit offset.\<close>

definition block_offset :: "config \<Rightarrow> BlockNumber \<Rightarrow> int \<Rightarrow> UndoLogOffset" where
  "block_offset K b page_off = ucast (word_of_int (BLCKSZ K) * b + (word_of_int page_off :: 32 word))"

definition store_insert_in_recovery :: "slot_ptr \<Rightarrow> UndoLogOffset \<Rightarrow> world \<Rightarrow> world" where
  "store_insert_in_recovery sl v w =
     log_event [EvStoreInsert sl v]
       (w\<lparr>slots := (slots w)(sl := (slots w sl)\<lparr>meta_insert := v\<rparr>)\<rparr>)"

text \<open>When the block was not found its buffer is invalid, and the page pointer taken
  from it points outside the buffer pool.  The places that read the page header through it
  even then are faults of the model.\<close>

definition invalid_page_read :: error where
  "invalid_page_read = Fault ''page header read through an invalid buffer''"

definition page_insertion_point :: "world \<Rightarrow> UndoLogNumber \<Rightarrow> BlockNumber \<Rightarrow> int" where
  "page_insertion_point w l b = uint (ud_insertion_point (pages w (l, b)))"

text \<open>The insertion point recorded in the buf-data is restored first.\<close>

definition replay_insertion_point ::
  "config \<Rightarrow> DecodedBkpBlock \<Rightarrow> UndoRecordSetXLogBufData \<Rightarrow> bool \<Rightarrow> replay_state \<Rightarrow> world
     \<Rightarrow> flow \<times> world" where
  "replay_insertion_point K blk bd skip st w =
     (let l = rnode_relNode blk; b = blkno blk
      in if URS_XLOG_INSERT \<in> flags bd then
           (if rs_record_data st = None
            then (Raise (Elog ERROR ''undo buf data contained an insert page offset, but no record was passed to UndoReplay()''), w)
            else
              let w1 = (if \<not> skip
                        then set_page l b ((pages w (l, b))
                               \<lparr>ud_insertion_point := word_of_int (insert_page_offset bd)\<rparr>) w
                        else w)
              in (GoOn st,
                  store_insert_in_recovery l (block_offset K b (insert_page_offset bd)) w1))
         else (GoOn st, w))"

text \<open>A chunk size, a header or a record that spilled over from the previous block is
  continued, in this order of precedence.\<close>

definition replay_pending ::
  "config \<Rightarrow> DecodedBkpBlock \<Rightarrow> UndoRecordSetXLogBufData \<Rightarrow> bool \<Rightarrow> nat \<Rightarrow> replay_state \<Rightarrow> world
     \<Rightarrow> flow \<times> world" where
  "replay_pending K blk bd skip record_size st w =
     (let l = rnode_relNode blk; b = blkno blk; hdr = SizeOfUndoPageHeaderData K
      in if rs_chunk_size_more st then
           (if skip then
              (GoOn (st\<lparr>rs_chunk_size_offset :=
                          rs_chunk_size_offset st
                            + UndoPageSkipOverwrite K hdr (rs_chunk_size_offset st) 8,
                        rs_chunk_size_more := False\<rparr>), w)
            else
              (case UndoPageOverwrite K (pages w (l, b)) hdr (rs_chunk_size_offset st) 8
                      (le_bytes64 (rs_chunk_size st)) of
                 (n, p') \<Rightarrow>
                   (GoOn (st\<lparr>rs_chunk_size_offset := rs_chunk_size_offset st + n,
                             rs_chunk_size_more := False\<rparr>),
                    log_event
                      [EvUndoPageOverwrite (BufferTag l b) hdr (rs_chunk_size_offset st) 8
                         (rs_chunk_size st),
                       EvMarkBufferDirty (BufferTag l b)]
                      (set_page l b p' w))))
         else if rs_header_more st then
           (case (if skip then
                    (rs_header_offset st
                       + UndoPageSkipHeader K hdr (rs_header_offset st) (rs_type_header_size st), w)
                  else
                    (case UndoPageInsertHeader K (pages w (l, b)) hdr (rs_header_offset st)
                            (rs_chunk_header st) (rs_type_header_size st) (rs_type_header st)
                            (chunk_header_location bd) of
                       (n, p') \<Rightarrow>
                         (rs_header_offset st + n,
                          log_event
                            [EvUndoPageInsertHeader (BufferTag l b) hdr (rs_header_offset st)
                               (rs_chunk_header st) (rs_type_header_size st) (rs_type_header st)
                               (chunk_header_location bd),
                             EvMarkBufferDirty (BufferTag l b)]
                            (set_page l b p' w)))) of
              (ho, w1) \<Rightarrow>
                if redo_action blk = BLK_NOTFOUND then (Raise invalid_page_read, w1)
                else
                  let w2 = store_insert_in_recovery l
                             (block_offset K b (page_insertion_point w1 l b)) w1
                  in if ho < SizeOfUndoRecordSetChunkHeader K + int (rs_type_header_size st)
                     then (NextBlock (st\<lparr>rs_header_offset := ho\<rparr>), w2)
                     else (GoOn (st\<lparr>rs_header_offset := ho, rs_header_more := False\<rparr>), w2))
         else if rs_record_more st then
           (case (if skip then
                    (rs_record_offset st
                       + UndoPageSkipRecord K hdr (rs_record_offset st) record_size, w)
                  else
                    (case UndoPageInsertRecord K (pages w (l, b)) hdr (rs_record_offset st)
                            record_size (case rs_record_data st of None \<Rightarrow> [] | Some d \<Rightarrow> d)
                            (chunk_header_location bd) (bd_urs_type bd) of
                       (n, p') \<Rightarrow>
                         (rs_record_offset st + n,
                          log_event
                            [EvUndoPageInsertRecord (BufferTag l b) hdr (rs_record_offset st)
                               record_size (case rs_record_data st of None \<Rightarrow> [] | Some d \<Rightarrow> d)
                               (chunk_header_location bd) (bd_urs_type bd),
                             EvMarkBufferDirty (BufferTag l b)]
                            (set_page l b p' w)))) of
              (ro, w1) \<Rightarrow>
                if redo_action blk = BLK_NOTFOUND then (Raise invalid_page_read, w1)
                else
                  let w2 = store_insert_in_recovery l
                             (block_offset K b (page_insertion_point w1 l b)) w1
                  in if ro < int record_size
                     then (NextBlock (st\<lparr>rs_record_offset := ro\<rparr>), w2)
                     else (GoOn (st\<lparr>rs_record_offset := ro, rs_record_more := False,
                                   rs_record_data := None\<rparr>), w2))
         else (GoOn st, w))"

text \<open>A new record set: the chunk header is synthesised with size 0 and no previous
  chunk, followed by the type header of the buf-data.  When the block is skipped the
  header is only counted, with the type header size known so far.\<close>

definition replay_create ::
  "config \<Rightarrow> DecodedBkpBlock \<Rightarrow> UndoRecordSetXLogBufData \<Rightarrow> bool \<Rightarrow> UndoRecPtr \<Rightarrow> replay_state
     \<Rightarrow> world \<Rightarrow> flow \<times> world" where
  "replay_create K blk bd skip chunk_start_urp st w =
     (let l = rnode_relNode blk; b = blkno blk
      in if URS_XLOG_CREATE \<in> flags bd then
           (case (if skip then
                    (st\<lparr>rs_header_offset :=
                          rs_header_offset st
                            + UndoPageSkipHeader K (SizeOfUndoPageHeaderData K)
                                (rs_header_offset st) (rs_type_header_size st)\<rparr>, w)
                  else
                    (let h = \<lparr>ch_size = 0, ch_previous_chunk = InvalidUndoRecPtr K,
                              ch_type = bd_urs_type bd\<rparr>
                     in case UndoPageInsertHeader K (pages w (l, b)) (page_insertion_point w l b) 0
                               h (bd_type_header_size bd) (bd_type_header bd) chunk_start_urp of
                          (n, p') \<Rightarrow>
                            (st\<lparr>rs_chunk_header := h, rs_type_header := bd_type_header bd,
                                rs_type_header_size := bd_type_header_size bd,
                                rs_header_offset := n\<rparr>,
                             log_event
                               [EvUndoPageInsertHeader (BufferTag l b) (page_insertion_point w l b)
                                  0 h (bd_type_header_size bd) (bd_type_header bd) chunk_start_urp]
                               (set_page l b p' w)))) of
              (st1, w1) \<Rightarrow>
                if rs_header_offset st1
                     < SizeOfUndoRecordSetChunkHeader K + int (rs_type_header_size st1)
                then (NextBlock (st1\<lparr>rs_header_more := True\<rparr>), w1)
                else (GoOn st1, w1))
         else (GoOn st, w))"

text \<open>A new chunk of an existing record set: its header points back at the previous
  chunk's header and has no type header.\<close>

definition replay_add_chunk ::
  "config \<Rightarrow> DecodedBkpBlock \<Rightarrow> UndoRecordSetXLogBufData \<Rightarrow> bool \<Rightarrow> UndoRecPtr \<Rightarrow> replay_state
     \<Rightarrow> world \<Rightarrow> flow \<times> world" where
  "replay_add_chunk K blk bd skip chunk_start_urp st w =
     (let l = rnode_relNode blk; b = blkno blk
      in if URS_XLOG_ADD_CHUNK \<in> flags bd then
           (case (if skip then
                    (st\<lparr>rs_header_offset :=
                          rs_header_offset st
                            + UndoPageSkipHeader K (SizeOfUndoPageHeaderData K)
                                (rs_header_offset st) (rs_type_header_size st)\<rparr>, w)
                  else
                    (let h = \<lparr>ch_size = 0,
                              ch_previous_chunk = previous_chunk_header_location bd,
                              ch_type = bd_urs_type bd\<rparr>
                     in case UndoPageInsertHeader K (pages w (l, b)) (page_insertion_point w l b) 0
                               h 0 [] chunk_start_urp of
                          (n, p') \<Rightarrow>
                            (st\<lparr>rs_chunk_header := h, rs_type_header := [],
                                rs_type_header_size := 0, rs_header_offset := n\<rparr>,
                             log_event
                               [EvUndoPageInsertHeader (BufferTag l b) (page_insertion_point w l b)
                                  0 h 0 [] chunk_start_urp]
                               (set_page l b p' w)))) of
              (st1, w1) \<Rightarrow>
                if rs_header_offset st1 < SizeOfUndoRecordSetChunkHeader K
                then (NextBlock (st1\<lparr>rs_header_more := True\<rparr>), w1)
                else (GoOn st1, w1))
         else (GoOn st, w))"

text \<open>The caller's record.\<close>

definition replay_record ::
  "config \<Rightarrow> DecodedBkpBlock \<Rightarrow> UndoRecordSetXLogBufData \<Rightarrow> bool \<Rightarrow> nat \<Rightarrow> replay_state \<Rightarrow> world
     \<Rightarrow> flow \<times> world" where
  "replay_record K blk bd skip record_size st w =
     (let l = rnode_relNode blk; b = blkno blk
      in case rs_record_data st of
           None \<Rightarrow> (GoOn st, w)
         | Some d \<Rightarrow>
             (case (if skip then
                      (rs_record_offset st
                         + UndoPageSkipRecord K (SizeOfUndoPageHeaderData K) (rs_record_offset st)
                             record_size, w)
                    else
                      (case UndoPageInsertRecord K (pages w (l, b)) (page_insertion_point w l b) 0
                              record_size d (chunk_header_location bd) (bd_urs_type bd) of
                         (n, p') \<Rightarrow>
                           (n,
                            log_event
                              [EvUndoPageInsertRecord (BufferTag l b) (page_insertion_point w l b)
                                 0 record_size d (chunk_header_location bd) (bd_urs_type bd)]
                              (set_page l b p' w)))) of
                (ro, w1) \<Rightarrow>
                  if redo_action blk = BLK_NOTFOUND then (Raise invalid_page_read, w1)
                  else
                    let w2 = store_insert_in_recovery l
                               (block_offset K b (page_insertion_point w1 l b)) w1
                    in if ro < int record_size
                       then (NextBlock (st\<lparr>rs_record_offset := ro, rs_record_more := True\<rparr>),
                             w2)
                       else (GoOn (st\<lparr>rs_record_offset := ro, rs_record_data := None\<rparr>),
                             w2)))"

text \<open>The operation of a transaction WAL record: \<^verbatim>\<open>info & XLOG_XACT_OPMASK\<close>, where
  \<^verbatim>\<open>info\<close> is \<^verbatim>\<open>XLogRecGetInfo(xlog_record) & ~XLR_INFO_MASK\<close>.\<close>

definition xact_op :: "config \<Rightarrow> XLogReaderState \<Rightarrow> 8 word" where
  "xact_op K xl = (xl_info xl AND NOT (XLR_INFO_MASK K)) AND XLOG_XACT_OPMASK K"

text \<open>How the closing WAL record is classified for the transaction undo layer: the pair
  (\<^verbatim>\<open>isCommit\<close>, \<^verbatim>\<open>isPrepare\<close>), or an error.\<close>

definition closing_record_kind :: "config \<Rightarrow> XLogReaderState \<Rightarrow> error + bool \<times> bool" where
  "closing_record_kind K xl =
     (if xl_rmid xl \<noteq> RM_XACT_ID K
      then Inl (Elog ERROR ''transaction undo closed by unexpected rmgr'')
      else
        let op = xact_op K xl
        in if op = XLOG_XACT_COMMIT K \<or> op = XLOG_XACT_COMMIT_PREPARED K then Inr (True, False)
           else if op = XLOG_XACT_ABORT K \<or> op = XLOG_XACT_ABORT_PREPARED K then Inr (False, False)
           else if op = XLOG_XACT_PREPARE K then Inr (False, True)
           else Inl (Elog ERROR ''transaction undo closed by unexpected record''))"

text \<open>Closing a chunk: the first part of the size is written (or counted), the
  transaction undo layer is told about a closed transaction set, and what is left of the
  size is left to the next block.\<close>

definition replay_close_chunk ::
  "config \<Rightarrow> XLogReaderState \<Rightarrow> DecodedBkpBlock \<Rightarrow> UndoRecordSetXLogBufData \<Rightarrow> bool \<Rightarrow> replay_state
     \<Rightarrow> world \<Rightarrow> flow \<times> world" where
  "replay_close_chunk K xl blk bd skip st w =
     (let l = rnode_relNode blk; b = blkno blk
      in if URS_XLOG_CLOSE_CHUNK \<in> flags bd then
           (case (if skip then
                    (UndoPageSkipOverwrite K (SizeOfUndoPageHeaderData K)
                       (rs_chunk_size_offset st) 8, w)
                  else
                    (case UndoPageOverwrite K (pages w (l, b)) (chunk_size_page_offset bd) 0 8
                            (le_bytes64 (chunk_size bd)) of
                       (n, p') \<Rightarrow>
                         (n,
                          log_event
                            [EvUndoPageOverwrite (BufferTag l b) (chunk_size_page_offset bd) 0 8
                               (chunk_size bd)]
                            (set_page l b p' w)))) of
              (cso, w1) \<Rightarrow>
                let st1 = st\<lparr>rs_chunk_size := chunk_size bd, rs_chunk_size_offset := cso\<rparr>;
                    done = (if cso < 8 then NextBlock (st1\<lparr>rs_chunk_size_more := True\<rparr>)
                            else GoOn st1)
                in if bd_urs_type bd = URST_TRANSACTION K \<and> URS_XLOG_CLOSE \<in> flags bd then
                     (case closing_record_kind K xl of
                        Inl e \<Rightarrow> (Raise e, w1)
                      | Inr (isCommit, isPrepare) \<Rightarrow>
                          let here = (word_of_int (BLCKSZ K) * b
                                        + word_of_int (chunk_size_page_offset bd) :: 32 word);
                              begin_urp =
                                (if URS_XLOG_CLOSE_MULTI_CHUNK \<in> flags bd
                                 then first_chunk_header_location bd
                                 else MakeUndoRecPtr (logno (slots w1 l)) (ucast here));
                              end_urp = MakeUndoRecPtr (logno (slots w1 l))
                                          (ucast here + chunk_size bd)
                          in (done,
                              log_event
                                [EvXactUndoCloseRecordSet (bd_type_header bd) begin_urp end_urp
                                   isCommit isPrepare] w1))
                   else (done, w1))
         else (GoOn st, w))"

text \<open>The stages of the loop body that come before the close of a chunk, in the order
  of the code.\<close>

definition replay_before_close ::
  "config \<Rightarrow> DecodedBkpBlock \<Rightarrow> UndoRecordSetXLogBufData \<Rightarrow> bool \<Rightarrow> nat \<Rightarrow> UndoRecPtr
     \<Rightarrow> replay_state \<Rightarrow> world \<Rightarrow> flow \<times> world" where
  "replay_before_close K blk bd skip record_size chunk_start_urp st w =
     and_then (and_then (and_then (and_then
       (replay_insertion_point K blk bd skip st w)
       (replay_pending K blk bd skip record_size))
       (replay_create K blk bd skip chunk_start_urp))
       (replay_add_chunk K blk bd skip chunk_start_urp))
       (replay_record K blk bd skip record_size)"

text \<open>Modelled from the spec: what \<^verbatim>\<open>XLogReadBufferForRedoExtended\<close> (\<^verbatim>\<open>xlogutils.c\<close>, not
  among the sources) does to the page.  A block read in zeroing mode that needs redo comes
  back zeroed; a restored block holds its full-page image, which is the page in the store.\<close>

definition XLogReadBufferForRedoExtended ::
  "nat \<Rightarrow> DecodedBkpBlock \<Rightarrow> ReadBufferMode \<Rightarrow> world \<Rightarrow> world" where
  "XLogReadBufferForRedoExtended block_id blk rbm w =
     log_event [EvXLogReadBufferForRedoExtended block_id rbm (redo_action blk)]
       (if rbm = RBM_ZERO_AND_LOCK \<and> redo_action blk = BLK_NEEDS_REDO
        then set_page (rnode_relNode blk) (blkno blk)
               \<lparr>ud_insertion_point = 0, ud_first_chunk = 0, ud_continue_chunk = 0,
                bytes = (\<lambda>_. 0)\<rparr> w
        else w)"

text \<open>The body of the loop over the registered blocks, for a block of the undo database.
  Every way out of the body that is not an error counts the block's buffer
  (\<^verbatim>\<open>nbuffers++\<close>).\<close>

definition UndoReplay_block ::
  "config \<Rightarrow> XLogReaderState \<Rightarrow> nat \<Rightarrow> nat \<Rightarrow> DecodedBkpBlock \<Rightarrow> replay_state \<Rightarrow> world
     \<Rightarrow> (error + replay_state) \<times> world" where
  "UndoReplay_block K xl record_size block_id blk st w =
     (let l = rnode_relNode blk; b = blkno blk;
          past_this_block = (ucast ((b + 1) * (word_of_int (BLCKSZ K) :: 32 word)) :: UndoLogOffset);
          w1 = (if slot_end (slots w l) < past_this_block
                then UndoLogAdjustPhysicalRange (logno (slots w l)) 0 past_this_block w else w);
          rbm = (if will_init blk then RBM_ZERO_AND_LOCK else RBM_NORMAL);
          w2 = XLogReadBufferForRedoExtended block_id blk rbm w1;
          skip = (redo_action blk = BLK_RESTORED \<or> redo_action blk = BLK_NOTFOUND)
      in case decoded_bufdata blk of
           None \<Rightarrow> (Inl (Elog ERROR ''failed to decode undo xlog buffer data''), w2)
         | Some bd \<Rightarrow>
             let ubuf = \<lparr>buffer = (if redo_action blk = BLK_NOTFOUND then InvalidBuffer
                                   else BufferTag l b),
                         is_new = will_init blk, needs_init = will_init blk, bufdata = bd\<rparr>;
                 chunk_start_urp = (if URS_XLOG_ADD_PAGE \<in> flags bd then chunk_header_location bd
                                    else InvalidUndoRecPtr K)
             in case and_then
                       (replay_before_close K blk bd skip record_size chunk_start_urp st w2)
                       (replay_close_chunk K xl blk bd skip) of
                  (Raise e, w3) \<Rightarrow> (Inl e, w3)
                | (NextBlock st1, w3) \<Rightarrow> (Inr (st1\<lparr>rs_buffers := rs_buffers st1 @ [ubuf]\<rparr>), w3)
                | (GoOn st1, w3) \<Rightarrow> (Inr (st1\<lparr>rs_buffers := rs_buffers st1 @ [ubuf]\<rparr>), w3))"

text \<open>The loop over the registered blocks: blocks that are not in use or belong to another
  database are passed over.\<close>

fun UndoReplay_blocks ::
  "config \<Rightarrow> XLogReaderState \<Rightarrow> nat \<Rightarrow> nat \<Rightarrow> DecodedBkpBlock list \<Rightarrow> replay_state \<Rightarrow> world
     \<Rightarrow> (error + replay_state) \<times> world" where
  "UndoReplay_blocks K xl record_size block_id [] st w = (Inr st, w)"
| "UndoReplay_blocks K xl record_size block_id (blk # rest) st w =
     (if in_use blk \<and> rnode_dbNode blk = UndoDbOid K then
        (case UndoReplay_block K xl record_size block_id blk st w of
           (Inl e, w1) \<Rightarrow> (Inl e, w1)
         | (Inr st1, w1) \<Rightarrow> UndoReplay_blocks K xl record_size (Suc block_id) rest st1 w1)
      else UndoReplay_blocks K xl record_size (Suc block_id) rest st w)"

definition release_replay_buffer :: "XLogRecPtr \<Rightarrow> UndoBuffer \<Rightarrow> event list" where
  "release_replay_buffer lsn u =
     (case buffer u of
        InvalidBuffer \<Rightarrow> []
      | BufferTag l b \<Rightarrow>
          [EvMarkBufferDirty (BufferTag l b), EvPageSetLSN (BufferTag l b) lsn,
           EvUnlockReleaseBuffer (BufferTag l b)])"

text \<open>\<^verbatim>\<open>UndoReplay\<close>.  After the loop the function raises an error if a header or a record
  is still waiting for a next buffer; then it stamps and releases the buffers.  Its result
  variable is never assigned after its initialisation.  The second component of the
  result is the state of the local variables when the loop has ended.\<close>

definition UndoReplay ::
  "config \<Rightarrow> XLogReaderState \<Rightarrow> byte list option \<Rightarrow> nat \<Rightarrow> world
     \<Rightarrow> (error + UndoRecPtr) \<times> replay_state option \<times> world" where
  "UndoReplay K xl record_data record_size w =
     (case UndoReplay_blocks K xl record_size 0 (blocks xl) (initial_replay_state record_data) w of
        (Inl e, w1) \<Rightarrow> (Inl e, None, w1)
      | (Inr st, w1) \<Rightarrow>
          if rs_header_more st \<or> rs_record_more st
          then (Inl (Elog ERROR ''undo data didn't fit on registered buffers''), Some st, w1)
          else (Inr (InvalidUndoRecPtr K), Some st,
                log_event (concat (map (release_replay_buffer (ReadRecPtr xl)) (rs_buffers st))) w1))"

section \<open>What replay does when a chunk is closed\<close>

lemmas replay_defs =
  UndoReplay_def UndoReplay_block_def replay_before_close_def replay_insertion_point_def replay_pending_def
  replay_create_def replay_add_chunk_def replay_record_def replay_close_chunk_def
  closing_record_kind_def xact_op_def and_then_def XLogReadBufferForRedoExtended_def
  initial_replay_state_def release_replay_buffer_def block_offset_def
  store_insert_in_recovery_def page_insertion_point_def

text \<open>Two WAL records of the transaction manager (a commit).  The first block of either
  closes a chunk whose size field starts four bytes before the end of block 0, so that its
  second half belongs to block 1.  \<open>dangling_close_record\<close> registers block 0 alone;
  \<open>straddling_commit_record\<close> registers both blocks and closes a transaction's record
  set.\<close>

definition close_block :: "UndoRecordSetType \<Rightarrow> DecodedBkpBlock" where
  "close_block t =
     \<lparr>in_use = True, rnode_dbNode = 9, rnode_relNode = 0, blkno = 0, will_init = False,
      redo_action = BLK_NEEDS_REDO,
      decoded_bufdata = Some (zero_bufdata
        \<lparr>flags := {URS_XLOG_CLOSE_CHUNK, URS_XLOG_CLOSE}, bd_urs_type := t,
         chunk_size_page_offset := 8188, chunk_size := 100\<rparr>)\<rparr>"

definition next_block :: DecodedBkpBlock where
  "next_block =
     \<lparr>in_use = True, rnode_dbNode = 9, rnode_relNode = 0, blkno = 1, will_init = False,
      redo_action = BLK_NEEDS_REDO, decoded_bufdata = Some zero_bufdata\<rparr>"

definition dangling_close_record :: XLogReaderState where
  "dangling_close_record =
     \<lparr>blocks = [close_block 70], xl_rmid = 1, xl_info = 0, ReadRecPtr = 7\<rparr>"

definition straddling_commit_record :: XLogReaderState where
  "straddling_commit_record =
     \<lparr>blocks = [close_block 84, next_block], xl_rmid = 1, xl_info = 0, ReadRecPtr = 7\<rparr>"


lemmas replay_example_defs =
  close_block_def next_block_def zero_bufdata_def
  example_config_def example_world_def example_slot_def example_page_def
  UndoLogAdjustPhysicalRange_def log_event_def set_page_def
  UndoPageOverwrite_def UndoPageSkipOverwrite_def bytes_on_page_def address_defs

fun is_XactUndoCloseRecordSet :: "event \<Rightarrow> bool" where
  "is_XactUndoCloseRecordSet (EvXactUndoCloseRecordSet th b e c p) = True"
| "is_XactUndoCloseRecordSet _ = False"

lemma UndoReplay_final_check:
  assumes "UndoReplay_blocks K xl record_size 0 (blocks xl) (initial_replay_state record_data) w
             = (Inr st, w1)"
  shows "fst (UndoReplay K xl record_data record_size w)
           = (if rs_header_more st \<or> rs_record_more st
              then Inl (Elog ERROR ''undo data didn't fit on registered buffers'')
              else Inr (InvalidUndoRecPtr K))"
  by (simp add: UndoReplay_def assms)

text \<open>
  C5.  When the loop over the registered blocks has ended, \<^verbatim>\<open>UndoReplay\<close> raises its error
  for a header or a record that still waits for a next buffer (lemma
  \<open>UndoReplay_final_check\<close>), but not for a chunk size: on \<open>dangling_close_record\<close> the loop
  ends with \<^verbatim>\<open>chunk_size_more\<close> set and four of the eight bytes of the size written, and the
  function returns normally.
\<close>

theorem UndoReplay_returns_with_chunk_size_pending:
  "case UndoReplay example_config dangling_close_record None 0 example_world of
     (r, st, w) \<Rightarrow>
       r = Inr (InvalidUndoRecPtr example_config)
       \<and> map_option rs_chunk_size_more st = Some True
       \<and> map_option rs_chunk_size_offset st = Some 4"
  by (simp add: replay_defs dangling_close_record_def replay_example_defs)

text \<open>
  C7.  The events of the replay of \<open>straddling_commit_record\<close>, in order.  The call of
  \<^verbatim>\<open>XactUndoCloseRecordSet\<close> follows the overwrite of the first four bytes of the size on
  block 0 and comes before the overwrite of the other four bytes on block 1.
\<close>

theorem UndoReplay_callback_precedes_second_overwrite:
  "trace (snd (snd (UndoReplay example_config straddling_commit_record None 0 example_world)))
     = [EvUndoLogAdjustPhysicalRange 0 0 8192,
        EvXLogReadBufferForRedoExtended 0 RBM_NORMAL BLK_NEEDS_REDO,
        EvUndoPageOverwrite (BufferTag 0 0) 8188 0 8 100,
        EvXactUndoCloseRecordSet [] 8188 8288 True False,
        EvUndoLogAdjustPhysicalRange 0 0 16384,
        EvXLogReadBufferForRedoExtended 1 RBM_NORMAL BLK_NEEDS_REDO,
        EvUndoPageOverwrite (BufferTag 0 1) 24 4 8 100,
        EvMarkBufferDirty (BufferTag 0 1),
        EvMarkBufferDirty (BufferTag 0 0), EvPageSetLSN (BufferTag 0 0) 7,
        EvUnlockReleaseBuffer (BufferTag 0 0),
        EvMarkBufferDirty (BufferTag 0 1), EvPageSetLSN (BufferTag 0 1) 7,
        EvUnlockReleaseBuffer (BufferTag 0 1)]"
  by (simp add: replay_defs straddling_commit_record_def replay_example_defs)

lemma closing_record_kind_cases:
  assumes "distinct [XLOG_XACT_COMMIT K, XLOG_XACT_COMMIT_PREPARED K, XLOG_XACT_ABORT K,
                     XLOG_XACT_ABORT_PREPARED K, XLOG_XACT_PREPARE K]"
  shows "closing_record_kind K xl =
           (if xl_rmid xl = RM_XACT_ID K
               \<and> xact_op K xl \<in> {XLOG_XACT_COMMIT K, XLOG_XACT_COMMIT_PREPARED K, XLOG_XACT_ABORT K,
                         XLOG_XACT_ABORT_PREPARED K, XLOG_XACT_PREPARE K}
            then Inr (xact_op K xl = XLOG_XACT_COMMIT K
                        \<or> xact_op K xl = XLOG_XACT_COMMIT_PREPARED K,
                      xact_op K xl = XLOG_XACT_PREPARE K)
            else if xl_rmid xl \<noteq> RM_XACT_ID K
            then Inl (Elog ERROR ''transaction undo closed by unexpected rmgr'')
            else Inl (Elog ERROR ''transaction undo closed by unexpected record''))"
  using assms unfolding closing_record_kind_def Let_def by auto

lemma replay_close_chunk_callback:
  assumes "URS_XLOG_CLOSE_CHUNK \<in> flags bd" "URS_XLOG_CLOSE \<in> flags bd"
    and "bd_urs_type bd = URST_TRANSACTION K"
  shows "case replay_close_chunk K xl blk bd skip st w of
           (fl, w') \<Rightarrow>
             (case closing_record_kind K xl of
                Inl e \<Rightarrow>
                  fl = Raise e
                  \<and> (\<exists>evs. trace w' = trace w @ evs \<and> filter is_XactUndoCloseRecordSet evs = [])
              | Inr (c, p) \<Rightarrow>
                  (\<exists>evs begin_urp end_urp.
                     trace w' = trace w @ evs
                     \<and> filter is_XactUndoCloseRecordSet evs
                         = [EvXactUndoCloseRecordSet (bd_type_header bd) begin_urp end_urp c p])
                  \<and> (\<forall>e. fl \<noteq> Raise e))"
  using assms
  by (cases skip; cases "closing_record_kind K xl")
    (auto simp add: replay_close_chunk_def Let_def log_event_def set_page_def
      UndoPageOverwrite_def split: prod.splits)

text \<open>
  A block that reaches the close of a chunk.  For buf-data that carries
  \<^verbatim>\<open>URS_XLOG_CLOSE_CHUNK\<close> and \<^verbatim>\<open>URS_XLOG_CLOSE\<close> and whose type is \<^verbatim>\<open>URST_TRANSACTION\<close>:
  if the WAL record belongs to \<^verbatim>\<open>RM_XACT_ID\<close> and its operation is one of commit, commit
  prepared, abort, abort prepared and prepare, then no error is raised and
  \<^verbatim>\<open>XactUndoCloseRecordSet\<close> is called exactly once, with \<^verbatim>\<open>isCommit\<close> true iff the operation
  is commit or commit prepared and \<^verbatim>\<open>isPrepare\<close> true iff it is prepare; otherwise an ERROR is
  raised and the callback is not called.  The operations are the distinct labels of the
  \<^verbatim>\<open>switch\<close>.  This is a statement about the last stage of the loop body only: a block
  on which a header or a record spills leaves the body before that stage.
\<close>

lemma UndoReplay_close_callback_kind:
  assumes "URS_XLOG_CLOSE_CHUNK \<in> flags bd" "URS_XLOG_CLOSE \<in> flags bd"
    and "bd_urs_type bd = URST_TRANSACTION K"
    and "distinct [XLOG_XACT_COMMIT K, XLOG_XACT_COMMIT_PREPARED K, XLOG_XACT_ABORT K,
                   XLOG_XACT_ABORT_PREPARED K, XLOG_XACT_PREPARE K]"
  shows "case replay_close_chunk K xl blk bd skip st w of
           (fl, w') \<Rightarrow>
             if xl_rmid xl = RM_XACT_ID K
                \<and> xact_op K xl \<in> {XLOG_XACT_COMMIT K, XLOG_XACT_COMMIT_PREPARED K,
                      XLOG_XACT_ABORT K, XLOG_XACT_ABORT_PREPARED K, XLOG_XACT_PREPARE K}
             then (\<exists>evs begin_urp end_urp.
                     trace w' = trace w @ evs
                     \<and> filter is_XactUndoCloseRecordSet evs
                         = [EvXactUndoCloseRecordSet (bd_type_header bd) begin_urp end_urp
                              (xact_op K xl = XLOG_XACT_COMMIT K
                                 \<or> xact_op K xl = XLOG_XACT_COMMIT_PREPARED K)
                              (xact_op K xl = XLOG_XACT_PREPARE K)])
                  \<and> (\<forall>e. fl \<noteq> Raise e)
             else (\<exists>m. fl = Raise (Elog ERROR m))
                  \<and> (\<exists>evs. trace w' = trace w @ evs
                         \<and> filter is_XactUndoCloseRecordSet evs = [])"
proof -
  obtain fl w' where r: "replay_close_chunk K xl blk bd skip st w = (fl, w')"
    by (cases "replay_close_chunk K xl blk bd skip st w")
  note c = replay_close_chunk_callback [OF assms(1-3), where xl = xl and blk = blk and skip = skip
      and st = st and w = w, unfolded r, simplified]
  note k = closing_record_kind_cases [OF assms(4), where xl = xl]
  show ?thesis
  proof (cases "xl_rmid xl = RM_XACT_ID K
                \<and> xact_op K xl \<in> {XLOG_XACT_COMMIT K, XLOG_XACT_COMMIT_PREPARED K,
                      XLOG_XACT_ABORT K, XLOG_XACT_ABORT_PREPARED K, XLOG_XACT_PREPARE K}")
    case True
    with k have "closing_record_kind K xl
                   = Inr (xact_op K xl = XLOG_XACT_COMMIT K
                            \<or> xact_op K xl = XLOG_XACT_COMMIT_PREPARED K,
                          xact_op K xl = XLOG_XACT_PREPARE K)"
      by simp
    with c True show ?thesis unfolding r by simp
  next
    case False
    with k have "\<exists>m. closing_record_kind K xl = Inl (Elog ERROR m)"
      by (simp split: if_splits)
    with c False show ?thesis unfolding r by auto
  qed
qed

lemma UndoReplay_close_callback_kind_example:
  "case replay_close_chunk example_config straddling_commit_record (close_block 84)
          (the (decoded_bufdata (close_block 84))) False (initial_replay_state None)
          example_world of
     (fl, w') \<Rightarrow>
       (\<exists>evs begin_urp end_urp.
          trace w' = trace example_world @ evs
          \<and> filter is_XactUndoCloseRecordSet evs
              = [EvXactUndoCloseRecordSet [] begin_urp end_urp True False])
       \<and> (\<forall>e. fl \<noteq> Raise e)"
proof -
  have h: "URS_XLOG_CLOSE_CHUNK \<in> flags (the (decoded_bufdata (close_block 84)))"
    "URS_XLOG_CLOSE \<in> flags (the (decoded_bufdata (close_block 84)))"
    "bd_urs_type (the (decoded_bufdata (close_block 84))) = URST_TRANSACTION example_config"
    "distinct [XLOG_XACT_COMMIT example_config, XLOG_XACT_COMMIT_PREPARED example_config,
               XLOG_XACT_ABORT example_config, XLOG_XACT_ABORT_PREPARED example_config,
               XLOG_XACT_PREPARE example_config]"
    by (simp_all add: close_block_def zero_bufdata_def example_config_def)
  have o: "xl_rmid straddling_commit_record = RM_XACT_ID example_config"
    "xact_op example_config straddling_commit_record = XLOG_XACT_COMMIT example_config"
    "bd_type_header (the (decoded_bufdata (close_block 84))) = []"
    "XLOG_XACT_COMMIT example_config \<noteq> XLOG_XACT_PREPARE example_config"
    by (simp_all add: straddling_commit_record_def xact_op_def example_config_def
        close_block_def zero_bufdata_def)
  show ?thesis
    using UndoReplay_close_callback_kind [OF h, where xl = straddling_commit_record
        and blk = "close_block 84" and skip = False and st = "initial_replay_state None"
        and w = example_world]
    by (simp add: o)
qed

lemma replay_before_close_nothing_to_do:
  assumes "URS_XLOG_INSERT \<notin> flags bd" "URS_XLOG_CREATE \<notin> flags bd"
    and "URS_XLOG_ADD_CHUNK \<notin> flags bd" "rs_record_data st = None"
    and "\<not> rs_header_more st" "\<not> rs_record_more st" "\<not> rs_chunk_size_more st"
  shows "replay_before_close K blk bd skip record_size cs st w = (GoOn st, w)"
  using assms
  by (simp add: replay_before_close_def replay_insertion_point_def replay_pending_def
      replay_create_def replay_add_chunk_def replay_record_def and_then_def)

lemma UndoReplay_block_closing:
  assumes "decoded_bufdata blk = Some bd"
    and "URS_XLOG_INSERT \<notin> flags bd" "URS_XLOG_CREATE \<notin> flags bd"
    and "URS_XLOG_ADD_CHUNK \<notin> flags bd" "rs_record_data st = None"
    and "\<not> rs_header_more st" "\<not> rs_record_more st" "\<not> rs_chunk_size_more st"
    and "URS_XLOG_CLOSE_CHUNK \<in> flags bd" "URS_XLOG_CLOSE \<in> flags bd"
    and "bd_urs_type bd = URST_TRANSACTION K"
  shows "case UndoReplay_block K xl record_size block_id blk st w of
           (r, w') \<Rightarrow>
             (case closing_record_kind K xl of
                Inl e \<Rightarrow>
                  r = Inl e
                  \<and> (\<exists>evs. trace w' = trace w @ evs \<and> filter is_XactUndoCloseRecordSet evs = [])
              | Inr (c, p) \<Rightarrow>
                  (\<exists>st'. r = Inr st' \<and> \<not> rs_header_more st' \<and> \<not> rs_record_more st'
                          \<and> length (rs_buffers st') = Suc (length (rs_buffers st)))
                  \<and> (\<exists>evs begin_urp end_urp.
                        trace w' = trace w @ evs
                        \<and> filter is_XactUndoCloseRecordSet evs
                            = [EvXactUndoCloseRecordSet (bd_type_header bd) begin_urp end_urp c p]))"
  using assms
  by (cases "redo_action blk = BLK_RESTORED \<or> redo_action blk = BLK_NOTFOUND";
      cases "closing_record_kind K xl")
    (auto simp add: UndoReplay_block_def replay_before_close_nothing_to_do and_then_def
      replay_close_chunk_def Let_def XLogReadBufferForRedoExtended_def
      UndoLogAdjustPhysicalRange_def log_event_def set_page_def UndoPageOverwrite_def
      split: prod.splits)

lemma release_replay_buffer_no_callback:
  "filter is_XactUndoCloseRecordSet (concat (map (release_replay_buffer lsn) bs)) = []"
  by (induction bs) (auto simp add: release_replay_buffer_def split: Buffer.splits)

lemma UndoReplay_closing_record:
  assumes "blocks xl = [blk]" "in_use blk" "rnode_dbNode blk = UndoDbOid K"
    and "decoded_bufdata blk = Some bd"
    and "URS_XLOG_INSERT \<notin> flags bd" "URS_XLOG_CREATE \<notin> flags bd"
    and "URS_XLOG_ADD_CHUNK \<notin> flags bd"
    and "URS_XLOG_CLOSE_CHUNK \<in> flags bd" "URS_XLOG_CLOSE \<in> flags bd"
    and "bd_urs_type bd = URST_TRANSACTION K"
    and "distinct [XLOG_XACT_COMMIT K, XLOG_XACT_COMMIT_PREPARED K, XLOG_XACT_ABORT K,
                   XLOG_XACT_ABORT_PREPARED K, XLOG_XACT_PREPARE K]"
  shows "case UndoReplay K xl None record_size w of
           (r, st, w') \<Rightarrow>
             if xl_rmid xl = RM_XACT_ID K
                \<and> xact_op K xl \<in> {XLOG_XACT_COMMIT K, XLOG_XACT_COMMIT_PREPARED K,
                      XLOG_XACT_ABORT K, XLOG_XACT_ABORT_PREPARED K, XLOG_XACT_PREPARE K}
             then r = Inr (InvalidUndoRecPtr K)
                  \<and> (\<exists>evs begin_urp end_urp.
                        trace w' = trace w @ evs
                        \<and> filter is_XactUndoCloseRecordSet evs
                            = [EvXactUndoCloseRecordSet (bd_type_header bd) begin_urp end_urp
                                 (xact_op K xl = XLOG_XACT_COMMIT K
                                    \<or> xact_op K xl = XLOG_XACT_COMMIT_PREPARED K)
                                 (xact_op K xl = XLOG_XACT_PREPARE K)])
             else (\<exists>m. r = Inl (Elog ERROR m))
                  \<and> (\<exists>evs. trace w' = trace w @ evs
                         \<and> filter is_XactUndoCloseRecordSet evs = [])"
proof -
  obtain r1 w1 where
    r: "UndoReplay_block K xl record_size 0 blk (initial_replay_state None) w = (r1, w1)"
    by (cases "UndoReplay_block K xl record_size 0 blk (initial_replay_state None) w")
  have i: "rs_record_data (initial_replay_state None) = None"
    "\<not> rs_header_more (initial_replay_state None)"
    "\<not> rs_record_more (initial_replay_state None)"
    "\<not> rs_chunk_size_more (initial_replay_state None)"
    by (simp_all add: initial_replay_state_def)
  note c = UndoReplay_block_closing [OF assms(4-7) i assms(8-10), where xl = xl
      and record_size = record_size and block_id = 0 and w = w, unfolded r, simplified]
  note k = closing_record_kind_cases [OF assms(11), where xl = xl]
  have u: "UndoReplay K xl None record_size w =
             (case r1 of
                Inl e \<Rightarrow> (Inl e, None, w1)
              | Inr st \<Rightarrow>
                  if rs_header_more st \<or> rs_record_more st
                  then (Inl (Elog ERROR ''undo data didn't fit on registered buffers''), Some st, w1)
                  else (Inr (InvalidUndoRecPtr K), Some st,
                        log_event (concat (map (release_replay_buffer (ReadRecPtr xl))
                                     (rs_buffers st))) w1))"
    by (simp add: UndoReplay_def assms(1-3) r split: sum.splits)
  show ?thesis
  proof (cases "xl_rmid xl = RM_XACT_ID K
                \<and> xact_op K xl \<in> {XLOG_XACT_COMMIT K, XLOG_XACT_COMMIT_PREPARED K,
                      XLOG_XACT_ABORT K, XLOG_XACT_ABORT_PREPARED K, XLOG_XACT_PREPARE K}")
    case True
    with k have "closing_record_kind K xl
                   = Inr (xact_op K xl = XLOG_XACT_COMMIT K
                            \<or> xact_op K xl = XLOG_XACT_COMMIT_PREPARED K,
                          xact_op K xl = XLOG_XACT_PREPARE K)"
      by simp
    with c obtain st' evs begin_urp end_urp where
      s: "r1 = Inr st'" "\<not> rs_header_more st'" "\<not> rs_record_more st'"
      and e: "trace w1 = trace w @ evs"
        "filter is_XactUndoCloseRecordSet evs
           = [EvXactUndoCloseRecordSet (bd_type_header bd) begin_urp end_urp
                (xact_op K xl = XLOG_XACT_COMMIT K \<or> xact_op K xl = XLOG_XACT_COMMIT_PREPARED K)
                (xact_op K xl = XLOG_XACT_PREPARE K)]"
      by auto
    have "trace (log_event (concat (map (release_replay_buffer (ReadRecPtr xl))
                 (rs_buffers st'))) w1)
            = trace w @ (evs @ concat (map (release_replay_buffer (ReadRecPtr xl))
                (rs_buffers st')))"
      by (simp add: log_event_def e(1))
    moreover have "filter is_XactUndoCloseRecordSet
                     (evs @ concat (map (release_replay_buffer (ReadRecPtr xl)) (rs_buffers st')))
                     = [EvXactUndoCloseRecordSet (bd_type_header bd) begin_urp end_urp
                          (xact_op K xl = XLOG_XACT_COMMIT K
                             \<or> xact_op K xl = XLOG_XACT_COMMIT_PREPARED K)
                          (xact_op K xl = XLOG_XACT_PREPARE K)]"
      by (simp add: e(2) release_replay_buffer_no_callback)
    ultimately show ?thesis
      unfolding u using True s by (simp del: filter_append)
  next
    case False
    with k obtain m where "closing_record_kind K xl = Inl (Elog ERROR m)"
      by (auto split: if_splits)
    with c have "r1 = Inl (Elog ERROR m)"
      "\<exists>evs. trace w1 = trace w @ evs \<and> filter is_XactUndoCloseRecordSet evs = []"
      by auto
    with False show ?thesis unfolding u by simp
  qed
qed

lemma replay_close_chunk_straddling:
  assumes "URS_XLOG_CLOSE_CHUNK \<in> flags bd" "URS_XLOG_CLOSE \<in> flags bd"
    and "bd_urs_type bd = URST_TRANSACTION K"
    and "closing_record_kind K xl = Inr (c, p)"
    and "BLCKSZ K - 8 < chunk_size_page_offset bd"
  shows "\<exists>st' w' evs begin_urp end_urp.
           replay_close_chunk K xl blk bd False st w = (NextBlock st', w')
           \<and> rs_chunk_size_more st' \<and> rs_chunk_size_offset st' < 8
           \<and> trace w' = trace w @ evs
                 @ [EvXactUndoCloseRecordSet (bd_type_header bd) begin_urp end_urp c p]"
  using assms
  by (simp add: replay_close_chunk_def Let_def log_event_def set_page_def
      UndoPageOverwrite_def bytes_on_page_def)

section \<open>An insertion and a close in one WAL record\<close>

text \<open>\<^verbatim>\<open>UndoPrepareToMarkChunkClosed\<close> looks for a buffer that is already pinned ``to support
  inserting and closing as part of the same WAL record'', and \<^verbatim>\<open>UndoXLogRegisterBuffers\<close> is
  to be called ``after an UndoInsert() and any UndoMarkClosed() calls''.  Scenario: a
  transaction's record set has one chunk, whose header is at offset 24 of log 0, and the
  insert pointer of the log is at 8180, twelve bytes before the end of block 0.  One WAL
  record inserts 16 bytes, which spill onto block 1, and closes the set.\<close>

definition closing_urs :: UndoRecordSet where
  "closing_urs =
     \<lparr>urs_type = 84, persistence = RELPERSISTENCE_PERMANENT,
      chunks = [\<lparr>chunk_slot = 0, chunk_header_written = True, chunk_header_offset = 24,
                 chunk_header_buffer_index = [- 1, - 1]\<rparr>],
      buffers = [],
      need_chunk_header = False, type_header = [1, 2, 3, 4], type_header_size = 4,
      need_type_header = False, urs_begin = 0, urs_slot = Some 0, chunk_start = 24,
      recent_end = 0, urs_state = URS_STATE_DIRTY, nestingLevel = 1\<rparr>"

definition closing_world :: world where
  "closing_world =
     example_world\<lparr>slots := (\<lambda>l. example_slot l (if l = 0 then 8180 else 24)), freelist := [1, 2]\<rparr>"


text \<open>The world and the set after \<^verbatim>\<open>UndoPrepareToInsert\<close>, and the set after
  \<^verbatim>\<open>UndoPrepareToMarkClosed\<close>, which finds the header's page among the pinned buffers.\<close>

definition closing_world_1 :: world where
  "closing_world_1 =
     closing_world
       \<lparr>slots := (slots closing_world)(0 := (example_slot 0 8180)\<lparr>slot_end := 8220\<rparr>),
        trace := [EvLWLockAcquire 0 LW_SHARED, EvLWLockRelease 0,
                  EvUndoLogAdjustPhysicalRange 0 0 8220,
                  EvReadBuffer 0 0 RBM_NORMAL, EvReadBuffer 0 1 RBM_ZERO,
                  EvLockBuffer (BufferTag 0 0) LW_EXCLUSIVE,
                  EvLockBuffer (BufferTag 0 1) LW_EXCLUSIVE]\<rparr>"

definition closing_urs_1 :: UndoRecordSet where
  "closing_urs_1 =
     closing_urs
       \<lparr>buffers := [\<lparr>buffer = BufferTag 0 0, is_new = False, needs_init = False,
                      bufdata = zero_bufdata\<rparr>,
                    \<lparr>buffer = BufferTag 0 1, is_new = True, needs_init = True,
                      bufdata = zero_bufdata\<rparr>],
        urs_begin := 8180\<rparr>"

lemma run_closing_prepare:
  "UndoPrepareToInsert example_config 16 (closing_world, closing_urs)
     = Some (Inr 8180, closing_world_1, closing_urs_1)"
  apply (simp add: UndoPrepareToInsert_def)
  apply (subst UndoPrepareToInsert_reserve.simps)
  apply (simp add: closing_urs_def closing_world_def example_world_def reserve_physical_undo_def example_slot_def Let_def log_event_def planned_header_size_def
     example_config_def address_defs UndoLogAdjustPhysicalRange_def)
  apply (subst pin_buffers.simps)
  apply (simp add: address_defs example_config_def Let_def log_event_def)
  apply (subst pin_buffers.simps)
  apply (simp add: address_defs example_config_def Let_def log_event_def)
  apply (subst pin_buffers.simps)
  apply (simp add: log_event_def address_defs example_config_def closing_world_1_def closing_urs_1_def
     closing_urs_def closing_world_def example_world_def example_slot_def)
  done


definition closing_urs_2 :: UndoRecordSet where
  "closing_urs_2 =
     closing_urs_1
       \<lparr>chunks := [\<lparr>chunk_slot = 0, chunk_header_written = True, chunk_header_offset = 24,
                     chunk_header_buffer_index = [0, - 1]\<rparr>]\<rparr>"

lemmas closing_defs =
  closing_world_1_def closing_urs_1_def closing_urs_2_def closing_urs_def closing_world_def
  example_world_def example_slot_def example_page_def

lemma run_closing_prepare_close:
  "UndoPrepareToMarkClosed example_config (closing_world_1, closing_urs_1)
     = (Inr True, closing_world_1, closing_urs_2)"
  by (simp add: UndoPrepareToMarkClosed_def UndoPrepareToMarkChunkClosed_def closing_defs
     Let_def find_or_read_buffer_def set_chunk_header_buffer_index_def example_config_def)



text \<open>\<^verbatim>\<open>UndoXLogRegisterBuffers\<close> registers every buffer of a set that needs WAL, with
  \<^verbatim>\<open>REGBUF_WILL_INIT\<close> for a new one, and encodes its buf-data when it has flags.
  Modelled from the spec: the encoding and decoding of buf-data are not among the sources;
  replay is taken to decode what was staged.  The result is the list of blocks as replay
  finds them when every page needs redo.\<close>

definition UndoXLogRegisterBuffers :: "config \<Rightarrow> UndoRecordSet \<Rightarrow> DecodedBkpBlock list" where
  "UndoXLogRegisterBuffers K urs =
     (if \<not> URSNeedsWAL urs then []
      else map (\<lambda>u. case buffer u of
                       BufferTag l b \<Rightarrow>
                         \<lparr>in_use = True, rnode_dbNode = UndoDbOid K, rnode_relNode = l,
                          blkno = b, will_init = is_new u, redo_action = BLK_NEEDS_REDO,
                          decoded_bufdata =
                            Some (if flags (bufdata u) = {} then zero_bufdata else bufdata u)\<rparr>
                     | InvalidBuffer \<Rightarrow>
                         \<lparr>in_use = False, rnode_dbNode = UndoDbOid K, rnode_relNode = 0,
                          blkno = 0, will_init = False, redo_action = BLK_NOTFOUND,
                          decoded_bufdata = None\<rparr>)
             (buffers urs))"

text \<open>The WAL record of the insertion and close above, for a resource manager \<open>rmid\<close> and
  info bits \<open>info\<close>: block 0 carries the insertion point, the close of the chunk and the
  close of the set; block 1 is the new page onto which the record spills.\<close>

definition spilling_close_record :: "nat \<Rightarrow> 8 word \<Rightarrow> XLogReaderState" where
  "spilling_close_record rmid info =
     \<lparr>blocks =
        [\<lparr>in_use = True, rnode_dbNode = 9, rnode_relNode = 0, blkno = 0, will_init = False,
          redo_action = BLK_NEEDS_REDO,
          decoded_bufdata = Some (zero_bufdata
            \<lparr>flags := {URS_XLOG_INSERT, URS_XLOG_CLOSE_CHUNK, URS_XLOG_CLOSE},
             insert_page_offset := 8180, bd_urs_type := 84, bd_type_header := [1, 2, 3, 4],
             bd_type_header_size := 4, chunk_size_page_offset := 24, chunk_size := 8196\<rparr>)\<rparr>,
         \<lparr>in_use = True, rnode_dbNode = 9, rnode_relNode = 0, blkno = 1, will_init = True,
          redo_action = BLK_NEEDS_REDO,
          decoded_bufdata = Some (zero_bufdata
            \<lparr>flags := {URS_XLOG_INSERT, URS_XLOG_ADD_PAGE},
             insert_page_offset := 24, chunk_header_location := 24, bd_urs_type := 84\<rparr>)\<rparr>],
      xl_rmid = rmid, xl_info = info, ReadRecPtr = 7\<rparr>"

text \<open>\<^verbatim>\<open>UndoInsert\<close> and \<^verbatim>\<open>UndoMarkClosed\<close> then write the record on both blocks and the
  size 8196 into the chunk header, and the blocks that the set registers are those of
  \<open>spilling_close_record\<close>.\<close>

lemma run_closing_insert_and_close:
  "case UndoInsert example_config record16 16 (closing_world_1, closing_urs_2) of
     (r3, s3) \<Rightarrow>
       (case UndoMarkClosed example_config s3 of
          (r4, w4, urs4) \<Rightarrow>
            r3 = Inr () \<and> r4 = Inr () \<and> urs_state urs4 = URS_STATE_CLOSED
            \<and> drop (length (trace closing_world_1)) (trace w4)
                = [EvUndoPageInsertRecord (BufferTag 0 0) 8180 0 16 record16 24 84,
                   EvMarkBufferDirty (BufferTag 0 0), EvUndoPageInit (BufferTag 0 1),
                   EvUndoPageInsertRecord (BufferTag 0 1) 24 12 16 record16 24 84,
                   EvMarkBufferDirty (BufferTag 0 1), EvLWLockAcquire 0 LW_EXCLUSIVE,
                   EvStoreInsert 0 8220, EvLWLockRelease 0,
                   EvUndoPageOverwrite (BufferTag 0 0) 24 0 8 8196,
                   EvMarkBufferDirty (BufferTag 0 0)]
            \<and> UndoXLogRegisterBuffers example_config urs4
                = blocks (spilling_close_record rmid info))"
  apply (simp add: UndoInsert_def closing_urs_2_def closing_urs_1_def closing_urs_def Let_def)
  apply (subst UndoInsert_record_loop.simps)
  apply (simp add: UndoInsert_page_defs Let_def close_previous_chunk_def
      address_defs closing_defs example_config_def)
  apply (subst UndoInsert_record_loop.simps)
  apply (simp add: UndoInsert_page_defs Let_def close_previous_chunk_def
      address_defs closing_defs example_config_def)
  apply (simp add: UndoMarkClosed_def UndoMarkChunkClosed_def stage_close_chunk_def Let_def URSNeedsWAL_def)
  apply (subst UndoMarkChunkClosed_loop.simps)
  apply (simp add: UndoMarkPageClosed_def Let_def UndoPageOverwrite_def bytes_on_page_def
      UndoInsert_page_defs example_config_def)
  apply (subst UndoMarkChunkClosed_loop.simps)
  apply (simp add: UndoXLogRegisterBuffers_def URSNeedsWAL_def spilling_close_record_def
      zero_bufdata_def example_config_def)
  apply auto
  done

text \<open>
  C8.  The replay of \<open>spilling_close_record\<close>, whatever its resource manager and info bits.
  Block 0 carries \<^verbatim>\<open>URS_XLOG_CLOSE_CHUNK\<close> and \<^verbatim>\<open>URS_XLOG_CLOSE\<close> for a set of type
  \<^verbatim>\<open>URST_TRANSACTION\<close>, but the record inserted on it spills onto block 1, and the loop body
  goes on to the next block before it looks at the close.  \<^verbatim>\<open>UndoReplay\<close> returns normally:
  \<^verbatim>\<open>XactUndoCloseRecordSet\<close> is not called, no error is raised for a resource manager other
  than \<^verbatim>\<open>RM_XACT_ID\<close>, and the size of the chunk, which the insertion and close had written, is
  not written.
\<close>

theorem UndoReplay_skips_close_of_spilling_block:
  "\<forall>rmid info.
     (case UndoReplay example_config (spilling_close_record rmid info) (Some record16) 16
             closing_world of
        (res, st, w) \<Rightarrow>
          res = Inr (InvalidUndoRecPtr example_config)
          \<and> trace w
              = [EvUndoLogAdjustPhysicalRange 0 0 8192,
                 EvXLogReadBufferForRedoExtended 0 RBM_NORMAL BLK_NEEDS_REDO,
                 EvStoreInsert 0 8180,
                 EvUndoPageInsertRecord (BufferTag 0 0) 8180 0 16 record16 0 84,
                 EvStoreInsert 0 8192,
                 EvUndoLogAdjustPhysicalRange 0 0 16384,
                 EvXLogReadBufferForRedoExtended 1 RBM_ZERO_AND_LOCK BLK_NEEDS_REDO,
                 EvStoreInsert 0 8216,
                 EvUndoPageInsertRecord (BufferTag 0 1) 24 12 16 record16 24 84,
                 EvMarkBufferDirty (BufferTag 0 1),
                 EvStoreInsert 0 8220,
                 EvMarkBufferDirty (BufferTag 0 0), EvPageSetLSN (BufferTag 0 0) 7,
                 EvUnlockReleaseBuffer (BufferTag 0 0),
                 EvMarkBufferDirty (BufferTag 0 1), EvPageSetLSN (BufferTag 0 1) 7,
                 EvUnlockReleaseBuffer (BufferTag 0 1)])"
  by (simp add: replay_defs spilling_close_record_def closing_defs zero_bufdata_def
      example_config_def UndoLogAdjustPhysicalRange_def log_event_def set_page_def
      UndoPageInsertRecord_def UndoPageOverwrite_def UndoPageSkipOverwrite_def bytes_on_page_def
      address_defs)

section \<open>Finding the final chunk after a crash\<close>

text \<open>At startup the chunk that holds the last byte before the insertion point of a
  log is looked for on the log's final page.  The size of a chunk is the first member of
  its header, read in the byte order of the host (little-endian, as the page codec writes
  it).\<close>

definition le_word64 :: "byte list \<Rightarrow> 64 word" where
  "le_word64 bs = foldr (\<lambda>b acc. ucast b + push_bit 8 acc) bs 0"

definition chunk_size_at :: "page \<Rightarrow> int \<Rightarrow> UndoLogOffset" where
  "chunk_size_at p off = le_word64 (read_bytes p off 8)"

text \<open>The conversion of a C \<^verbatim>\<open>int\<close> to \<^verbatim>\<open>size_t\<close>, which the comparisons of the loop apply
  to \<^verbatim>\<open>BLCKSZ\<close> and to \<^verbatim>\<open>BLCKSZ - sizeof(size)\<close>.\<close>

definition size_t :: "int \<Rightarrow> int" where
  "size_t x = x mod 2 ^ 64"

text \<open>The \<^verbatim>\<open>for (;;)\<close> loop.  \<^verbatim>\<open>page_offset\<close> is a \<^verbatim>\<open>uint16\<close> and \<^verbatim>\<open>size\<close> a 64-bit
  \<^verbatim>\<open>UndoLogOffset\<close>: the sum \<^verbatim>\<open>page_offset + size\<close> is a 64-bit unsigned sum, and
  \<^verbatim>\<open>page_offset += size\<close> keeps its low 16 bits.  The loop has no bound of its own, so the
  result is \<open>None\<close> when it does not end.\<close>

partial_function (option) find_start_of_chunk_on_final_page_loop ::
  "config \<Rightarrow> page \<Rightarrow> UndoRecPtr \<Rightarrow> 16 word \<Rightarrow> (error + UndoRecPtr) option" where
  "find_start_of_chunk_on_final_page_loop K p page_begin_urp page_offset =
     (if uint page_offset > size_t (BLCKSZ K - 8)
      then Some (Inl (Elog ERROR ''unexpectedly ran out of undo page while reading chunk size''))
      else if uint ((ucast page_offset :: 64 word) + chunk_size_at p (uint page_offset))
                > size_t (BLCKSZ K)
      then Some (Inl (Elog ERROR ''unexpectedly ran out of undo page while following chunks''))
      else if (ucast page_offset :: 64 word) + chunk_size_at p (uint page_offset)
                > ucast (ud_insertion_point p)
      then Some (Inl (Elog ERROR ''undo chunk exceeded expected range''))
      else if chunk_size_at p (uint page_offset) = 0
              \<or> (ucast page_offset :: 64 word) + chunk_size_at p (uint page_offset)
                    = ucast (ud_insertion_point p)
      then Some (Inr (page_begin_urp + ucast page_offset))
      else find_start_of_chunk_on_final_page_loop K p page_begin_urp
             (ucast ((ucast page_offset :: 64 word) + chunk_size_at p (uint page_offset))))"

definition find_start_of_chunk_on_final_page ::
  "config \<Rightarrow> page \<Rightarrow> UndoRecPtr \<Rightarrow> (error + UndoRecPtr) option" where
  "find_start_of_chunk_on_final_page K p page_begin_urp =
     (if ud_first_chunk p > 0
      then find_start_of_chunk_on_final_page_loop K p page_begin_urp (ud_first_chunk p)
      else Some (Inr (ud_continue_chunk p)))"

text \<open>The walk as the specification words it, over natural numbers: \<open>sz off\<close> is the
  size of the chunk whose header is at \<open>off\<close>, \<open>ip\<close> the insertion point of the page.  It
  adds each size to the offset and stops at the first chunk of size 0 or that ends at the
  insertion point, with an error when the size field would not fit on the page, when the
  chunk would end beyond the page, or beyond the insertion point.\<close>

function spec_final_chunk_walk :: "config \<Rightarrow> (nat \<Rightarrow> nat) \<Rightarrow> nat \<Rightarrow> nat \<Rightarrow> error + nat" where
  "spec_final_chunk_walk K sz ip off =
     (if int off + 8 > BLCKSZ K
      then Inl (Elog ERROR ''unexpectedly ran out of undo page while reading chunk size'')
      else if int (off + sz off) > BLCKSZ K
      then Inl (Elog ERROR ''unexpectedly ran out of undo page while following chunks'')
      else if off + sz off > ip
      then Inl (Elog ERROR ''undo chunk exceeded expected range'')
      else if sz off = 0 \<or> off + sz off = ip then Inr off
      else spec_final_chunk_walk K sz ip (off + sz off))"
  by pat_completeness auto
termination
  by (relation "measure (\<lambda>(K, sz, ip, off). nat (BLCKSZ K) - off)") auto

declare spec_final_chunk_walk.simps [simp del]

text \<open>A final page whose first chunk, at offset 100, has the size \<open>2\<^sup>6\<^sup>4 - 76\<close>, and that
  holds the number 7976 at offset 24.\<close>

definition wrapping_page :: page where
  "wrapping_page =
     \<lparr>ud_insertion_point = 8000, ud_first_chunk = 100, ud_continue_chunk = 0,
      bytes = write_bytes (write_bytes (\<lambda>_. 0) 100 (le_bytes64 (- 76)) 0 8)
                24 (le_bytes64 7976) 0 8\<rparr>"


text \<open>As long as no size on the page has its top bit set, the sums of the loop do not wrap
  around, the loop ends, and its result is that of the walk over natural numbers.\<close>

lemma size_t_id: "0 \<le> x \<Longrightarrow> x < 2 ^ 64 \<Longrightarrow> size_t x = x"
  by (simp add: size_t_def)

lemma find_start_of_chunk_on_final_page_loop_refines:
  assumes K: "8 \<le> BLCKSZ K" "BLCKSZ K \<le> 32768"
    and nw: "\<And>off. unat (chunk_size_at p off) < 2 ^ 63"
  shows "find_start_of_chunk_on_final_page_loop K p u po
           = Some (map_sum id (\<lambda>off. u + of_nat off)
               (spec_final_chunk_walk K (\<lambda>off. unat (chunk_size_at p (int off)))
                  (unat (ud_insertion_point p)) (unat po)))"
proof (induction "nat (BLCKSZ K) - unat po" arbitrary: po rule: less_induct)
  case less
  define s where "s = chunk_size_at p (uint po)"
  define e where "e = (ucast po :: 64 word) + s"
  define ip where "ip = ud_insertion_point p"
  have s': "chunk_size_at p (int (unat po)) = s" by (simp add: s_def)
  have po: "unat po < 65536" using unsigned_less [of po, where 'a = nat] by simp
  have upo: "unat (ucast po :: 64 word) = unat po"
    using po by (simp add: unsigned_ucast_eq take_bit_nat_eq_self)
  have "unat ip < 65536" using unsigned_less [of ip, where 'a = nat] by simp
  then have uip: "unat (ucast ip :: 64 word) = unat ip"
    by (simp add: unsigned_ucast_eq take_bit_nat_eq_self)
  have us: "unat s < 2 ^ 63" using nw [of "uint po"] by (simp add: s_def)
  have ue: "unat e = unat po + unat s"
    unfolding e_def using po us upo by (simp add: unat_add_lem [THEN iffD1])
  define B where "B = nat (BLCKSZ K)"
  have B: "BLCKSZ K = int B" "8 \<le> B" "B \<le> 32768" using K by (simp_all add: B_def)
  have st: "size_t (int B - 8) = int B - 8" "size_t (int B) = int B"
    using B by (simp_all add: size_t_id)
  have c1: "uint po > size_t (BLCKSZ K - 8) \<longleftrightarrow> unat po + 8 > B"
    unfolding B(1) st uint_nat by linarith
  have c2: "uint e > size_t (BLCKSZ K) \<longleftrightarrow> unat po + unat s > B"
    unfolding B(1) st uint_nat ue by linarith
  have d1: "int (unat po) + 8 > BLCKSZ K \<longleftrightarrow> unat po + 8 > B"
    unfolding B(1) by linarith
  have d2: "int (unat po + unat s) > BLCKSZ K \<longleftrightarrow> unat po + unat s > B"
    unfolding B(1) by linarith
  have c3: "e > ucast ip \<longleftrightarrow> unat po + unat s > unat ip"
    using ue uip by (simp add: word_less_nat_alt)
  have c4: "s = 0 \<longleftrightarrow> unat s = 0" by (simp add: unat_eq_0)
  have c5: "e = ucast ip \<longleftrightarrow> unat po + unat s = unat ip"
    using ue uip by (simp add: word_unat_eq_iff)
  have ur: "u + ucast po = u + of_nat (unat po)" by simp
  show ?case
  proof (cases "unat po + 8 > B \<or> unat po + unat s > B
                 \<or> unat po + unat s > unat ip \<or> unat s = 0 \<or> unat po + unat s = unat ip")
    case True
    then show ?thesis
      apply (subst find_start_of_chunk_on_final_page_loop.simps)
      apply (subst spec_final_chunk_walk.simps)
      unfolding s' s_def [symmetric] e_def [symmetric] ip_def [symmetric] c1 c2 c3 c4 c5 d1 d2
      using ur by auto
  next
    case False
    have le: "unat e \<le> 32768" using False B ue by simp
    have upo': "unat (ucast e :: 16 word) = unat e"
      using le by (simp add: unsigned_ucast_eq take_bit_nat_eq_self)
    have lt: "nat (BLCKSZ K) - unat (ucast e :: 16 word) < nat (BLCKSZ K) - unat po"
      using False upo' ue unfolding B_def by linarith
    from False show ?thesis
      apply (subst find_start_of_chunk_on_final_page_loop.simps)
      apply (subst spec_final_chunk_walk.simps)
      unfolding s' s_def [symmetric] e_def [symmetric] ip_def [symmetric] c1 c2 c3 c4 c5 d1 d2
      using less [OF lt] upo' ue by (simp add: ip_def)
  qed
qed

lemma find_start_of_chunk_on_final_page_continue_chunk:
  "ud_first_chunk p = 0 \<Longrightarrow> find_start_of_chunk_on_final_page K p u = Some (Inr (ud_continue_chunk p))"
  by (simp add: find_start_of_chunk_on_final_page_def)

lemma wrapping_page_sizes:
  "chunk_size_at wrapping_page 100 = 18446744073709551540"
  "chunk_size_at wrapping_page 24 = 7976"
  by (simp_all add: chunk_size_at_def wrapping_page_def read_bytes_def le_word64_def
      write_bytes_def le_bytes64_def upt_rec)

lemma wrapping_page_header:
  "ud_first_chunk wrapping_page = 100" "ud_insertion_point wrapping_page = 8000"
  by (simp_all add: wrapping_page_def)

text \<open>
  C6.  On \<open>wrapping_page\<close> the first chunk of the page reaches far beyond the page, for
  which the walk of the specification raises the error of a chunk that runs out of the
  page.  In the code the sum \<^verbatim>\<open>page_offset + size\<close> wraps around to 24, none of the three
  checks fires, the walk goes on at offset 24, and the function returns the location of
  offset 24 of the page as the start of the final chunk.
\<close>

theorem find_start_of_chunk_on_final_page_wraps:
  "find_start_of_chunk_on_final_page example_config wrapping_page 16384 = Some (Inr 16408)
   \<and> spec_final_chunk_walk example_config (\<lambda>off. unat (chunk_size_at wrapping_page (int off)))
         (unat (ud_insertion_point wrapping_page)) (unat (ud_first_chunk wrapping_page))
       = Inl (Elog ERROR ''unexpectedly ran out of undo page while following chunks'')"
proof
  have b: "BLCKSZ example_config = 8192" by (simp add: example_config_def)
  have "find_start_of_chunk_on_final_page_loop example_config wrapping_page 16384 24
          = Some (Inr 16408)"
    by (subst find_start_of_chunk_on_final_page_loop.simps)
      (simp add: wrapping_page_sizes wrapping_page_header b size_t_def)
  then have "find_start_of_chunk_on_final_page_loop example_config wrapping_page 16384 100
          = Some (Inr 16408)"
    by (subst find_start_of_chunk_on_final_page_loop.simps)
      (simp add: wrapping_page_sizes wrapping_page_header b size_t_def)
  then show "find_start_of_chunk_on_final_page example_config wrapping_page 16384
               = Some (Inr 16408)"
    by (simp add: find_start_of_chunk_on_final_page_def wrapping_page_header)
  show "spec_final_chunk_walk example_config (\<lambda>off. unat (chunk_size_at wrapping_page (int off)))
          (unat (ud_insertion_point wrapping_page)) (unat (ud_first_chunk wrapping_page))
        = Inl (Elog ERROR ''unexpectedly ran out of undo page while following chunks'')"
    by (subst spec_final_chunk_walk.simps) (simp add: wrapping_page_sizes wrapping_page_header b)
qed

text \<open>When the number found at offset 24 is 76 instead, the walk comes back to offset 100
  and the function never returns.\<close>

definition cyclic_page :: page where
  "cyclic_page =
     \<lparr>ud_insertion_point = 8000, ud_first_chunk = 100, ud_continue_chunk = 0,
      bytes = write_bytes (write_bytes (\<lambda>_. 0) 100 (le_bytes64 (- 76)) 0 8)
                24 (le_bytes64 76) 0 8\<rparr>"

lemma cyclic_page_sizes:
  "chunk_size_at cyclic_page 100 = 18446744073709551540"
  "chunk_size_at cyclic_page 24 = 76"
  "ud_first_chunk cyclic_page = 100" "ud_insertion_point cyclic_page = 8000"
  by (simp_all add: chunk_size_at_def cyclic_page_def read_bytes_def le_word64_def
      write_bytes_def le_bytes64_def upt_rec)


lemma find_start_of_chunk_on_final_page_loop_cycles:
  assumes "find_start_of_chunk_on_final_page_loop K p u po = Some y"
  shows "\<not> (K = example_config \<and> p = cyclic_page \<and> (po = 100 \<or> po = 24))"
proof (rule find_start_of_chunk_on_final_page_loop.raw_induct
    [where P = "\<lambda>K p u po y. \<not> (K = example_config \<and> p = cyclic_page \<and> (po = 100 \<or> po = 24))",
      OF _ assms], goal_cases)
  case (1 f K p u po y)
  note IH = 1(1) and body = 1(2)
  show ?case
  proof
    assume a: "K = example_config \<and> p = cyclic_page \<and> (po = 100 \<or> po = 24)"
    have b: "BLCKSZ example_config = 8192" by (simp add: example_config_def)
    from a consider "po = 100" | "po = 24" by blast
    then show False
    proof cases
      case 1
      with body a have "f K p u 24 = Some y"
        by (simp add: cyclic_page_sizes b size_t_def)
      from IH [OF this] a show False by simp
    next
      case 2
      with body a have "f K p u 100 = Some y"
        by (simp add: cyclic_page_sizes b size_t_def)
      from IH [OF this] a show False by simp
    qed
  qed
qed

lemma find_start_of_chunk_on_final_page_never_returns:
  "find_start_of_chunk_on_final_page example_config cyclic_page u = None"
proof (cases "find_start_of_chunk_on_final_page_loop example_config cyclic_page u 100")
  case None
  then show ?thesis
    by (simp add: find_start_of_chunk_on_final_page_def cyclic_page_sizes)
next
  case (Some y)
  from find_start_of_chunk_on_final_page_loop_cycles [OF this] show ?thesis by simp
qed

end
